theory Spec2Isabelle
  imports Complex_Main "HOL-Library.AList" "HOL-Library.Sublist"
begin

section \<open>Exceptions\<close>

text \<open>
  The Python exceptions that the modelled functions raise or handle. A function that may
  raise returns \<open>excepcion + 'a\<close>, with \<open>Inl\<close> for the raised exception.
\<close>

datatype excepcion =
    StopIteration
  | ValueError
  | TypeError
  | IOError
  | FileNotFoundError
  | OverflowError
  | EOFError
  | PicklingError
  | UnpicklingError
  | JSONDecodeError

section \<open>utils/generadores.py\<close>

subsection \<open>Tasks as the generators see them\<close>

text \<open>
  \<^verbatim>\<open>models/tarea.py\<close>: \<^verbatim>\<open>EstadoTarea\<close> is an enum whose \<^verbatim>\<open>.value\<close> is a string.
  The generators take \<^verbatim>\<open>List[Any]\<close> and guard every access with
  \<^verbatim>\<open>hasattr(t, 'estado')\<close>, so an element is either a task or some object without
  that attribute.
\<close>

datatype EstadoTarea = PENDIENTE | EN_PROGRESO | COMPLETADA

fun valor_estado :: "EstadoTarea \<Rightarrow> string" where
  "valor_estado PENDIENTE = ''pendiente''"
| "valor_estado EN_PROGRESO = ''en_progreso''"
| "valor_estado COMPLETADA = ''completada''"

record Tarea =
  titulo :: string
  estado :: EstadoTarea
  usuario_id :: "string option"

datatype objeto = ObjTarea Tarea | ObjOtro string

text \<open>\<^verbatim>\<open>hasattr(t, 'estado') and t.estado.value == v\<close>\<close>

definition estado_es :: "string \<Rightarrow> objeto \<Rightarrow> bool" where
  "estado_es v t = (case t of ObjTarea ta \<Rightarrow> valor_estado (estado ta) = v | ObjOtro _ \<Rightarrow> False)"


subsection \<open>IteradorTareas\<close>



record 'a IteradorTareas =
  tareas :: nat
  filtro :: "('a \<Rightarrow> bool) option"
  indice :: nat


text \<open>\<^verbatim>\<open>self.filtro is None or self.filtro(tarea)\<close>\<close>

definition acepta :: "'a IteradorTareas \<Rightarrow> 'a \<Rightarrow> bool" where
  "acepta it tarea = (case filtro it of None \<Rightarrow> True | Some f \<Rightarrow> f tarea)"




subsection \<open>Python floats\<close>

text \<open>
  A Python \<^verbatim>\<open>float\<close> is an IEEE 754 binary64 number, kept here as the rational number it
  stands for. The result of an arithmetic operation is the exact result rounded to the
  nearest binary64 number, a tie going to the even significand: the significand has 53
  bits, and the spacing of the numbers never falls below \<^verbatim>\<open>2**-1074\<close>, the spacing of
  the subnormal numbers. Magnitudes of \<^verbatim>\<open>2**1024\<close> and more, where Python overflows, do
  not occur below.
\<close>

text \<open>The number of binary digits of a positive integer.\<close>

function longitud_binaria :: "int \<Rightarrow> nat" where
  "longitud_binaria n = (if n \<le> 0 then 0 else Suc (longitud_binaria (n div 2)))"
  by pat_completeness auto
termination
  by (relation "measure nat") auto

declare longitud_binaria.simps [simp del]

text \<open>
  Powers of two with an integer exponent, and the exponent \<open>e\<close> with
  \<^verbatim>\<open>2**e <= x < 2**(e+1)\<close> for a positive \<open>x\<close>.
\<close>

definition dos_elevado :: "int \<Rightarrow> rat" where
  "dos_elevado e = (if 0 \<le> e then 2 ^ nat e else 1 / 2 ^ nat (- e))"

definition exponente :: "rat \<Rightarrow> int" where
  "exponente x =
     (let d = int (longitud_binaria (fst (quotient_of x)))
                - int (longitud_binaria (snd (quotient_of x)))
      in if dos_elevado d \<le> x then d else d - 1)"

text \<open>The nearest integer, a tie going to the even one.\<close>

definition redondeo_par :: "rat \<Rightarrow> int" where
  "redondeo_par y =
     (let f = \<lfloor>y\<rfloor>; d = y - of_int f
      in if d < 1 / 2 then f
         else if 1 / 2 < d then f + 1
         else if even f then f else f + 1)"

definition float_de :: "rat \<Rightarrow> rat" where
  "float_de x =
     (if x = 0 then 0
      else let e = max (exponente \<bar>x\<bar> - 52) (- 1074)
           in sgn x * of_int (redondeo_par (\<bar>x\<bar> / dos_elevado e)) * dos_elevado e)"

text \<open>
  \<^verbatim>\<open>a / b\<close> for two integers, the correctly rounded quotient (the divisor is not zero
  where it is used), and \<^verbatim>\<open>x * y\<close> for two floats; an integer factor such as \<open>100\<close>
  is converted to the float of the same value first.
\<close>

definition int_truediv :: "nat \<Rightarrow> nat \<Rightarrow> rat" where
  "int_truediv a b = float_de (of_nat a / of_nat b)"

definition float_mul :: "rat \<Rightarrow> rat \<Rightarrow> rat" where
  "float_mul x y = float_de (x * y)"

subsection \<open>generador_estadisticas_por_lote\<close>

text \<open>
  The dictionary yielded for each batch. \<^verbatim>\<open>porcentaje_completadas\<close> is the Python
  float \<^verbatim>\<open>completadas / total_tareas * 100\<close>, rounded after the division and after
  the multiplication, or the integer \<open>0\<close> for an empty batch.
\<close>

record estadisticas_lote =
  lote_numero :: nat
  rango_indices :: "nat \<times> nat"
  total_tareas :: nat
  pendientes :: nat
  en_progreso :: nat
  completadas :: nat
  porcentaje_completadas :: rat

text \<open>The body of the \<^verbatim>\<open>for\<close> loop at index \<open>i\<close>: \<^verbatim>\<open>lote = tareas[i:i + w]\<close>.\<close>

definition estadisticas_de_lote :: "objeto list \<Rightarrow> nat \<Rightarrow> nat \<Rightarrow> estadisticas_lote" where
  "estadisticas_de_lote ts w i =
     (let lote = take w (drop i ts);
          total = length lote;
          pend = length (filter (estado_es ''pendiente'') lote);
          prog = length (filter (estado_es ''en_progreso'') lote);
          comp = length (filter (estado_es ''completada'') lote)
      in \<lparr>lote_numero = i div w + 1,
          rango_indices = (i, min (i + w - 1) (length ts - 1)),
          total_tareas = total,
          pendientes = pend,
          en_progreso = prog,
          completadas = comp,
          porcentaje_completadas =
            (if total > 0 then float_mul (int_truediv comp total) 100 else 0)\<rparr>)"

text \<open>\<^verbatim>\<open>for i in range(i0, len(tareas), w)\<close> with a positive step \<open>w\<close>.\<close>

function lotes_desde :: "objeto list \<Rightarrow> nat \<Rightarrow> nat \<Rightarrow> estadisticas_lote list" where
  "lotes_desde ts w i =
     (if 0 < w \<and> i < length ts
      then estadisticas_de_lote ts w i # lotes_desde ts w (i + w)
      else [])"
  by pat_completeness auto
termination
  by (relation "measure (\<lambda>(ts, w, i). length ts - i)") auto

declare lotes_desde.simps [simp del]

text \<open>
  The generator, consumed to the end while the list stays as it is. \<^verbatim>\<open>range\<close> raises \<^verbatim>\<open>ValueError\<close> for a step of
  zero and is empty for a negative step (the start \<open>0\<close> is never above the length).
\<close>

definition generador_estadisticas_por_lote ::
    "objeto list \<Rightarrow> int \<Rightarrow> excepcion + estadisticas_lote list" where
  "generador_estadisticas_por_lote ts tamano_lote =
     (if tamano_lote = 0 then Inl ValueError
      else if tamano_lote < 0 then Inr []
      else Inr (lotes_desde ts (nat tamano_lote) 0))"

text \<open>The \<open>k\<close>-th consecutive window of size \<open>w\<close> of a list.\<close>

definition ventana :: "'a list \<Rightarrow> nat \<Rightarrow> nat \<Rightarrow> 'a list" where
  "ventana ts w k = take w (drop (k * w) ts)"

subsection \<open>filtro_compuesto\<close>

text \<open>
  \<^verbatim>\<open>filtro_compuesto(*filtros)\<close> returns the closure
  \<^verbatim>\<open>lambda item: all(filtro(item) for filtro in filtros)\<close>.
\<close>

definition filtro_compuesto :: "('a \<Rightarrow> bool) list \<Rightarrow> 'a \<Rightarrow> bool" where
  "filtro_compuesto filtros item = list_all (\<lambda>f. f item) filtros"

section \<open>services/persistencia.py\<close>

subsection \<open>Python values\<close>

text \<open>
  The data handed to the stores is \<^verbatim>\<open>Any\<close>. The model keeps the shapes the code
  distinguishes: \<^verbatim>\<open>None\<close>, booleans, integers, strings, lists, tuples, dictionaries
  (items in insertion order) and other objects. Of an object the stores only use its
  \<^verbatim>\<open>str()\<close> rendering (the \<^verbatim>\<open>default=str\<close> of \<^verbatim>\<open>json.dump\<close>), what \<^verbatim>\<open>to_dict()\<close>
  returns if it has that method, and whether \<^verbatim>\<open>pickle\<close> can serialise it. Floats are
  left out.
\<close>

datatype trato_pickle = Serializa | Lanza_PicklingError | Lanza_TypeError

datatype valor =
    VNone
  | VBool bool
  | VInt int
  | VStr string
  | VList "valor list"
  | VTuple "valor list"
  | VDict "(valor \<times> valor) list"
  | VObj string "valor option" trato_pickle

text \<open>Truth value of \<^verbatim>\<open>if datos:\<close> (objects without \<^verbatim>\<open>__bool__\<close> or \<^verbatim>\<open>__len__\<close> are true).\<close>

fun verdadero :: "valor \<Rightarrow> bool" where
  "verdadero VNone = False"
| "verdadero (VBool b) = b"
| "verdadero (VInt n) = (n \<noteq> 0)"
| "verdadero (VStr s) = (s \<noteq> [])"
| "verdadero (VList xs) = (xs \<noteq> [])"
| "verdadero (VTuple xs) = (xs \<noteq> [])"
| "verdadero (VDict kvs) = (kvs \<noteq> [])"
| "verdadero (VObj r d p) = True"

subsection \<open>Decimal rendering\<close>

definition digito :: "nat \<Rightarrow> char" where
  "digito n = ''0123456789'' ! n"

function str_nat :: "nat \<Rightarrow> string" where
  "str_nat n = (if n < 10 then [digito n] else str_nat (n div 10) @ [digito (n mod 10)])"
  by pat_completeness auto
termination
  by (relation "measure id") auto

declare str_nat.simps [simp del]

definition str_int :: "int \<Rightarrow> string" where
  "str_int i = (if i < 0 then CHR ''-'' # str_nat (nat (- i)) else str_nat (nat i))"

definition es_digito :: "char \<Rightarrow> bool" where
  "es_digito c = (c \<in> set ''0123456789'')"

text \<open>Zero padding to a minimal width, as \<^verbatim>\<open>%02d\<close> does.\<close>

definition rellenar :: "nat \<Rightarrow> string \<Rightarrow> string" where
  "rellenar k s = replicate (k - length s) CHR ''0'' @ s"

subsection \<open>The two codecs\<close>

text \<open>
  \<^verbatim>\<open>_preparar_datos_para_json\<close>: an object with \<^verbatim>\<open>to_dict\<close> is replaced by what the method
  returns, lists and the values of dictionaries are prepared recursively, anything else
  is returned as it is.
\<close>

fun preparar_datos_para_json :: "valor \<Rightarrow> valor" where
  "preparar_datos_para_json (VObj r (Some d) p) = d"
| "preparar_datos_para_json (VList xs) = VList (map preparar_datos_para_json xs)"
| "preparar_datos_para_json (VDict kvs) =
     VDict (map (\<lambda>kv. (fst kv, preparar_datos_para_json (snd kv))) kvs)"
| "preparar_datos_para_json v = v"

fun secuencia :: "'a option list \<Rightarrow> 'a list option" where
  "secuencia [] = Some []"
| "secuencia (None # xs) = None"
| "secuencia (Some x # xs) = map_option ((#) x) (secuencia xs)"

text \<open>
  A dictionary key as \<^verbatim>\<open>json.dump\<close> writes it; \<open>None\<close> stands for the \<^verbatim>\<open>TypeError\<close>
  "keys must be str, int, float, bool or None" (\<^verbatim>\<open>default\<close> is not applied to keys).
\<close>

fun clave_json :: "valor \<Rightarrow> string option" where
  "clave_json (VStr s) = Some s"
| "clave_json (VInt n) = Some (str_int n)"
| "clave_json (VBool b) = Some (if b then ''true'' else ''false'')"
| "clave_json VNone = Some ''null''"
| "clave_json v = None"

text \<open>The dictionary \<^verbatim>\<open>json.load\<close> builds from the items of an object, in text order.\<close>

definition dict_de_pares :: "(valor \<times> valor) list \<Rightarrow> (valor \<times> valor) list" where
  "dict_de_pares ps = fold (\<lambda>kv d. AList.update (fst kv) (snd kv) d) ps []"

text \<open>
  What \<^verbatim>\<open>json.load\<close> returns for the text that
  \<^verbatim>\<open>json.dump(v, f, indent=2, ensure_ascii=False, default=str)\<close> writes, or \<open>None\<close> when
  the dump raises \<^verbatim>\<open>TypeError\<close>: tuples come back as lists, keys as strings, other
  objects as their \<^verbatim>\<open>str()\<close>.
\<close>

fun json_forma :: "valor \<Rightarrow> valor option" where
  "json_forma VNone = Some VNone"
| "json_forma (VBool b) = Some (VBool b)"
| "json_forma (VInt n) = Some (VInt n)"
| "json_forma (VStr s) = Some (VStr s)"
| "json_forma (VList xs) = map_option VList (secuencia (map json_forma xs))"
| "json_forma (VTuple xs) = map_option VList (secuencia (map json_forma xs))"
| "json_forma (VDict kvs) =
     map_option (\<lambda>ps. VDict (dict_de_pares ps))
       (secuencia (map (\<lambda>kv. case clave_json (fst kv) of
                                 None \<Rightarrow> None
                               | Some s \<Rightarrow> map_option (Pair (VStr s)) (json_forma (snd kv))) kvs))"
| "json_forma (VObj r d p) = Some (VStr r)"

text \<open>The first exception \<^verbatim>\<open>pickle.dump\<close> raises on a value, if any.\<close>

fun primera :: "'a option list \<Rightarrow> 'a option" where
  "primera [] = None"
| "primera (None # xs) = primera xs"
| "primera (Some x # xs) = Some x"

fun pickle_falla :: "valor \<Rightarrow> excepcion option" where
  "pickle_falla (VList xs) = primera (map pickle_falla xs)"
| "pickle_falla (VTuple xs) = primera (map pickle_falla xs)"
| "pickle_falla (VDict kvs) =
     primera (map (\<lambda>kv. case pickle_falla (fst kv) of
                            Some e \<Rightarrow> Some e
                          | None \<Rightarrow> pickle_falla (snd kv)) kvs)"
| "pickle_falla (VObj r d Lanza_PicklingError) = Some PicklingError"
| "pickle_falla (VObj r d Lanza_TypeError) = Some TypeError"
| "pickle_falla v = None"


subsection \<open>Clock readings\<close>

text \<open>
  What \<^verbatim>\<open>datetime.now()\<close> returns. Every operation below takes the reading of the clock
  as an argument; all readings within one call are the same instant.
\<close>

record datetime =
  anio :: nat
  mes :: nat
  dia :: nat
  hora :: nat
  minuto :: nat
  segundo :: nat
  microsegundo :: nat

definition es_bisiesto :: "nat \<Rightarrow> bool" where
  "es_bisiesto y = (y mod 4 = 0 \<and> (y mod 100 \<noteq> 0 \<or> y mod 400 = 0))"

definition dias_del_mes :: "nat \<Rightarrow> nat \<Rightarrow> nat" where
  "dias_del_mes y m =
     (if m = 2 \<and> es_bisiesto y then 29
      else if 1 \<le> m \<and> m \<le> 12 then [31, 28, 31, 30, 31, 30, 31, 31, 30, 31, 30, 31] ! (m - 1)
      else 0)"

definition datetime_valido :: "datetime \<Rightarrow> bool" where
  "datetime_valido d =
     (1 \<le> anio d \<and> anio d \<le> 9999 \<and> 1 \<le> mes d \<and> mes d \<le> 12
      \<and> 1 \<le> dia d \<and> dia d \<le> dias_del_mes (anio d) (mes d)
      \<and> hora d < 24 \<and> minuto d < 60 \<and> segundo d < 60 \<and> microsegundo d < 1000000)"

text \<open>\<^verbatim>\<open>date.toordinal()\<close>: day 1 is 0001-01-01.\<close>

definition dias_antes_del_anio :: "nat \<Rightarrow> int" where
  "dias_antes_del_anio y =
     (let y1 = int y - 1 in y1 * 365 + y1 div 4 - y1 div 100 + y1 div 400)"

definition dias_antes_del_mes :: "nat \<Rightarrow> nat \<Rightarrow> int" where
  "dias_antes_del_mes y m =
     (if 1 \<le> m \<and> m \<le> 12
      then [0, 31, 59, 90, 120, 151, 181, 212, 243, 273, 304, 334] ! (m - 1)
             + (if 2 < m \<and> es_bisiesto y then 1 else 0)
      else 0)"

definition toordinal :: "datetime \<Rightarrow> int" where
  "toordinal d = dias_antes_del_anio (anio d) + dias_antes_del_mes (anio d) (mes d) + int (dia d)"

text \<open>
  A point in time as a number of microseconds, the scale on which datetimes are compared
  and on which a file's modification time (\<^verbatim>\<open>datetime.fromtimestamp(st_mtime)\<close>) is kept.
\<close>

definition microsegundos_por_dia :: int where
  "microsegundos_por_dia = 86400000000"

definition instante :: "datetime \<Rightarrow> int" where
  "instante d =
     toordinal d * microsegundos_por_dia
       + ((int (hora d) * 60 + int (minuto d)) * 60 + int (segundo d)) * 1000000
       + int (microsegundo d)"

text \<open>
  \<^verbatim>\<open>datetime.now() - timedelta(days=n)\<close>: \<^verbatim>\<open>timedelta\<close> refuses more than 999999999 days,
  and the difference must stay between the years 1 and 9999; both raise
  \<^verbatim>\<open>OverflowError\<close>.
\<close>

definition restar_dias :: "datetime \<Rightarrow> int \<Rightarrow> excepcion + int" where
  "restar_dias d n =
     (if 999999999 < \<bar>n\<bar> then Inl OverflowError
      else if toordinal d - n < 1 \<or> 3652059 < toordinal d - n then Inl OverflowError
      else Inr (instante d - n * microsegundos_por_dia))"

text \<open>
  \<^verbatim>\<open>strftime("%Y%m%d_%H%M%S")\<close>. The C library pads every field but the year to two
  digits; the year is written without padding.
\<close>

definition strftime_marca :: "datetime \<Rightarrow> string" where
  "strftime_marca d =
     str_nat (anio d) @ rellenar 2 (str_nat (mes d)) @ rellenar 2 (str_nat (dia d)) @ ''_''
       @ rellenar 2 (str_nat (hora d)) @ rellenar 2 (str_nat (minuto d))
       @ rellenar 2 (str_nat (segundo d))"

subsection \<open>The file system\<close>

text \<open>
  A file is known by what its decoder makes of it: a document (the bytes decode to that
  value), corrupt bytes (the decoder raises its own decoding error,
  \<^verbatim>\<open>json.JSONDecodeError\<close> or \<^verbatim>\<open>pickle.UnpicklingError\<close>; this includes the head of a
  JSON text), or no bytes at all. A path with extension \<^verbatim>\<open>.json\<close> is only read by
  \<^verbatim>\<open>json.load\<close> and one with \<^verbatim>\<open>.pkl\<close> only by \<^verbatim>\<open>pickle.load\<close>. Each node carries
  its modification time. The file system maps path strings to nodes, in the order in
  which \<^verbatim>\<open>os.listdir\<close> reports them; paths are compared as strings.
\<close>

datatype contenido = Documento valor | Corrupto | Vacio

datatype nodo = Archivo contenido int | Directorio int

type_synonym sistema_archivos = "(string \<times> nodo) list"

definition os_path_join :: "string \<Rightarrow> string \<Rightarrow> string" where
  "os_path_join a b =
     (if prefix ''/'' b then b
      else if a = [] \<or> suffix ''/'' a then a @ b
      else a @ ''/'' @ b)"

definition os_path_dirname :: "string \<Rightarrow> string" where
  "os_path_dirname p =
     (let head = rev (dropWhile (\<lambda>c. c \<noteq> CHR ''/'') (rev p))
      in if head \<noteq> [] \<and> \<not> list_all (\<lambda>c. c = CHR ''/'') head
         then rev (dropWhile (\<lambda>c. c = CHR ''/'') (rev head))
         else head)"

definition os_path_basename :: "string \<Rightarrow> string" where
  "os_path_basename p = rev (takeWhile (\<lambda>c. c \<noteq> CHR ''/'') (rev p))"

definition os_path_exists :: "sistema_archivos \<Rightarrow> string \<Rightarrow> bool" where
  "os_path_exists fs p = (map_of fs p \<noteq> None)"

text \<open>The current directory (the empty path) and the root always exist.\<close>

definition es_un_directorio :: "sistema_archivos \<Rightarrow> string \<Rightarrow> bool" where
  "es_un_directorio fs d =
     (list_all (\<lambda>c. c = CHR ''/'') d
      \<or> (case map_of fs d of Some (Directorio t) \<Rightarrow> True | _ \<Rightarrow> False))"

text \<open>The name under which a path appears in the listing of directory \<open>d\<close>, if it does.\<close>

definition nombre_en :: "string \<Rightarrow> string \<Rightarrow> string option" where
  "nombre_en d p =
     (let n = drop (length d + 1) p
      in if prefix (d @ ''/'') p \<and> n \<noteq> [] \<and> CHR ''/'' \<notin> set n then Some n else None)"

definition os_listdir :: "sistema_archivos \<Rightarrow> string \<Rightarrow> excepcion + string list" where
  "os_listdir fs d =
     (case map_of fs d of
        None \<Rightarrow> Inl FileNotFoundError
      | Some (Archivo c t) \<Rightarrow> Inl IOError
      | Some (Directorio t) \<Rightarrow> Inr (List.map_filter (\<lambda>e. nombre_en d (fst e)) fs))"

text \<open>\<^verbatim>\<open>open(p, 'r')\<close> followed by reading everything.\<close>

definition abrir_lectura :: "sistema_archivos \<Rightarrow> string \<Rightarrow> excepcion + contenido" where
  "abrir_lectura fs p =
     (case map_of fs p of
        None \<Rightarrow> Inl FileNotFoundError
      | Some (Directorio t) \<Rightarrow> Inl IOError
      | Some (Archivo c t) \<Rightarrow> Inr c)"

text \<open>
  \<^verbatim>\<open>open(p, 'w')\<close>: the file is created or truncated at once; a directory at \<open>p\<close> or a
  missing parent directory raises an \<^verbatim>\<open>OSError\<close>.
\<close>

definition abrir_escritura :: "sistema_archivos \<Rightarrow> int \<Rightarrow> string \<Rightarrow> excepcion + sistema_archivos" where
  "abrir_escritura fs t p =
     (case map_of fs p of
        Some (Directorio t') \<Rightarrow> Inl IOError
      | Some (Archivo c t') \<Rightarrow> Inr (AList.update p (Archivo Vacio t) fs)
      | None \<Rightarrow> if es_un_directorio fs (os_path_dirname p)
                then Inr (AList.update p (Archivo Vacio t) fs)
                else Inl FileNotFoundError)"

definition escribir :: "sistema_archivos \<Rightarrow> int \<Rightarrow> string \<Rightarrow> contenido \<Rightarrow> sistema_archivos" where
  "escribir fs t p c = AList.update p (Archivo c t) fs"

definition os_remove :: "sistema_archivos \<Rightarrow> string \<Rightarrow> excepcion + sistema_archivos" where
  "os_remove fs p =
     (case map_of fs p of
        None \<Rightarrow> Inl FileNotFoundError
      | Some (Directorio t) \<Rightarrow> Inl IOError
      | Some (Archivo c t) \<Rightarrow> Inr (AList.delete p fs))"

text \<open>
  \<^verbatim>\<open>shutil.copy2(src, dst)\<close>: copies content and modification time; a directory as
  destination receives the file under the source's base name. Every failure is an
  \<^verbatim>\<open>OSError\<close>.
\<close>

definition shutil_copy2 :: "sistema_archivos \<Rightarrow> string \<Rightarrow> string \<Rightarrow> excepcion + sistema_archivos" where
  "shutil_copy2 fs src dst =
     (case map_of fs src of
        None \<Rightarrow> Inl FileNotFoundError
      | Some (Directorio t) \<Rightarrow> Inl IOError
      | Some (Archivo c t) \<Rightarrow>
          (let dst' = (case map_of fs dst of
                         Some (Directorio t') \<Rightarrow> os_path_join dst (os_path_basename src)
                       | _ \<Rightarrow> dst)
           in if dst' = src then Inl IOError
              else case map_of fs dst' of
                     Some (Directorio t') \<Rightarrow> Inl IOError
                   | Some (Archivo c' t') \<Rightarrow> Inr (AList.update dst' (Archivo c t) fs)
                   | None \<Rightarrow> if es_un_directorio fs (os_path_dirname dst')
                             then Inr (AList.update dst' (Archivo c t) fs)
                             else Inl FileNotFoundError))"

text \<open>\<^verbatim>\<open>json.load\<close> and \<^verbatim>\<open>pickle.load\<close> on the content of a file.\<close>

fun json_load :: "contenido \<Rightarrow> excepcion + valor" where
  "json_load (Documento v) = Inr v"
| "json_load Corrupto = Inl JSONDecodeError"
| "json_load Vacio = Inl JSONDecodeError"

fun pickle_load :: "contenido \<Rightarrow> excepcion + valor" where
  "pickle_load (Documento v) = Inr v"
| "pickle_load Corrupto = Inl UnpicklingError"
| "pickle_load Vacio = Inl EOFError"

text \<open>The handlers: \<^verbatim>\<open>FileNotFoundError\<close> is an \<^verbatim>\<open>OSError\<close>, which \<^verbatim>\<open>IOError\<close> names too.\<close>

fun es_IOError :: "excepcion \<Rightarrow> bool" where
  "es_IOError IOError = True"
| "es_IOError FileNotFoundError = True"
| "es_IOError e = False"


subsection \<open>GestorArchivos\<close>

text \<open>
  The constructor computes the three data directories and creates the missing ones; the
  states considered below are those after the constructor has returned.
\<close>

record GestorArchivos =
  directorio_base :: string
  directorio_json :: string
  directorio_binarios :: string
  directorio_backups :: string

definition GestorArchivos_init :: "string \<Rightarrow> GestorArchivos" where
  "GestorArchivos_init base =
     \<lparr>directorio_base = base,
      directorio_json = os_path_join base ''json'',
      directorio_binarios = os_path_join base ''binarios'',
      directorio_backups = os_path_join base ''backups''\<rparr>"

definition obtener_ruta_json :: "GestorArchivos \<Rightarrow> string \<Rightarrow> string" where
  "obtener_ruta_json g nombre_archivo =
     os_path_join (directorio_json g)
       (if suffix ''.json'' nombre_archivo then nombre_archivo else nombre_archivo @ ''.json'')"

definition obtener_ruta_binario :: "GestorArchivos \<Rightarrow> string \<Rightarrow> string" where
  "obtener_ruta_binario g nombre_archivo =
     os_path_join (directorio_binarios g)
       (if suffix ''.pkl'' nombre_archivo then nombre_archivo else nombre_archivo @ ''.pkl'')"

definition obtener_ruta_backup :: "GestorArchivos \<Rightarrow> datetime \<Rightarrow> string \<Rightarrow> string" where
  "obtener_ruta_backup g ahora nombre_archivo =
     os_path_join (directorio_backups g) (nombre_archivo @ ''_'' @ strftime_marca ahora)"

definition listar_archivos :: "GestorArchivos \<Rightarrow> sistema_archivos \<Rightarrow> string \<Rightarrow> excepcion + string list" where
  "listar_archivos g fs tipo =
     (if tipo = ''json'' then
        (case os_listdir fs (directorio_json g) of
           Inl e \<Rightarrow> if e = FileNotFoundError then Inr [] else Inl e
         | Inr archivos \<Rightarrow> Inr (filter (suffix ''.json'') archivos))
      else if tipo = ''binario'' then
        (case os_listdir fs (directorio_binarios g) of
           Inl e \<Rightarrow> if e = FileNotFoundError then Inr [] else Inl e
         | Inr archivos \<Rightarrow> Inr (filter (suffix ''.pkl'') archivos))
      else Inr [])"

text \<open>
  The dictionary of \<^verbatim>\<open>obtener_info_archivo\<close>, without the size and the access and
  creation times, which no caller modelled here reads.
\<close>

record info_archivo =
  existe :: bool
  fecha_modificacion :: "int option"
  es_archivo :: bool
  es_directorio :: bool

definition obtener_info_archivo :: "sistema_archivos \<Rightarrow> string \<Rightarrow> info_archivo" where
  "obtener_info_archivo fs ruta_archivo =
     (case map_of fs ruta_archivo of
        Some (Archivo c t) \<Rightarrow>
          \<lparr>existe = True, fecha_modificacion = Some t, es_archivo = True, es_directorio = False\<rparr>
      | Some (Directorio t) \<Rightarrow>
          \<lparr>existe = True, fecha_modificacion = Some t, es_archivo = False, es_directorio = True\<rparr>
      | None \<Rightarrow>
          \<lparr>existe = False, fecha_modificacion = None, es_archivo = False, es_directorio = False\<rparr>)"

subsection \<open>PersistenciaJSON\<close>

text \<open>
  \<^verbatim>\<open>_crear_backup\<close>: the copy is attempted and an \<^verbatim>\<open>IOError\<close> is swallowed (a warning is
  printed).
\<close>

definition PersistenciaJSON_crear_backup ::
    "GestorArchivos \<Rightarrow> datetime \<Rightarrow> sistema_archivos \<Rightarrow> string \<Rightarrow> string \<Rightarrow> sistema_archivos" where
  "PersistenciaJSON_crear_backup g ahora fs ruta_archivo nombre_base =
     (let ruta_backup = obtener_ruta_backup g ahora (nombre_base @ ''.json'')
      in case shutil_copy2 fs ruta_archivo ruta_backup of
           Inl e \<Rightarrow> fs
         | Inr fs' \<Rightarrow> fs')"

text \<open>
  \<^verbatim>\<open>guardar_datos\<close>. The result is what the call returns or raises, together with the
  file system it leaves. \<^verbatim>\<open>open(..., 'w')\<close> truncates the file before \<^verbatim>\<open>json.dump\<close>
  starts; \<^verbatim>\<open>json.dump\<close> writes the text piece by piece, so a \<^verbatim>\<open>TypeError\<close> in the
  middle leaves the head of the text in the file.
\<close>

definition PersistenciaJSON_guardar_datos ::
    "GestorArchivos \<Rightarrow> datetime \<Rightarrow> sistema_archivos \<Rightarrow> string \<Rightarrow> valor \<Rightarrow> bool
       \<Rightarrow> (excepcion + bool) \<times> sistema_archivos" where
  "PersistenciaJSON_guardar_datos g ahora fs nombre_archivo datos crear_backup =
     (let ruta_archivo = obtener_ruta_json g nombre_archivo;
          fs1 = (if crear_backup \<and> os_path_exists fs ruta_archivo
                 then PersistenciaJSON_crear_backup g ahora fs ruta_archivo nombre_archivo
                 else fs);
          datos_json = preparar_datos_para_json datos
      in case abrir_escritura fs1 (instante ahora) ruta_archivo of
           Inl e \<Rightarrow> (Inl IOError, fs1)
         | Inr fs2 \<Rightarrow>
             (case json_forma datos_json of
                None \<Rightarrow> (Inl ValueError, escribir fs2 (instante ahora) ruta_archivo Corrupto)
              | Some doc \<Rightarrow>
                  (Inr True, escribir fs2 (instante ahora) ruta_archivo (Documento doc))))"

text \<open>\<^verbatim>\<open>cargar_datos\<close>: Python's \<^verbatim>\<open>None\<close> is \<open>VNone\<close>.\<close>

definition PersistenciaJSON_cargar_datos ::
    "GestorArchivos \<Rightarrow> sistema_archivos \<Rightarrow> string \<Rightarrow> excepcion + valor" where
  "PersistenciaJSON_cargar_datos g fs nombre_archivo =
     (let ruta_archivo = obtener_ruta_json g nombre_archivo
      in case abrir_lectura fs ruta_archivo of
           Inl e \<Rightarrow> if e = FileNotFoundError then Inr VNone
                    else if es_IOError e then Inr VNone
                    else Inl e
         | Inr c \<Rightarrow>
             (case json_load c of
                Inl e \<Rightarrow> if e = JSONDecodeError then Inr VNone else Inl e
              | Inr datos \<Rightarrow> Inr datos))"

subsection \<open>PersistenciaBinaria\<close>

definition PersistenciaBinaria_crear_backup ::
    "GestorArchivos \<Rightarrow> datetime \<Rightarrow> sistema_archivos \<Rightarrow> string \<Rightarrow> string \<Rightarrow> sistema_archivos" where
  "PersistenciaBinaria_crear_backup g ahora fs ruta_archivo nombre_base =
     (let ruta_backup = obtener_ruta_backup g ahora (nombre_base @ ''.pkl'')
      in case shutil_copy2 fs ruta_archivo ruta_backup of
           Inl e \<Rightarrow> fs
         | Inr fs' \<Rightarrow> fs')"

text \<open>
  \<^verbatim>\<open>guardar_datos\<close>: \<^verbatim>\<open>pickle.PicklingError\<close> and \<^verbatim>\<open>IOError\<close> are answered with
  \<^verbatim>\<open>False\<close>; any other exception of \<^verbatim>\<open>pickle.dump\<close> leaves the function. The pickler
  hands its bytes to the file when it is done, so a failed dump leaves the truncated,
  empty file.
\<close>

definition PersistenciaBinaria_guardar_datos ::
    "GestorArchivos \<Rightarrow> datetime \<Rightarrow> sistema_archivos \<Rightarrow> string \<Rightarrow> valor \<Rightarrow> bool
       \<Rightarrow> (excepcion + bool) \<times> sistema_archivos" where
  "PersistenciaBinaria_guardar_datos g ahora fs nombre_archivo datos crear_backup =
     (let ruta_archivo = obtener_ruta_binario g nombre_archivo;
          fs1 = (if crear_backup \<and> os_path_exists fs ruta_archivo
                 then PersistenciaBinaria_crear_backup g ahora fs ruta_archivo nombre_archivo
                 else fs)
      in case abrir_escritura fs1 (instante ahora) ruta_archivo of
           Inl e \<Rightarrow> (Inr False, fs1)
         | Inr fs2 \<Rightarrow>
             (case pickle_falla datos of
                None \<Rightarrow> (Inr True, escribir fs2 (instante ahora) ruta_archivo (Documento datos))
              | Some e \<Rightarrow> if e = PicklingError then (Inr False, fs2) else (Inl e, fs2)))"

definition PersistenciaBinaria_cargar_datos ::
    "GestorArchivos \<Rightarrow> sistema_archivos \<Rightarrow> string \<Rightarrow> excepcion + valor" where
  "PersistenciaBinaria_cargar_datos g fs nombre_archivo =
     (let ruta_archivo = obtener_ruta_binario g nombre_archivo
      in case abrir_lectura fs ruta_archivo of
           Inl e \<Rightarrow> if e = FileNotFoundError then Inr VNone
                    else if es_IOError e then Inr VNone
                    else Inl e
         | Inr c \<Rightarrow>
             (case pickle_load c of
                Inl e \<Rightarrow> if e = UnpicklingError then Inr VNone else Inl e
              | Inr datos \<Rightarrow> Inr datos))"


subsection \<open>GestorPersistencia\<close>

text \<open>
  The facade holds one \<^verbatim>\<open>GestorArchivos\<close>, shared by its JSON and its binary store, and
  the base names of the collections.
\<close>

record GestorPersistencia =
  gestor_archivos :: GestorArchivos
  archivo_usuarios :: string
  archivo_tareas :: string
  archivo_configuracion :: string
  archivo_logs :: string

definition GestorPersistencia_init :: "string \<Rightarrow> GestorPersistencia" where
  "GestorPersistencia_init base =
     \<lparr>gestor_archivos = GestorArchivos_init base,
      archivo_usuarios = ''usuarios'',
      archivo_tareas = ''tareas'',
      archivo_configuracion = ''configuracion'',
      archivo_logs = ''logs''\<rparr>"

definition cargar_usuarios ::
    "GestorPersistencia \<Rightarrow> sistema_archivos \<Rightarrow> string \<Rightarrow> excepcion + valor" where
  "cargar_usuarios gp fs formato =
     (if formato = ''json''
      then PersistenciaJSON_cargar_datos (gestor_archivos gp) fs (archivo_usuarios gp)
      else if formato = ''binario''
      then PersistenciaBinaria_cargar_datos (gestor_archivos gp) fs (archivo_usuarios gp)
      else Inl ValueError)"

definition cargar_tareas ::
    "GestorPersistencia \<Rightarrow> sistema_archivos \<Rightarrow> string \<Rightarrow> excepcion + valor" where
  "cargar_tareas gp fs formato =
     (if formato = ''json''
      then PersistenciaJSON_cargar_datos (gestor_archivos gp) fs (archivo_tareas gp)
      else if formato = ''binario''
      then PersistenciaBinaria_cargar_datos (gestor_archivos gp) fs (archivo_tareas gp)
      else Inl ValueError)"

definition guardar_usuarios ::
    "GestorPersistencia \<Rightarrow> datetime \<Rightarrow> sistema_archivos \<Rightarrow> valor \<Rightarrow> string
       \<Rightarrow> (excepcion + bool) \<times> sistema_archivos" where
  "guardar_usuarios gp ahora fs usuarios formato =
     (if formato = ''json''
      then PersistenciaJSON_guardar_datos (gestor_archivos gp) ahora fs (archivo_usuarios gp)
             usuarios True
      else if formato = ''binario''
      then PersistenciaBinaria_guardar_datos (gestor_archivos gp) ahora fs (archivo_usuarios gp)
             usuarios True
      else (Inl ValueError, fs))"

definition guardar_tareas ::
    "GestorPersistencia \<Rightarrow> datetime \<Rightarrow> sistema_archivos \<Rightarrow> valor \<Rightarrow> string
       \<Rightarrow> (excepcion + bool) \<times> sistema_archivos" where
  "guardar_tareas gp ahora fs ts formato =
     (if formato = ''json''
      then PersistenciaJSON_guardar_datos (gestor_archivos gp) ahora fs (archivo_tareas gp)
             ts True
      else if formato = ''binario''
      then PersistenciaBinaria_guardar_datos (gestor_archivos gp) ahora fs (archivo_tareas gp)
             ts True
      else (Inl ValueError, fs))"

text \<open>
  One half of \<^verbatim>\<open>sincronizar_formatos\<close>: load a collection from JSON and, if the result
  is true, save it in the binary store under \<^verbatim>\<open>{nombre}_sync\<close>. An \<open>Inl\<close> is an exception
  on its way to the handler of \<^verbatim>\<open>sincronizar_formatos\<close>.
\<close>

definition sincronizar_coleccion ::
    "GestorPersistencia \<Rightarrow> datetime \<Rightarrow> sistema_archivos \<Rightarrow> string
       \<Rightarrow> (excepcion + unit) \<times> sistema_archivos" where
  "sincronizar_coleccion gp ahora fs nombre =
     (case PersistenciaJSON_cargar_datos (gestor_archivos gp) fs nombre of
        Inl e \<Rightarrow> (Inl e, fs)
      | Inr datos_json \<Rightarrow>
          if verdadero datos_json
          then (case PersistenciaBinaria_guardar_datos (gestor_archivos gp) ahora fs
                       (nombre @ ''_sync'') datos_json True of
                  (Inl e, fs') \<Rightarrow> (Inl e, fs')
                | (Inr b, fs') \<Rightarrow> (Inr (), fs'))
          else (Inr (), fs))"

text \<open>
  \<^verbatim>\<open>sincronizar_formatos\<close>: users, then tasks; \<^verbatim>\<open>except Exception\<close> turns any exception
  into the result \<^verbatim>\<open>False\<close>.
\<close>

definition sincronizar_formatos ::
    "GestorPersistencia \<Rightarrow> datetime \<Rightarrow> sistema_archivos \<Rightarrow> bool \<times> sistema_archivos" where
  "sincronizar_formatos gp ahora fs =
     (case sincronizar_coleccion gp ahora fs (archivo_usuarios gp) of
        (Inl e, fs1) \<Rightarrow> (False, fs1)
      | (Inr u, fs1) \<Rightarrow>
          (case sincronizar_coleccion gp ahora fs1 (archivo_tareas gp) of
             (Inl e, fs2) \<Rightarrow> (False, fs2)
           | (Inr u', fs2) \<Rightarrow> (True, fs2)))"

text \<open>
  The \<^verbatim>\<open>for\<close> loop of \<^verbatim>\<open>limpiar_backups_antiguos\<close> over the listed names, with the
  counter \<^verbatim>\<open>archivos_eliminados\<close>. An exception of \<^verbatim>\<open>os.remove\<close> ends the loop.
\<close>

fun bucle_limpieza ::
    "string \<Rightarrow> int \<Rightarrow> string list \<Rightarrow> sistema_archivos \<Rightarrow> nat
       \<Rightarrow> (excepcion + nat) \<times> sistema_archivos" where
  "bucle_limpieza dir fecha_limite [] fs archivos_eliminados = (Inr archivos_eliminados, fs)"
| "bucle_limpieza dir fecha_limite (archivo # resto) fs archivos_eliminados =
     (let ruta_completa = os_path_join dir archivo;
          info = obtener_info_archivo fs ruta_completa
      in if existe info \<and> (case fecha_modificacion info of
                               Some t \<Rightarrow> t < fecha_limite
                             | None \<Rightarrow> False)
         then (case os_remove fs ruta_completa of
                 Inl e \<Rightarrow> (Inl e, fs)
               | Inr fs' \<Rightarrow> bucle_limpieza dir fecha_limite resto fs' (archivos_eliminados + 1))
         else bucle_limpieza dir fecha_limite resto fs archivos_eliminados)"

text \<open>
  \<^verbatim>\<open>limpiar_backups_antiguos\<close>: the limit is computed before the \<^verbatim>\<open>try\<close>, so its
  \<^verbatim>\<open>OverflowError\<close> leaves the function; inside the \<^verbatim>\<open>try\<close> every exception is
  answered with \<open>0\<close>.
\<close>

definition limpiar_backups_antiguos ::
    "GestorPersistencia \<Rightarrow> datetime \<Rightarrow> sistema_archivos \<Rightarrow> int
       \<Rightarrow> (excepcion + nat) \<times> sistema_archivos" where
  "limpiar_backups_antiguos gp ahora fs dias_antiguedad =
     (case restar_dias ahora dias_antiguedad of
        Inl e \<Rightarrow> (Inl e, fs)
      | Inr fecha_limite \<Rightarrow>
          (case os_listdir fs (directorio_backups (gestor_archivos gp)) of
             Inl e \<Rightarrow> (Inr 0, fs)
           | Inr archivos_backup \<Rightarrow>
               (case bucle_limpieza (directorio_backups (gestor_archivos gp)) fecha_limite
                       archivos_backup fs 0 of
                  (Inl e, fs') \<Rightarrow> (Inr 0, fs')
                | (Inr n, fs') \<Rightarrow> (Inr n, fs'))))"

text \<open>
  The dictionary of \<^verbatim>\<open>obtener_estadisticas_almacenamiento\<close>, without
  the total size (a rounded float computed after the other entries).
\<close>

record estadisticas_almacenamiento =
  archivos_json :: nat
  archivos_binarios :: nat
  backups_totales :: nat
  fecha_ultimo_backup :: "int option"

text \<open>The modification times collected in \<^verbatim>\<open>fechas_backup\<close>.\<close>

definition fechas_de_backups :: "sistema_archivos \<Rightarrow> string \<Rightarrow> string list \<Rightarrow> int list" where
  "fechas_de_backups fs dir backups =
     List.map_filter
       (\<lambda>backup. let info = obtener_info_archivo fs (os_path_join dir backup)
                 in if existe info then fecha_modificacion info else None)
       backups"

text \<open>
  \<^verbatim>\<open>obtener_estadisticas_almacenamiento\<close>: the two calls of \<^verbatim>\<open>listar_archivos\<close> stand
  before the \<^verbatim>\<open>try\<close>; an exception inside it keeps the entries as they are at that
  moment.
\<close>

definition obtener_estadisticas_almacenamiento ::
    "GestorPersistencia \<Rightarrow> sistema_archivos \<Rightarrow> excepcion + estadisticas_almacenamiento" where
  "obtener_estadisticas_almacenamiento gp fs =
     (case listar_archivos (gestor_archivos gp) fs ''json'' of
        Inl e \<Rightarrow> Inl e
      | Inr js \<Rightarrow>
          (case listar_archivos (gestor_archivos gp) fs ''binario'' of
             Inl e \<Rightarrow> Inl e
           | Inr bs \<Rightarrow>
               (let estadisticas = \<lparr>archivos_json = length js, archivos_binarios = length bs,
                                    backups_totales = 0, fecha_ultimo_backup = None\<rparr>;
                    dir = directorio_backups (gestor_archivos gp)
                in if os_path_exists fs dir
                   then (case os_listdir fs dir of
                           Inl e \<Rightarrow> Inr estadisticas
                         | Inr backups \<Rightarrow>
                             (let fechas_backup = fechas_de_backups fs dir backups
                              in Inr (estadisticas
                                   \<lparr>backups_totales := length backups,
                                    fecha_ultimo_backup :=
                                      (if backups \<noteq> [] \<and> fechas_backup \<noteq> []
                                       then Some (fold max (tl fechas_backup) (hd fechas_backup))
                                       else None)\<rparr>)))
                   else Inr estadisticas)))"

text \<open>
  One half of \<^verbatim>\<open>crear_backup\<close>: load a collection from JSON and, if the result is true,
  save it through the JSON store under \<^verbatim>\<open>{coleccion}_backup_{timestamp}\<close> with
  \<^verbatim>\<open>crear_backup=False\<close>; otherwise the result is \<^verbatim>\<open>True\<close> ("no data to back up").
\<close>

definition respaldar_coleccion ::
    "GestorPersistencia \<Rightarrow> datetime \<Rightarrow> sistema_archivos \<Rightarrow> string \<Rightarrow> string
       \<Rightarrow> (excepcion + bool) \<times> sistema_archivos" where
  "respaldar_coleccion gp ahora fs nombre prefijo =
     (case PersistenciaJSON_cargar_datos (gestor_archivos gp) fs nombre of
        Inl e \<Rightarrow> (Inl e, fs)
      | Inr datos_json \<Rightarrow>
          if verdadero datos_json
          then PersistenciaJSON_guardar_datos (gestor_archivos gp) ahora fs
                 (prefijo @ strftime_marca ahora) datos_json False
          else (Inr True, fs))"

definition GestorPersistencia_crear_backup ::
    "GestorPersistencia \<Rightarrow> datetime \<Rightarrow> sistema_archivos \<Rightarrow> bool \<times> sistema_archivos" where
  "GestorPersistencia_crear_backup gp ahora fs =
     (case respaldar_coleccion gp ahora fs (archivo_usuarios gp) ''usuarios_backup_'' of
        (Inl e, fs1) \<Rightarrow> (False, fs1)
      | (Inr resultado_usuarios, fs1) \<Rightarrow>
          (case respaldar_coleccion gp ahora fs1 (archivo_tareas gp) ''tareas_backup_'' of
             (Inl e, fs2) \<Rightarrow> (False, fs2)
           | (Inr resultado_tareas, fs2) \<Rightarrow> (resultado_usuarios \<and> resultado_tareas, fs2)))"

text \<open>
  An entry of the file system counts as an old backup when it is listed in the backups
  directory and its modification time lies before the limit.
\<close>

fun fecha_de_nodo :: "nodo \<Rightarrow> int" where
  "fecha_de_nodo (Archivo c t) = t"
| "fecha_de_nodo (Directorio t) = t"

fun es_carpeta :: "nodo \<Rightarrow> bool" where
  "es_carpeta (Archivo c t) = False"
| "es_carpeta (Directorio t) = True"

definition backup_antiguo :: "string \<Rightarrow> int \<Rightarrow> string \<times> nodo \<Rightarrow> bool" where
  "backup_antiguo dir fecha_limite e =
     (nombre_en dir (fst e) \<noteq> None \<and> fecha_de_nodo (snd e) < fecha_limite)"

text \<open>
  The path at which \<^verbatim>\<open>shutil.copy2(src, dst)\<close> puts the copy: \<open>dst\<close> itself, or, when
  \<open>dst\<close> is an existing directory, the source's base name inside it.
\<close>

definition destino_de_copia :: "sistema_archivos \<Rightarrow> string \<Rightarrow> string \<Rightarrow> string" where
  "destino_de_copia fs src dst =
     (case map_of fs dst of
        Some (Directorio t') \<Rightarrow> os_path_join dst (os_path_basename src)
      | _ \<Rightarrow> dst)"

text \<open>
  Whether \<^verbatim>\<open>open(p, 'w')\<close> succeeds, and a frame condition for the effect of an
  operation on the file system: nodes at paths outside \<open>P\<close> are as before, and no path
  becomes or ceases to be a directory.
\<close>

definition se_puede_escribir :: "sistema_archivos \<Rightarrow> string \<Rightarrow> bool" where
  "se_puede_escribir fs p =
     (case map_of fs p of
        Some (Directorio t) \<Rightarrow> False
      | Some (Archivo c t) \<Rightarrow> True
      | None \<Rightarrow> es_un_directorio fs (os_path_dirname p))"

definition solo_escribe :: "(string \<Rightarrow> bool) \<Rightarrow> sistema_archivos \<Rightarrow> sistema_archivos \<Rightarrow> bool" where
  "solo_escribe P fs fs' =
     ((\<forall>q. \<not> P q \<longrightarrow> map_of fs' q = map_of fs q)
      \<and> (\<forall>q t. (map_of fs' q = Some (Directorio t)) = (map_of fs q = Some (Directorio t))))"

section \<open>Properties of the generators\<close>

subsection \<open>Composition of filters\<close>

text \<open>
  C8. Filtering a list with \<^verbatim>\<open>filtro_compuesto(A, B)\<close> (the list comprehension
  \<^verbatim>\<open>[t for t in xs if f(t)]\<close>, here \<open>filter\<close>) keeps exactly the elements that are in
  the list filtered by \<open>A\<close> and in the list filtered by \<open>B\<close>, in the order of the
  original list.
\<close>

theorem filtro_compuesto_interseccion:
  "filter (filtro_compuesto [A, B]) xs
     = filter (\<lambda>x. x \<in> set (filter A xs) \<and> x \<in> set (filter B xs)) xs
   \<and> set (filter (filtro_compuesto [A, B]) xs) = set (filter A xs) \<inter> set (filter B xs)
   \<and> subseq (filter (filtro_compuesto [A, B]) xs) xs"
proof -
  have "filter (filtro_compuesto [A, B]) xs
          = filter (\<lambda>x. x \<in> set (filter A xs) \<and> x \<in> set (filter B xs)) xs"
    by (rule filter_cong) (auto simp: filtro_compuesto_def)
  moreover have "set (filter (filtro_compuesto [A, B]) xs)
          = set (filter A xs) \<inter> set (filter B xs)"
    by (auto simp: filtro_compuesto_def)
  ultimately show ?thesis by simp
qed

text \<open>
  C10. \<^verbatim>\<open>filtro_compuesto()\<close> with no filters accepts every item, so filtering with it
  returns the list unchanged.
\<close>

theorem filtro_compuesto_vacio:
  "filtro_compuesto [] item \<and> filter (filtro_compuesto []) xs = xs"
  by (simp add: filtro_compuesto_def)

subsection \<open>The iterator\<close>

lemma acepta_indice [simp]: "acepta (it\<lparr>indice := n\<rparr>) x = acepta it x"
  by (simp add: acepta_def)








subsection \<open>Batches\<close>

lemma total_tareas_de_lote [simp]:
  "total_tareas (estadisticas_de_lote ts w i) = min w (length ts - i)"
  by (simp add: estadisticas_de_lote_def Let_def min.commute)

lemma techo_paso:
  fixes m w :: nat
  assumes "0 < w" "0 < m"
  shows "(m + w - 1) div w = Suc ((m - w + w - 1) div w)"
proof (cases "w \<le> m")
  case True
  with assms have "m + w - 1 = (m - 1) + w" and "m - w + w - 1 = m - 1"
    by simp_all
  with assms show ?thesis by (simp only: div_add_self2)
next
  case False
  with assms have a: "m - w + w - 1 = w - 1" by simp
  from assms have b: "(w - 1) div w = 0" by simp
  from False assms have "m + w - 1 = (m - 1) + w" and "m - 1 < w" by simp_all
  then have "(m + w - 1) div w = 1" using assms by (simp only: div_add_self2) simp
  with a b show ?thesis by simp
qed

lemma lotes_desde_length:
  "0 < w \<Longrightarrow> length (lotes_desde ts w i) = (length ts - i + w - 1) div w"
proof (induction ts w i rule: lotes_desde.induct)
  case (1 ts w i)
  show ?case
  proof (cases "i < length ts")
    case False
    with "1.prems" show ?thesis
      by (simp add: lotes_desde.simps [of ts w i])
  next
    case True
    with "1.prems" "1.IH"
    have "length (lotes_desde ts w i) = Suc ((length ts - (i + w) + w - 1) div w)"
      by (simp add: lotes_desde.simps [of ts w i])
    also have "length ts - (i + w) = (length ts - i) - w" by simp
    finally show ?thesis
      using techo_paso [of w "length ts - i"] True "1.prems" by simp
  qed
qed

lemma lotes_desde_nth:
  "0 < w \<Longrightarrow> k < length (lotes_desde ts w i) \<Longrightarrow>
     lotes_desde ts w i ! k = estadisticas_de_lote ts w (i + k * w)"
proof (induction ts w i arbitrary: k rule: lotes_desde.induct)
  case (1 ts w i)
  show ?case
  proof (cases "i < length ts")
    case False
    with "1.prems" show ?thesis
      by (simp add: lotes_desde.simps [of ts w i])
  next
    case True
    with "1.prems" have eq:
      "lotes_desde ts w i = estadisticas_de_lote ts w i # lotes_desde ts w (i + w)"
      by (simp add: lotes_desde.simps [of ts w i])
    show ?thesis
    proof (cases k)
      case 0
      with eq show ?thesis by simp
    next
      case (Suc k')
      with eq "1.prems" have "k' < length (lotes_desde ts w (i + w))" by simp
      with "1.IH" True "1.prems"
      have "lotes_desde ts w (i + w) ! k' = estadisticas_de_lote ts w (i + w + k' * w)"
        by simp
      with eq Suc show ?thesis by (simp add: add.assoc)
    qed
  qed
qed

lemma lotes_desde_suma:
  "0 < w \<Longrightarrow> sum_list (map total_tareas (lotes_desde ts w i)) = length ts - i"
proof (induction ts w i rule: lotes_desde.induct)
  case (1 ts w i)
  show ?case
  proof (cases "i < length ts")
    case False
    with "1.prems" show ?thesis
      by (simp add: lotes_desde.simps [of ts w i])
  next
    case True
    with "1.prems" "1.IH" show ?thesis
      by (simp add: lotes_desde.simps [of ts w i])
  qed
qed

lemma concat_ventanas: "concat (map (ventana ts w) [0..<n]) = take (n * w) ts"
proof (induction n)
  case 0
  show ?case by simp
next
  case (Suc n)
  have "take (n * w + w) ts = take (n * w) ts @ take w (drop (n * w) ts)"
    by (rule take_add)
  with Suc show ?case by (simp add: ventana_def add.commute)
qed

lemma techo_por_divisor: "0 < w \<Longrightarrow> (n::nat) \<le> ((n + w - 1) div w) * w"
proof -
  assume w: "0 < w"
  have "n + w - 1 = ((n + w - 1) div w) * w + (n + w - 1) mod w"
    by simp
  moreover have "(n + w - 1) mod w \<le> w - 1"
    using w by (simp add: less_Suc_eq_le [symmetric])
  ultimately show ?thesis using w by linarith
qed

lemma campos_de_lote:
  "pendientes (estadisticas_de_lote ts w i) = length (filter (estado_es ''pendiente'') (take w (drop i ts)))"
  "en_progreso (estadisticas_de_lote ts w i) = length (filter (estado_es ''en_progreso'') (take w (drop i ts)))"
  "completadas (estadisticas_de_lote ts w i) = length (filter (estado_es ''completada'') (take w (drop i ts)))"
  "porcentaje_completadas (estadisticas_de_lote ts w i) =
     (if 0 < length (take w (drop i ts))
      then float_mul
             (int_truediv (length (filter (estado_es ''completada'') (take w (drop i ts))))
                (length (take w (drop i ts)))) 100
      else 0)"
  by (simp_all add: estadisticas_de_lote_def Let_def)


text \<open>
  C7. For a window size \<open>w \<ge> 1\<close> the generator yields one dictionary per consecutive
  window of size \<open>w\<close> (the last one possibly shorter, never empty): the windows
  concatenate to the input, every count of a dictionary is the count over its own window,
  the percentage is the float \<^verbatim>\<open>completadas / total * 100\<close> of that window's two
  counts, the totals add up to the length of the input, and 25 items with \<open>w = 10\<close>
  give totals 10, 10, 5.
\<close>

theorem generador_estadisticas_por_lote_ventanas:
  assumes "1 \<le> w"
  shows "\<exists>ls. generador_estadisticas_por_lote ts w = Inr ls
    \<and> length ls = (length ts + nat w - 1) div nat w
    \<and> concat (map (ventana ts (nat w)) [0..<length ls]) = ts
    \<and> (\<forall>k<length ls.
          total_tareas (ls ! k) = length (ventana ts (nat w) k)
        \<and> 1 \<le> total_tareas (ls ! k) \<and> total_tareas (ls ! k) \<le> nat w
        \<and> (Suc k < length ls \<longrightarrow> total_tareas (ls ! k) = nat w)
        \<and> pendientes (ls ! k) = length (filter (estado_es ''pendiente'') (ventana ts (nat w) k))
        \<and> en_progreso (ls ! k) = length (filter (estado_es ''en_progreso'') (ventana ts (nat w) k))
        \<and> completadas (ls ! k) = length (filter (estado_es ''completada'') (ventana ts (nat w) k))
        \<and> porcentaje_completadas (ls ! k)
            = float_mul
                (int_truediv (length (filter (estado_es ''completada'') (ventana ts (nat w) k)))
                   (length (ventana ts (nat w) k))) 100)
    \<and> sum_list (map total_tareas ls) = length ts
    \<and> (length ts = 25 \<and> w = 10 \<longrightarrow> map total_tareas ls = [10, 10, 5])"
proof -
  define v where "v = nat w"
  define ls where "ls = lotes_desde ts v 0"
  from assms have v: "0 < v" by (simp add: v_def)
  from assms have gen: "generador_estadisticas_por_lote ts w = Inr ls"
    by (simp add: generador_estadisticas_por_lote_def ls_def v_def)
  have len: "length ls = (length ts + v - 1) div v"
    using lotes_desde_length [OF v, of ts 0] by (simp add: ls_def)
  have nth: "ls ! k = estadisticas_de_lote ts v (k * v)" if "k < length ls" for k
    using lotes_desde_nth [OF v, of k ts 0] that by (simp add: ls_def)
  have cubre: "concat (map (ventana ts v) [0..<length ls]) = ts"
    using techo_por_divisor [OF v, of "length ts"] by (simp add: concat_ventanas len)
  have suma: "sum_list (map total_tareas ls) = length ts"
    using lotes_desde_suma [OF v, of ts 0] by (simp add: ls_def)
  have dentro: "k * v < length ts" if "k < length ls" for k
  proof (rule ccontr)
    assume "\<not> k * v < length ts"
    then have "length ts + v - 1 < (k + 1) * v" using v by simp
    then have "(length ts + v - 1) div v < k + 1"
      using v by (simp add: div_less_iff_less_mult)
    with that len show False by simp
  qed
  have completo: "(k + 1) * v \<le> length ts" if "Suc k < length ls" for k
    using dentro [OF that] by simp
  have por_lote: "total_tareas (ls ! k) = length (ventana ts v k)
        \<and> 1 \<le> total_tareas (ls ! k) \<and> total_tareas (ls ! k) \<le> v
        \<and> (Suc k < length ls \<longrightarrow> total_tareas (ls ! k) = v)
        \<and> pendientes (ls ! k) = length (filter (estado_es ''pendiente'') (ventana ts v k))
        \<and> en_progreso (ls ! k) = length (filter (estado_es ''en_progreso'') (ventana ts v k))
        \<and> completadas (ls ! k) = length (filter (estado_es ''completada'') (ventana ts v k))
        \<and> porcentaje_completadas (ls ! k)
            = float_mul
                (int_truediv (length (filter (estado_es ''completada'') (ventana ts v k)))
                   (length (ventana ts v k))) 100"
    if k: "k < length ls" for k
  proof -
    from dentro [OF k] have pos: "Suc 0 \<le> length ts - k * v" by arith
    have "Suc k < length ls \<longrightarrow> min v (length ts - k * v) = v"
    proof
      assume "Suc k < length ls"
      from completo [OF this] show "min v (length ts - k * v) = v" by simp
    qed
    with pos v dentro [OF k] show ?thesis
      by (simp add: nth [OF k] campos_de_lote ventana_def min.commute)
  qed
  have ejemplo: "map total_tareas ls = [10, 10, 5]" if "length ts = 25 \<and> w = 10"
  proof -
    from that have v10: "v = 10" by (simp add: v_def)
    with that len have l3: "length ls = 3" by simp
    then obtain a b c where abc: "ls = [a, b, c]"
      by (metis (no_types, opaque_lifting) length_0_conv length_Suc_conv numeral_3_eq_3)
    from l3 nth [of 0] nth [of 1] nth [of 2] abc v10 that show ?thesis
      by simp
  qed
  have todos: "\<forall>k<length ls.
          total_tareas (ls ! k) = length (ventana ts v k)
        \<and> 1 \<le> total_tareas (ls ! k) \<and> total_tareas (ls ! k) \<le> v
        \<and> (Suc k < length ls \<longrightarrow> total_tareas (ls ! k) = v)
        \<and> pendientes (ls ! k) = length (filter (estado_es ''pendiente'') (ventana ts v k))
        \<and> en_progreso (ls ! k) = length (filter (estado_es ''en_progreso'') (ventana ts v k))
        \<and> completadas (ls ! k) = length (filter (estado_es ''completada'') (ventana ts v k))
        \<and> porcentaje_completadas (ls ! k)
            = float_mul
                (int_truediv (length (filter (estado_es ''completada'') (ventana ts v k)))
                   (length (ventana ts v k))) 100"
    using por_lote by (intro allI impI)
  have ej: "length ts = 25 \<and> w = 10 \<longrightarrow> map total_tareas ls = [10, 10, 5]"
    using ejemplo by (intro impI)
  show ?thesis
    unfolding v_def [symmetric]
    by (rule exI [of _ ls]) (intro conjI gen len cubre todos suma ej)
qed

theorem generador_estadisticas_por_lote_ventanas_witness:
  "(1::int) \<le> 3 \<and>
   (\<exists>ls. generador_estadisticas_por_lote
            [ObjTarea \<lparr>titulo = ''A'', estado = COMPLETADA, usuario_id = None\<rparr>,
             ObjTarea \<lparr>titulo = ''B'', estado = PENDIENTE, usuario_id = None\<rparr>,
             ObjOtro ''x'',
             ObjTarea \<lparr>titulo = ''C'', estado = COMPLETADA, usuario_id = None\<rparr>,
             ObjTarea \<lparr>titulo = ''D'', estado = COMPLETADA, usuario_id = None\<rparr>] 3 = Inr ls
        \<and> length ls = 2 \<and> sum_list (map total_tareas ls) = 5
        \<and> porcentaje_completadas (ls ! 0) = 2345624805922133 / 70368744177664
        \<and> porcentaje_completadas (ls ! 1) = 100)"
proof -
  let ?ts = "[ObjTarea \<lparr>titulo = ''A'', estado = COMPLETADA, usuario_id = None\<rparr>,
             ObjTarea \<lparr>titulo = ''B'', estado = PENDIENTE, usuario_id = None\<rparr>,
             ObjOtro ''x'',
             ObjTarea \<lparr>titulo = ''C'', estado = COMPLETADA, usuario_id = None\<rparr>,
             ObjTarea \<lparr>titulo = ''D'', estado = COMPLETADA, usuario_id = None\<rparr>]"
  have h: "(1::int) \<le> 3" by simp
  have f0: "float_mul (int_truediv 1 3) 100 = 2345624805922133 / 70368744177664"
    by code_simp
  have f1: "float_mul (int_truediv 2 2) 100 = 100"
    by code_simp
  from generador_estadisticas_por_lote_ventanas [OF h, of ?ts]
  obtain ls where ls: "generador_estadisticas_por_lote ?ts 3 = Inr ls"
    "length ls = (length ?ts + nat 3 - 1) div nat 3"
    "\<forall>k<length ls. porcentaje_completadas (ls ! k)
            = float_mul
                (int_truediv (length (filter (estado_es ''completada'') (ventana ?ts (nat 3) k)))
                   (length (ventana ?ts (nat 3) k))) 100"
    "sum_list (map total_tareas ls) = length ?ts"
    by blast
  from ls(2) have l2: "length ls = 2" by simp
  then have k0: "0 < length ls" and k1: "1 < length ls" by simp_all
  have c0: "length (filter (estado_es ''completada'') (ventana ?ts (nat 3) 0)) = 1"
    and t0: "length (ventana ?ts (nat 3) 0) = 3"
    and c1: "length (filter (estado_es ''completada'') (ventana ?ts (nat 3) 1)) = 2"
    and t1: "length (ventana ?ts (nat 3) 1) = 2"
    by (simp_all add: ventana_def estado_es_def)
  note e0 = ls(3) [THEN spec, of 0, THEN mp, OF k0]
  note e1 = ls(3) [THEN spec, of 1, THEN mp, OF k1]
  have p0: "porcentaje_completadas (ls ! 0) = 2345624805922133 / 70368744177664"
    unfolding e0 c0 t0 by (rule f0)
  have p1: "porcentaje_completadas (ls ! 1) = 100"
    unfolding e1 c1 t1 by (rule f1)
  from ls(1,4) l2 h p0 p1 show ?thesis by simp
qed


section \<open>Properties of the persistence layer\<close>

lemma map_of_escribir [simp]:
  "map_of (escribir fs t p c) q = (if q = p then Some (Archivo c t) else map_of fs q)"
  by (simp add: escribir_def update_conv')

lemma abrir_escritura_otra_ruta:
  "abrir_escritura fs t p = Inr fs' \<Longrightarrow> q \<noteq> p \<Longrightarrow> map_of fs' q = map_of fs q"
  by (auto simp: abrir_escritura_def update_conv' split: option.splits nodo.splits if_splits)

subsection \<open>Loading\<close>

text \<open>
  The claim C1 asks for a result on corrupt bytes that differs from the result on a
  missing file. Both loads return \<^verbatim>\<open>None\<close>.
\<close>

theorem cargar_datos_ausente_igual_a_corrupto_counterexample:
  "PersistenciaJSON_cargar_datos (GestorArchivos_init ''data'')
      [(''data'', Directorio 0), (''data/json'', Directorio 0)] ''usuarios''
     = Inr VNone
   \<and> PersistenciaJSON_cargar_datos (GestorArchivos_init ''data'')
      [(''data'', Directorio 0), (''data/json'', Directorio 0),
       (''data/json/usuarios.json'', Archivo Corrupto 0)] ''usuarios''
     = Inr VNone
   \<and> PersistenciaBinaria_cargar_datos (GestorArchivos_init ''data'')
      [(''data'', Directorio 0), (''data/binarios'', Directorio 0)] ''usuarios''
     = Inr VNone
   \<and> PersistenciaBinaria_cargar_datos (GestorArchivos_init ''data'')
      [(''data'', Directorio 0), (''data/binarios'', Directorio 0),
       (''data/binarios/usuarios.pkl'', Archivo Corrupto 0)] ''usuarios''
     = Inr VNone"
  by code_simp


text \<open>
  C1, as the code has it. A missing file never raises and loads as \<^verbatim>\<open>None\<close>; a file
  whose bytes the decoder rejects with its decoding error (\<^verbatim>\<open>json.JSONDecodeError\<close>,
  \<^verbatim>\<open>pickle.UnpicklingError\<close>) loads as the same \<^verbatim>\<open>None\<close>, in both stores.
\<close>

theorem cargar_datos_ausente_o_corrupto:
  "(map_of fs (obtener_ruta_json g nombre) = None
      \<longrightarrow> PersistenciaJSON_cargar_datos g fs nombre = Inr VNone)
   \<and> (map_of fs (obtener_ruta_json g nombre) = Some (Archivo c t)
        \<and> json_load c = Inl JSONDecodeError
      \<longrightarrow> PersistenciaJSON_cargar_datos g fs nombre = Inr VNone)
   \<and> (map_of fs (obtener_ruta_binario g nombre) = None
      \<longrightarrow> PersistenciaBinaria_cargar_datos g fs nombre = Inr VNone)
   \<and> (map_of fs (obtener_ruta_binario g nombre) = Some (Archivo c t)
        \<and> pickle_load c = Inl UnpicklingError
      \<longrightarrow> PersistenciaBinaria_cargar_datos g fs nombre = Inr VNone)"
  by (simp add: PersistenciaJSON_cargar_datos_def PersistenciaBinaria_cargar_datos_def
      abrir_lectura_def)

theorem cargar_datos_ausente_o_corrupto_witness:
  "map_of [(''data/json/tareas.json'', Archivo Corrupto 5),
           (''data/binarios/tareas.pkl'', Archivo Corrupto 5)]
       (obtener_ruta_json (GestorArchivos_init ''data'') ''usuarios'') = None
   \<and> PersistenciaJSON_cargar_datos (GestorArchivos_init ''data'')
       [(''data/json/tareas.json'', Archivo Corrupto 5),
        (''data/binarios/tareas.pkl'', Archivo Corrupto 5)] ''usuarios'' = Inr VNone
   \<and> map_of [(''data/json/tareas.json'', Archivo Corrupto 5),
             (''data/binarios/tareas.pkl'', Archivo Corrupto 5)]
       (obtener_ruta_json (GestorArchivos_init ''data'') ''tareas'') = Some (Archivo Corrupto 5)
   \<and> json_load Corrupto = Inl JSONDecodeError
   \<and> PersistenciaJSON_cargar_datos (GestorArchivos_init ''data'')
       [(''data/json/tareas.json'', Archivo Corrupto 5),
        (''data/binarios/tareas.pkl'', Archivo Corrupto 5)] ''tareas'' = Inr VNone
   \<and> map_of [(''data/json/tareas.json'', Archivo Corrupto 5),
             (''data/binarios/tareas.pkl'', Archivo Corrupto 5)]
       (obtener_ruta_binario (GestorArchivos_init ''data'') ''usuarios'') = None
   \<and> PersistenciaBinaria_cargar_datos (GestorArchivos_init ''data'')
       [(''data/json/tareas.json'', Archivo Corrupto 5),
        (''data/binarios/tareas.pkl'', Archivo Corrupto 5)] ''usuarios'' = Inr VNone
   \<and> map_of [(''data/json/tareas.json'', Archivo Corrupto 5),
             (''data/binarios/tareas.pkl'', Archivo Corrupto 5)]
       (obtener_ruta_binario (GestorArchivos_init ''data'') ''tareas'') = Some (Archivo Corrupto 5)
   \<and> pickle_load Corrupto = Inl UnpicklingError
   \<and> PersistenciaBinaria_cargar_datos (GestorArchivos_init ''data'')
       [(''data/json/tareas.json'', Archivo Corrupto 5),
        (''data/binarios/tareas.pkl'', Archivo Corrupto 5)] ''tareas'' = Inr VNone"
proof -
  let ?g = "GestorArchivos_init ''data''"
  let ?fs = "[(''data/json/tareas.json'', Archivo Corrupto 5),
              (''data/binarios/tareas.pkl'', Archivo Corrupto 5)]"
  have a: "map_of ?fs (obtener_ruta_json ?g ''usuarios'') = None"
    by code_simp
  have b: "map_of ?fs (obtener_ruta_json ?g ''tareas'') = Some (Archivo Corrupto 5)"
    by code_simp
  have c: "json_load Corrupto = Inl JSONDecodeError" by simp
  have a': "map_of ?fs (obtener_ruta_binario ?g ''usuarios'') = None"
    by code_simp
  have b': "map_of ?fs (obtener_ruta_binario ?g ''tareas'') = Some (Archivo Corrupto 5)"
    by code_simp
  have c': "pickle_load Corrupto = Inl UnpicklingError" by simp
  note T = cargar_datos_ausente_o_corrupto [where fs = ?fs and g = ?g and c = Corrupto and t = 5]
  note d = T [where nombre = "''usuarios''", THEN conjunct1, THEN mp, OF a]
  note e = T [where nombre = "''tareas''", THEN conjunct2, THEN conjunct1, THEN mp,
      OF conjI [OF b c]]
  note d' = T [where nombre = "''usuarios''", THEN conjunct2, THEN conjunct2, THEN conjunct1,
      THEN mp, OF a']
  note e' = T [where nombre = "''tareas''", THEN conjunct2, THEN conjunct2, THEN conjunct2,
      THEN mp, OF conjI [OF b' c']]
  from a d b c e a' d' b' c' e' show ?thesis by (intro conjI)
qed

subsection \<open>Saving\<close>

text \<open>
  The claim C2 asks that an unrepresentable value makes either save raise, and that the
  JSON file is left unchanged. A tuple as dictionary key makes the JSON save raise
  \<^verbatim>\<open>ValueError\<close> with the former document replaced by an incomplete text; an object
  that \<^verbatim>\<open>pickle\<close> refuses with \<^verbatim>\<open>PicklingError\<close> makes the binary save return
  \<^verbatim>\<open>False\<close>.
\<close>

theorem guardar_datos_no_representable_counterexample:
  "PersistenciaJSON_guardar_datos (GestorArchivos_init ''data'')
      \<lparr>anio = 2024, mes = 1, dia = 2, hora = 3, minuto = 4, segundo = 5, microsegundo = 0\<rparr>
      [(''data'', Directorio 0), (''data/json'', Directorio 0),
       (''data/json/usuarios.json'', Archivo (Documento (VList [])) 7)]
      ''usuarios'' (VList [VDict [(VTuple [VInt 1, VInt 2], VInt 3)]]) False
     = (Inl ValueError,
        [(''data'', Directorio 0), (''data/json'', Directorio 0),
         (''data/json/usuarios.json'', Archivo Corrupto 63839847845000000)])
   \<and> PersistenciaBinaria_guardar_datos (GestorArchivos_init ''data'')
      \<lparr>anio = 2024, mes = 1, dia = 2, hora = 3, minuto = 4, segundo = 5, microsegundo = 0\<rparr>
      [(''data'', Directorio 0), (''data/binarios'', Directorio 0),
       (''data/binarios/usuarios.pkl'', Archivo (Documento (VList [])) 7)]
      ''usuarios'' (VList [VObj ''<function <lambda>>'' None Lanza_PicklingError]) False
     = (Inr False,
        [(''data'', Directorio 0), (''data/binarios'', Directorio 0),
         (''data/binarios/usuarios.pkl'', Archivo Vacio 63839847845000000)])"
  by code_simp


text \<open>
  C2, as the code has it. When the prepared data has no JSON form, the JSON save raises
  (\<^verbatim>\<open>ValueError\<close>, or \<^verbatim>\<open>IOError\<close> when the file cannot be opened) and never returns
  a value; when it raises \<^verbatim>\<open>ValueError\<close> the collection file has already been opened
  and holds the head of a JSON text. When \<^verbatim>\<open>pickle.dump\<close> raises \<^verbatim>\<open>PicklingError\<close>,
  the binary save returns \<^verbatim>\<open>False\<close>.
\<close>

theorem guardar_datos_no_representable:
  "(json_forma (preparar_datos_para_json datos) = None \<longrightarrow>
      (fst (PersistenciaJSON_guardar_datos g ahora fs nombre datos cb) = Inl ValueError
       \<or> fst (PersistenciaJSON_guardar_datos g ahora fs nombre datos cb) = Inl IOError)
    \<and> (fst (PersistenciaJSON_guardar_datos g ahora fs nombre datos cb) = Inl ValueError \<longrightarrow>
         map_of (snd (PersistenciaJSON_guardar_datos g ahora fs nombre datos cb))
           (obtener_ruta_json g nombre) = Some (Archivo Corrupto (instante ahora))))
   \<and> (pickle_falla datos = Some PicklingError \<longrightarrow>
        fst (PersistenciaBinaria_guardar_datos g ahora fs nombre datos cb) = Inr False)"
  by (simp add: PersistenciaJSON_guardar_datos_def PersistenciaBinaria_guardar_datos_def
      Let_def split: sum.splits)

theorem guardar_datos_no_representable_witness:
  "json_forma (preparar_datos_para_json (VDict [(VTuple [], VNone)])) = None
   \<and> fst (PersistenciaJSON_guardar_datos (GestorArchivos_init ''data'')
        \<lparr>anio = 2024, mes = 1, dia = 2, hora = 3, minuto = 4, segundo = 5, microsegundo = 0\<rparr>
        [(''data'', Directorio 0), (''data/json'', Directorio 0)]
        ''tareas'' (VDict [(VTuple [], VNone)]) True) = Inl ValueError
   \<and> map_of (snd (PersistenciaJSON_guardar_datos (GestorArchivos_init ''data'')
        \<lparr>anio = 2024, mes = 1, dia = 2, hora = 3, minuto = 4, segundo = 5, microsegundo = 0\<rparr>
        [(''data'', Directorio 0), (''data/json'', Directorio 0)]
        ''tareas'' (VDict [(VTuple [], VNone)]) True))
        (obtener_ruta_json (GestorArchivos_init ''data'') ''tareas'')
       = Some (Archivo Corrupto (instante
          \<lparr>anio = 2024, mes = 1, dia = 2, hora = 3, minuto = 4, segundo = 5, microsegundo = 0\<rparr>))
   \<and> pickle_falla (VObj ''f'' None Lanza_PicklingError) = Some PicklingError
   \<and> fst (PersistenciaBinaria_guardar_datos (GestorArchivos_init ''data'')
        \<lparr>anio = 2024, mes = 1, dia = 2, hora = 3, minuto = 4, segundo = 5, microsegundo = 0\<rparr>
        [(''data'', Directorio 0), (''data/binarios'', Directorio 0)]
        ''tareas'' (VObj ''f'' None Lanza_PicklingError) True) = Inr False"
proof -
  let ?g = "GestorArchivos_init ''data''"
  let ?ah = "\<lparr>anio = 2024, mes = 1, dia = 2, hora = 3, minuto = 4, segundo = 5, microsegundo = 0\<rparr>"
  let ?fs = "[(''data'', Directorio 0), (''data/json'', Directorio 0)]"
  let ?fsb = "[(''data'', Directorio 0), (''data/binarios'', Directorio 0)]"
  let ?d = "VDict [(VTuple [], VNone)]"
  have a: "json_forma (preparar_datos_para_json ?d) = None" by simp
  have b: "fst (PersistenciaJSON_guardar_datos ?g ?ah ?fs ''tareas'' ?d True) = Inl ValueError"
    by code_simp
  have c: "pickle_falla (VObj ''f'' None Lanza_PicklingError) = Some PicklingError" by simp
  from guardar_datos_no_representable [of ?d ?g ?ah ?fs "''tareas''" True] a b
  have d: "map_of (snd (PersistenciaJSON_guardar_datos ?g ?ah ?fs ''tareas'' ?d True))
        (obtener_ruta_json ?g ''tareas'') = Some (Archivo Corrupto (instante ?ah))"
    by blast
  from guardar_datos_no_representable [of "VObj ''f'' None Lanza_PicklingError" ?g ?ah ?fsb "''tareas''" True] c
  have e: "fst (PersistenciaBinaria_guardar_datos ?g ?ah ?fsb ''tareas''
              (VObj ''f'' None Lanza_PicklingError) True) = Inr False"
    by blast
  from a b c d e show ?thesis by blast
qed

subsection \<open>Pruning of backups\<close>

lemma nombre_en_join:
  assumes "nombre_en d p = Some n" "d \<noteq> []" "\<not> suffix ''/'' d"
  shows "os_path_join d n = p"
proof -
  from assms(1) have p: "prefix (d @ ''/'') p" and n: "n = drop (length d + 1) p"
    and ne: "n \<noteq> []" and sl: "CHR ''/'' \<notin> set n"
    by (auto simp: nombre_en_def Let_def split: if_splits)
  from p obtain r where r: "p = (d @ ''/'') @ r" by (auto simp: prefix_def)
  with n have "n = r" by simp
  from ne sl have "\<not> prefix ''/'' n" by (cases n) auto
  with assms(2,3) r \<open>n = r\<close> show ?thesis by (simp add: os_path_join_def)
qed

lemma directorio_backups_forma:
  "directorio_backups (GestorArchivos_init base) \<noteq> []
   \<and> \<not> suffix ''/'' (directorio_backups (GestorArchivos_init base))"
  by (auto simp: GestorArchivos_init_def os_path_join_def suffix_def)

lemma map_of_delete_otro: "q \<noteq> p \<Longrightarrow> map_of (AList.delete p fs) q = map_of fs q"
  by (simp add: delete_conv')

lemma en_delete: "e \<in> set fs \<Longrightarrow> fst e \<noteq> p \<Longrightarrow> e \<in> set (AList.delete p fs)"
  by (auto simp: AList.delete_eq)

lemma bucle_limpieza_sin_fallos:
  assumes "d \<noteq> []" "\<not> suffix ''/'' d"
  shows "distinct (map fst fs) \<Longrightarrow> set xs \<subseteq> set fs \<Longrightarrow> distinct (map fst xs) \<Longrightarrow>
     list_all (\<lambda>e. backup_antiguo d limite e \<longrightarrow> \<not> es_carpeta (snd e)) xs \<Longrightarrow>
     bucle_limpieza d limite (List.map_filter (\<lambda>e. nombre_en d (fst e)) xs) fs c
       = (Inr (c + length (filter (backup_antiguo d limite) xs)),
          filter (\<lambda>e. fst e \<notin> fst ` set (filter (backup_antiguo d limite) xs)) fs)"
proof (induction xs arbitrary: fs c)
  case Nil
  then show ?case by (simp add: List.map_filter_simps)
next
  case (Cons x xs)
  from Cons.prems have xin: "x \<in> set fs" and sub: "set xs \<subseteq> set fs"
    and dxs: "distinct (map fst xs)" and xnot: "fst x \<notin> fst ` set xs"
    and ok: "list_all (\<lambda>e. backup_antiguo d limite e \<longrightarrow> \<not> es_carpeta (snd e)) xs"
    by auto
  show ?case
  proof (cases "nombre_en d (fst x)")
    case None
    then have "\<not> backup_antiguo d limite x" by (simp add: backup_antiguo_def)
    with None Cons.IH [OF Cons.prems(1) sub dxs ok] show ?thesis
      by (simp add: List.map_filter_simps)
  next
    case (Some n)
    from nombre_en_join [OF Some assms] have ruta: "os_path_join d n = fst x" .
    from xin Cons.prems(1) have look: "map_of fs (fst x) = Some (snd x)"
      by (metis map_of_is_SomeI prod.collapse)
    show ?thesis
    proof (cases "backup_antiguo d limite x")
      case False
      with Some have "\<not> fecha_de_nodo (snd x) < limite" by (simp add: backup_antiguo_def)
      with Some ruta look False Cons.IH [OF Cons.prems(1) sub dxs ok] show ?thesis
        by (cases "snd x")
          (simp_all add: List.map_filter_simps obtener_info_archivo_def Let_def)
    next
      case True
      with Some have viejo: "fecha_de_nodo (snd x) < limite" by (simp add: backup_antiguo_def)
      from True Cons.prems(4) have "\<not> es_carpeta (snd x)" by simp
      then obtain co t where nodo: "snd x = Archivo co t" by (cases "snd x") auto
      let ?fs1 = "AList.delete (fst x) fs"
      have d1: "distinct (map fst ?fs1)" using Cons.prems(1) by (rule distinct_delete)
      have sub1: "set xs \<subseteq> set ?fs1"
      proof
        fix e assume e: "e \<in> set xs"
        with xnot have "fst e \<noteq> fst x" by (metis imageI)
        with e sub show "e \<in> set ?fs1" by (auto intro: en_delete)
      qed
      have rem: "os_remove fs (fst x) = Inr ?fs1"
        using look nodo by (simp add: os_remove_def)
      have paso: "bucle_limpieza d limite (List.map_filter (\<lambda>e. nombre_en d (fst e)) (x # xs)) fs c
           = bucle_limpieza d limite (List.map_filter (\<lambda>e. nombre_en d (fst e)) xs) ?fs1 (c + 1)"
        using Some ruta look nodo viejo rem
        by (simp add: List.map_filter_simps obtener_info_archivo_def Let_def)
      have fil: "filter (\<lambda>e. fst e \<notin> fst ` set (filter (backup_antiguo d limite) xs)) ?fs1
           = filter (\<lambda>e. fst e \<notin> fst ` set (filter (backup_antiguo d limite) (x # xs))) fs"
        using True by (auto simp: AList.delete_eq intro!: filter_cong)
      from paso Cons.IH [OF d1 sub1 dxs ok, of "c + 1"] fil True show ?thesis
        by simp
    qed
  qed
qed


lemma bucle_limpieza_append:
  "bucle_limpieza d limite (ns1 @ ns2) fs c =
     (case bucle_limpieza d limite ns1 fs c of
        (Inl e, fs') \<Rightarrow> (Inl e, fs')
      | (Inr c', fs') \<Rightarrow> bucle_limpieza d limite ns2 fs' c')"
  by (induction ns1 arbitrary: fs c) (auto simp: Let_def split: sum.splits)

lemma claves_antiguas:
  assumes "distinct (map fst fs)" "set xs \<subseteq> set fs" "e \<in> set fs"
  shows "fst e \<in> fst ` set (filter (backup_antiguo d limite) xs)
           \<longleftrightarrow> e \<in> set xs \<and> backup_antiguo d limite e"
proof
  assume "fst e \<in> fst ` set (filter (backup_antiguo d limite) xs)"
  then obtain e' where e': "e' \<in> set xs" "backup_antiguo d limite e'" "fst e' = fst e"
    by auto
  with assms(2) have "e' \<in> set fs" by auto
  with assms(1,3) e'(3) have "e' = e"
    by (metis eq_key_imp_eq_value prod.collapse)
  with e' show "e \<in> set xs \<and> backup_antiguo d limite e" by simp
next
  assume "e \<in> set xs \<and> backup_antiguo d limite e"
  then show "fst e \<in> fst ` set (filter (backup_antiguo d limite) xs)" by auto
qed

lemma limpiar_sin_fallos:
  assumes "distinct (map fst fs)"
    and "restar_dias ahora dias = Inr limite"
    and "map_of fs (directorio_backups (GestorArchivos_init base)) = Some (Directorio t0)"
    and "list_all (\<lambda>e. backup_antiguo (directorio_backups (GestorArchivos_init base)) limite e
                        \<longrightarrow> \<not> es_carpeta (snd e)) fs"
  shows "limpiar_backups_antiguos (GestorPersistencia_init base) ahora fs dias
     = (Inr (length (filter (backup_antiguo (directorio_backups (GestorArchivos_init base)) limite) fs)),
        filter (\<lambda>e. \<not> backup_antiguo (directorio_backups (GestorArchivos_init base)) limite e) fs)"
proof -
  let ?d = "directorio_backups (GestorArchivos_init base)"
  from directorio_backups_forma [of base] have f: "?d \<noteq> []" "\<not> suffix ''/'' ?d" by simp_all
  have b: "bucle_limpieza ?d limite (List.map_filter (\<lambda>e. nombre_en ?d (fst e)) fs) fs 0
       = (Inr (0 + length (filter (backup_antiguo ?d limite) fs)),
          filter (\<lambda>e. fst e \<notin> fst ` set (filter (backup_antiguo ?d limite) fs)) fs)"
    using assms(1) _ assms(1) assms(4) by (rule bucle_limpieza_sin_fallos [OF f]) simp
  have "filter (\<lambda>e. fst e \<notin> fst ` set (filter (backup_antiguo ?d limite) fs)) fs
       = filter (\<lambda>e. \<not> backup_antiguo ?d limite e) fs"
    using claves_antiguas [OF assms(1), of fs _ ?d limite]
    by (intro filter_cong) auto
  with b assms(2,3) show ?thesis
    by (simp add: limpiar_backups_antiguos_def os_listdir_def GestorPersistencia_init_def)
qed

lemma limpiar_con_fallo:
  assumes "distinct (map fst fs)"
    and "restar_dias ahora dias = Inr limite"
    and "map_of fs (directorio_backups (GestorArchivos_init base)) = Some (Directorio t0)"
    and "fs = pre @ x # post"
    and "backup_antiguo (directorio_backups (GestorArchivos_init base)) limite x"
    and "es_carpeta (snd x)"
    and "list_all (\<lambda>e. backup_antiguo (directorio_backups (GestorArchivos_init base)) limite e
                        \<longrightarrow> \<not> es_carpeta (snd e)) pre"
  shows "snd (limpiar_backups_antiguos (GestorPersistencia_init base) ahora fs dias)
     = filter (\<lambda>e. \<not> backup_antiguo (directorio_backups (GestorArchivos_init base)) limite e) pre
         @ x # post"
proof -
  let ?d = "directorio_backups (GestorArchivos_init base)"
  let ?P = "backup_antiguo ?d limite"
  let ?fs1 = "filter (\<lambda>e. fst e \<notin> fst ` set (filter ?P pre)) fs"
  from directorio_backups_forma [of base] have f: "?d \<noteq> []" "\<not> suffix ''/'' ?d" by simp_all
  from assms(1,4) have dpre: "distinct (map fst pre)" and sub: "set pre \<subseteq> set fs"
    and xfs: "x \<in> set fs" by auto
  have b: "bucle_limpieza ?d limite (List.map_filter (\<lambda>e. nombre_en ?d (fst e)) pre) fs 0
       = (Inr (0 + length (filter ?P pre)), ?fs1)"
    using assms(1) sub dpre assms(7) by (rule bucle_limpieza_sin_fallos [OF f])
  from assms(5) obtain n where n: "nombre_en ?d (fst x) = Some n"
    and viejo: "fecha_de_nodo (snd x) < limite"
    by (auto simp: backup_antiguo_def)
  from nombre_en_join [OF n f] have ruta: "os_path_join ?d n = fst x" .
  from assms(6) obtain t where nodo: "snd x = Directorio t" by (cases "snd x") auto
  have fs1: "?fs1 = filter (\<lambda>e. \<not> ?P e) pre @ x # post"
  proof -
    have "filter (\<lambda>e. fst e \<notin> fst ` set (filter ?P pre)) pre = filter (\<lambda>e. \<not> ?P e) pre"
      using claves_antiguas [OF assms(1) sub, of _ ?d limite] sub
      by (intro filter_cong) auto
    moreover have "filter (\<lambda>e. fst e \<notin> fst ` set (filter ?P pre)) (x # post) = x # post"
    proof -
      have "fst e \<notin> fst ` set (filter ?P pre)" if "e \<in> set (x # post)" for e
      proof
        assume "fst e \<in> fst ` set (filter ?P pre)"
        then have "fst e \<in> fst ` set pre" by auto
        moreover from that have "fst e \<in> fst ` set (x # post)" by (rule imageI)
        moreover from assms(1,4) have "fst ` set pre \<inter> fst ` set (x # post) = {}"
          by simp
        ultimately show False by blast
      qed
      then show ?thesis by (intro filter_True) blast
    qed
    ultimately show ?thesis using assms(4) by simp
  qed
  have "x \<in> set ?fs1" using fs1 by simp
  moreover have "distinct (map fst ?fs1)" using assms(1) by (simp add: distinct_map_filter)
  ultimately have look: "map_of ?fs1 (fst x) = Some (Directorio t)"
    using nodo by (metis map_of_is_SomeI prod.collapse)
  have resto: "bucle_limpieza ?d limite (n # List.map_filter (\<lambda>e. nombre_en ?d (fst e)) post) ?fs1
        (length (filter ?P pre)) = (Inl IOError, ?fs1)"
    using ruta look viejo nodo by (simp add: obtener_info_archivo_def os_remove_def)
  have "List.map_filter (\<lambda>e. nombre_en ?d (fst e)) fs
      = List.map_filter (\<lambda>e. nombre_en ?d (fst e)) pre
          @ n # List.map_filter (\<lambda>e. nombre_en ?d (fst e)) post"
    using assms(4) n by (simp add: List.map_filter_def)
  then have "bucle_limpieza ?d limite (List.map_filter (\<lambda>e. nombre_en ?d (fst e)) fs) fs 0
      = (Inl IOError, ?fs1)"
    using b resto by (simp add: bucle_limpieza_append)
  with assms(2,3) fs1 show ?thesis
    by (simp add: limpiar_backups_antiguos_def os_listdir_def GestorPersistencia_init_def)
qed


text \<open>
  The claim C3 asks that a failed removal neither stops the removal of the remaining
  files nor changes the count. With a subdirectory between two old backups, the first
  backup is removed, \<^verbatim>\<open>os.remove\<close> fails on the subdirectory, the second backup stays,
  and the result is \<open>0\<close>.
\<close>

theorem limpiar_backups_antiguos_counterexample:
  "limpiar_backups_antiguos (GestorPersistencia_init ''data'')
      \<lparr>anio = 2024, mes = 1, dia = 20, hora = 3, minuto = 4, segundo = 5, microsegundo = 0\<rparr>
      [(''data'', Directorio 63839847845000000),
       (''data/backups'', Directorio 63839847845000000),
       (''data/backups/usuarios.json_20240102_030405'',
          Archivo (Documento (VList [])) 63839847845000000),
       (''data/backups/viejo'', Directorio 63839847845000000),
       (''data/backups/tareas.json_20240102_030405'',
          Archivo (Documento (VList [])) 63839847845000000)]
      7
     = (Inr 0,
        [(''data'', Directorio 63839847845000000),
         (''data/backups'', Directorio 63839847845000000),
         (''data/backups/viejo'', Directorio 63839847845000000),
         (''data/backups/tareas.json_20240102_030405'',
            Archivo (Documento (VList [])) 63839847845000000)])"
  by code_simp

text \<open>
  C3, as the code has it. Let the limit \<^verbatim>\<open>now - timedelta(days)\<close> be representable and
  the backups directory exist. If no removal fails (no old entry of the directory is a
  subdirectory), pruning removes exactly the entries of the backups directory whose
  modification time lies before the limit and returns their number. If a removal fails,
  the pass ends there: the old entries listed before the failing one are removed, the
  failing one and everything listed after it stay.
\<close>

theorem limpiar_backups_antiguos_efecto:
  assumes "distinct (map fst fs)"
    and "restar_dias ahora dias = Inr limite"
    and "map_of fs (directorio_backups (GestorArchivos_init base)) = Some (Directorio t0)"
  shows "(list_all (\<lambda>e. backup_antiguo (directorio_backups (GestorArchivos_init base)) limite e
                        \<longrightarrow> \<not> es_carpeta (snd e)) fs
          \<longrightarrow> limpiar_backups_antiguos (GestorPersistencia_init base) ahora fs dias
               = (Inr (length (filter
                    (backup_antiguo (directorio_backups (GestorArchivos_init base)) limite) fs)),
                  filter (\<lambda>e. \<not> backup_antiguo
                    (directorio_backups (GestorArchivos_init base)) limite e) fs))
     \<and> (\<forall>pre x post.
          fs = pre @ x # post
          \<and> backup_antiguo (directorio_backups (GestorArchivos_init base)) limite x
          \<and> es_carpeta (snd x)
          \<and> list_all (\<lambda>e. backup_antiguo (directorio_backups (GestorArchivos_init base)) limite e
                        \<longrightarrow> \<not> es_carpeta (snd e)) pre
          \<longrightarrow> snd (limpiar_backups_antiguos (GestorPersistencia_init base) ahora fs dias)
               = filter (\<lambda>e. \<not> backup_antiguo
                    (directorio_backups (GestorArchivos_init base)) limite e) pre @ x # post)"
proof (intro conjI allI impI)
  assume "list_all (\<lambda>e. backup_antiguo (directorio_backups (GestorArchivos_init base)) limite e
                        \<longrightarrow> \<not> es_carpeta (snd e)) fs"
  with assms show "limpiar_backups_antiguos (GestorPersistencia_init base) ahora fs dias
               = (Inr (length (filter
                    (backup_antiguo (directorio_backups (GestorArchivos_init base)) limite) fs)),
                  filter (\<lambda>e. \<not> backup_antiguo
                    (directorio_backups (GestorArchivos_init base)) limite e) fs)"
    by (rule limpiar_sin_fallos)
next
  fix pre x post
  assume h: "fs = pre @ x # post
          \<and> backup_antiguo (directorio_backups (GestorArchivos_init base)) limite x
          \<and> es_carpeta (snd x)
          \<and> list_all (\<lambda>e. backup_antiguo (directorio_backups (GestorArchivos_init base)) limite e
                        \<longrightarrow> \<not> es_carpeta (snd e)) pre"
  show "snd (limpiar_backups_antiguos (GestorPersistencia_init base) ahora fs dias)
               = filter (\<lambda>e. \<not> backup_antiguo
                    (directorio_backups (GestorArchivos_init base)) limite e) pre @ x # post"
    using assms h by (intro limpiar_con_fallo) simp_all
qed


theorem limpiar_backups_antiguos_efecto_witness:
  "distinct (map fst
      [(''data/backups'', Directorio 63839847845000000),
       (''data/backups/a'', Archivo Vacio 63839847845000000),
       (''data/backups/b'', Archivo Vacio 63841402000000000)])
   \<and> restar_dias
       \<lparr>anio = 2024, mes = 1, dia = 20, hora = 3, minuto = 4, segundo = 5, microsegundo = 0\<rparr>
       7 = Inr 63840798245000000
   \<and> map_of
      [(''data/backups'', Directorio 63839847845000000),
       (''data/backups/a'', Archivo Vacio 63839847845000000),
       (''data/backups/b'', Archivo Vacio 63841402000000000)]
      (directorio_backups (GestorArchivos_init ''data'')) = Some (Directorio 63839847845000000)
   \<and> limpiar_backups_antiguos (GestorPersistencia_init ''data'')
       \<lparr>anio = 2024, mes = 1, dia = 20, hora = 3, minuto = 4, segundo = 5, microsegundo = 0\<rparr>
       [(''data/backups'', Directorio 63839847845000000),
        (''data/backups/a'', Archivo Vacio 63839847845000000),
        (''data/backups/b'', Archivo Vacio 63841402000000000)]
       7
     = (Inr 1,
        [(''data/backups'', Directorio 63839847845000000),
         (''data/backups/b'', Archivo Vacio 63841402000000000)])
   \<and> distinct (map fst
      [(''data/backups'', Directorio 63839847845000000),
       (''data/backups/a'', Archivo Vacio 63839847845000000),
       (''data/backups/d'', Directorio 63839847845000000),
       (''data/backups/b'', Archivo Vacio 63839847845000000)])
   \<and> backup_antiguo (directorio_backups (GestorArchivos_init ''data'')) 63840798245000000
        (''data/backups/d'', Directorio 63839847845000000)
   \<and> es_carpeta (snd (''data/backups/d'', Directorio 63839847845000000))
   \<and> snd (limpiar_backups_antiguos (GestorPersistencia_init ''data'')
       \<lparr>anio = 2024, mes = 1, dia = 20, hora = 3, minuto = 4, segundo = 5, microsegundo = 0\<rparr>
       [(''data/backups'', Directorio 63839847845000000),
        (''data/backups/a'', Archivo Vacio 63839847845000000),
        (''data/backups/d'', Directorio 63839847845000000),
        (''data/backups/b'', Archivo Vacio 63839847845000000)]
       7)
     = [(''data/backups'', Directorio 63839847845000000),
        (''data/backups/d'', Directorio 63839847845000000),
        (''data/backups/b'', Archivo Vacio 63839847845000000)]"
proof -
  let ?ah = "\<lparr>anio = 2024, mes = 1, dia = 20, hora = 3, minuto = 4, segundo = 5, microsegundo = 0\<rparr>"
  let ?fs = "[(''data/backups'', Directorio 63839847845000000),
       (''data/backups/a'', Archivo Vacio 63839847845000000),
       (''data/backups/b'', Archivo Vacio 63841402000000000)]"
  let ?pre = "[(''data/backups'', Directorio 63839847845000000),
       (''data/backups/a'', Archivo Vacio 63839847845000000)]"
  let ?x = "(''data/backups/d'', Directorio 63839847845000000)"
  let ?post = "[(''data/backups/b'', Archivo Vacio 63839847845000000)]"
  let ?d = "directorio_backups (GestorArchivos_init ''data'')"
  have h1: "distinct (map fst ?fs)" by simp
  have h2: "restar_dias ?ah 7 = Inr 63840798245000000" by code_simp
  have h3: "map_of ?fs ?d = Some (Directorio 63839847845000000)" by code_simp
  have a: "list_all (\<lambda>e. backup_antiguo ?d 63840798245000000 e \<longrightarrow> \<not> es_carpeta (snd e)) ?fs"
    by code_simp
  have n: "length (filter (backup_antiguo ?d 63840798245000000) ?fs) = 1" by code_simp
  have f: "filter (\<lambda>e. \<not> backup_antiguo ?d 63840798245000000 e) ?fs
      = [(''data/backups'', Directorio 63839847845000000),
         (''data/backups/b'', Archivo Vacio 63841402000000000)]"
    by code_simp
  note T = limpiar_backups_antiguos_efecto [OF h1 h2 h3]
  from T [THEN conjunct1, THEN mp, OF a]
  have r1: "limpiar_backups_antiguos (GestorPersistencia_init ''data'') ?ah ?fs 7
     = (Inr 1,
        [(''data/backups'', Directorio 63839847845000000),
         (''data/backups/b'', Archivo Vacio 63841402000000000)])"
    by (simp only: n f)
  have k1: "distinct (map fst (?pre @ ?x # ?post))" by simp
  have k3: "map_of (?pre @ ?x # ?post) ?d = Some (Directorio 63839847845000000)" by code_simp
  have b1: "backup_antiguo ?d 63840798245000000 ?x" by code_simp
  have b2: "es_carpeta (snd ?x)" by simp
  have b3: "list_all (\<lambda>e. backup_antiguo ?d 63840798245000000 e \<longrightarrow> \<not> es_carpeta (snd e)) ?pre"
    by code_simp
  have g: "filter (\<lambda>e. \<not> backup_antiguo ?d 63840798245000000 e) ?pre
      = [(''data/backups'', Directorio 63839847845000000)]"
    by code_simp
  note U = limpiar_backups_antiguos_efecto [OF k1 h2 k3]
  from U [THEN conjunct2, THEN spec, THEN spec, THEN spec, THEN mp,
      OF conjI [OF refl conjI [OF b1 conjI [OF b2 b3]]]]
  have r2: "snd (limpiar_backups_antiguos (GestorPersistencia_init ''data'') ?ah
        (?pre @ ?x # ?post) 7)
     = [(''data/backups'', Directorio 63839847845000000)] @ ?x # ?post"
    by (simp only: g)
  from k1 have k1': "distinct (map fst
      [(''data/backups'', Directorio 63839847845000000),
       (''data/backups/a'', Archivo Vacio 63839847845000000),
       (''data/backups/d'', Directorio 63839847845000000),
       (''data/backups/b'', Archivo Vacio 63839847845000000)])"
    by simp
  from r2 have r2': "snd (limpiar_backups_antiguos (GestorPersistencia_init ''data'') ?ah
       [(''data/backups'', Directorio 63839847845000000),
        (''data/backups/a'', Archivo Vacio 63839847845000000),
        (''data/backups/d'', Directorio 63839847845000000),
        (''data/backups/b'', Archivo Vacio 63839847845000000)] 7)
     = [(''data/backups'', Directorio 63839847845000000),
        (''data/backups/d'', Directorio 63839847845000000),
        (''data/backups/b'', Archivo Vacio 63839847845000000)]"
    by (simp only: append.simps)
  from h1 h2 h3 r1 k1' b1 b2 r2' show ?thesis by (intro conjI)
qed

subsection \<open>Paths of the directory layout\<close>

lemma directorios_de_init:
  "\<exists>B. directorio_json (GestorArchivos_init base) = B @ ''json''
     \<and> directorio_binarios (GestorArchivos_init base) = B @ ''binarios''
     \<and> directorio_backups (GestorArchivos_init base) = B @ ''backups''"
proof (cases "base = [] \<or> suffix ''/'' base")
  case True
  then show ?thesis
    by (intro exI [of _ base]) (auto simp: GestorArchivos_init_def os_path_join_def)
next
  case False
  then show ?thesis
    by (intro exI [of _ "base @ ''/''"]) (auto simp: GestorArchivos_init_def os_path_join_def)
qed

lemma os_path_join_relativo:
  "d \<noteq> [] \<Longrightarrow> \<not> suffix ''/'' d \<Longrightarrow> \<not> prefix ''/'' n \<Longrightarrow> os_path_join d n = d @ ''/'' @ n"
  by (simp add: os_path_join_def)

lemma no_termina_en_barra [simp]:
  "\<not> suffix ''/'' (B @ ''json'')" "\<not> suffix ''/'' (B @ ''binarios'')"
  "\<not> suffix ''/'' (B @ ''backups'')"
  by (auto simp: suffix_def)

lemma prefix_os_path_join: "\<not> prefix ''/'' b \<Longrightarrow> prefix a (os_path_join a b)"
  by (simp add: os_path_join_def)

lemma basename_relativo: "\<not> prefix ''/'' (os_path_basename p)"
proof
  assume "prefix ''/'' (os_path_basename p)"
  then have "CHR ''/'' \<in> set (os_path_basename p)"
    by (auto simp: prefix_def)
  then have "CHR ''/'' \<in> set (takeWhile (\<lambda>c. c \<noteq> CHR ''/'') (rev p))"
    by (simp add: os_path_basename_def)
  then show False by (auto dest: set_takeWhileD)
qed

lemma map_filter_update:
  "f k = None \<Longrightarrow>
     List.map_filter (\<lambda>e. f (fst e)) (AList.update k v fs) = List.map_filter (\<lambda>e. f (fst e)) fs"
  by (induction fs) (auto simp: List.map_filter_simps split: option.splits)

lemma os_listdir_update:
  "nombre_en d k = None \<Longrightarrow> k \<noteq> d \<Longrightarrow> os_listdir (AList.update k v fs) d = os_listdir fs d"
  using map_filter_update [of "nombre_en d" k v fs]
  by (simp add: os_listdir_def update_conv' split: option.splits nodo.splits)

subsection \<open>Writes and their frame\<close>

lemma solo_escribe_refl: "solo_escribe P fs fs"
  by (simp add: solo_escribe_def)

lemma solo_escribe_trans:
  "solo_escribe P fs fs1 \<Longrightarrow> solo_escribe Q fs1 fs2 \<Longrightarrow> solo_escribe (\<lambda>q. P q \<or> Q q) fs fs2"
  by (simp add: solo_escribe_def)

lemma solo_escribe_mono:
  "solo_escribe P fs fs' \<Longrightarrow> (\<And>q. P q \<Longrightarrow> Q q) \<Longrightarrow> solo_escribe Q fs fs'"
  by (auto simp: solo_escribe_def)

lemma solo_escribe_update:
  assumes "\<And>t'. map_of fs p \<noteq> Some (Directorio t')"
  shows "solo_escribe (\<lambda>q. q = p) fs (AList.update p (Archivo c t) fs)"
  using assms by (auto simp: solo_escribe_def update_conv')

lemma es_un_directorio_iff:
  "es_un_directorio fs d
     = (list_all (\<lambda>c. c = CHR ''/'') d \<or> (\<exists>t. map_of fs d = Some (Directorio t)))"
  by (auto simp: es_un_directorio_def split: option.splits nodo.splits)

lemma solo_escribe_directorio:
  "solo_escribe P fs fs' \<Longrightarrow> es_un_directorio fs' d = es_un_directorio fs d"
  by (simp add: solo_escribe_def es_un_directorio_iff)

lemma solo_escribe_fuera:
  "solo_escribe P fs fs' \<Longrightarrow> \<not> P q \<Longrightarrow> map_of fs' q = map_of fs q"
  by (simp add: solo_escribe_def)

lemma se_puede_escribir_fuera:
  assumes "solo_escribe P fs fs'" "\<not> P p"
  shows "se_puede_escribir fs' p = se_puede_escribir fs p"
  using solo_escribe_fuera [OF assms] solo_escribe_directorio [OF assms(1)]
  by (simp add: se_puede_escribir_def split: option.splits nodo.splits)

lemma abrir_escritura_si_se_puede:
  "se_puede_escribir fs p \<Longrightarrow> abrir_escritura fs t p = Inr (AList.update p (Archivo Vacio t) fs)"
  by (auto simp: se_puede_escribir_def abrir_escritura_def split: option.splits nodo.splits)

lemma abrir_escritura_exito:
  "abrir_escritura fs t p = Inr fs' \<Longrightarrow>
     fs' = AList.update p (Archivo Vacio t) fs \<and> (\<forall>t'. map_of fs p \<noteq> Some (Directorio t'))"
  by (auto simp: abrir_escritura_def split: option.splits nodo.splits if_splits)

lemma copy2_solo_escribe:
  assumes "shutil_copy2 fs src dst = Inr fs'"
  shows "solo_escribe (\<lambda>q. prefix dst q \<and> q \<noteq> src) fs fs'"
proof -
  from assms obtain c t where src: "map_of fs src = Some (Archivo c t)"
    by (auto simp: shutil_copy2_def split: option.splits nodo.splits)
  define dst' where "dst' = (case map_of fs dst of
                         Some (Directorio t') \<Rightarrow> os_path_join dst (os_path_basename src)
                       | _ \<Rightarrow> dst)"
  have pre: "prefix dst dst'"
    by (auto simp: dst'_def prefix_os_path_join basename_relativo split: option.splits nodo.splits)
  from assms src have ne: "dst' \<noteq> src"
    and nd: "\<And>t'. map_of fs dst' \<noteq> Some (Directorio t')"
    and fs': "fs' = AList.update dst' (Archivo c t) fs"
    by (auto simp: shutil_copy2_def dst'_def [symmetric] Let_def
        split: option.splits nodo.splits if_splits)
  from solo_escribe_update [OF nd, of c t] fs' have "solo_escribe (\<lambda>q. q = dst') fs fs'"
    by simp
  then show ?thesis
  proof (rule solo_escribe_mono)
    fix q assume "q = dst'"
    with pre ne show "prefix dst q \<and> q \<noteq> src" by simp
  qed
qed

subsection \<open>Names of backups\<close>

lemma digito_es_digito: "n < 10 \<Longrightarrow> es_digito (digito n)"
proof -
  assume "n < 10"
  then have "n \<in> {0, 1, 2, 3, 4, 5, 6, 7, 8, 9}" by auto
  then show ?thesis
    by (auto simp: digito_def es_digito_def)
qed

lemma str_nat_digitos: "list_all es_digito (str_nat n)"
proof (induction n rule: str_nat.induct)
  case (1 n)
  show ?case
  proof (cases "n < 10")
    case True
    then show ?thesis
      by (simp add: str_nat.simps [of n] digito_es_digito)
  next
    case False
    with "1.IH" show ?thesis
      by (simp add: str_nat.simps [of n] digito_es_digito)
  qed
qed

lemma str_nat_length_1: "n < 10 \<Longrightarrow> length (str_nat n) = 1"
  by (simp add: str_nat.simps [of n])

lemma str_nat_length_2: "10 \<le> n \<Longrightarrow> n < 100 \<Longrightarrow> length (str_nat n) = 2"
  by (simp add: str_nat.simps [of n] str_nat_length_1)

lemma str_nat_length_3: "100 \<le> n \<Longrightarrow> n < 1000 \<Longrightarrow> length (str_nat n) = 3"
  by (simp add: str_nat.simps [of n] str_nat_length_2)

lemma str_nat_length_4: "1000 \<le> n \<Longrightarrow> n < 10000 \<Longrightarrow> length (str_nat n) = 4"
  by (simp add: str_nat.simps [of n] str_nat_length_3)

lemma rellenar_2:
  assumes "n < 100"
  shows "length (rellenar 2 (str_nat n)) = 2 \<and> list_all es_digito (rellenar 2 (str_nat n))"
proof (cases "n < 10")
  case True
  then show ?thesis
    using str_nat_digitos [of n]
    by (simp add: rellenar_def str_nat_length_1 es_digito_def)
next
  case False
  with assms show ?thesis
    using str_nat_digitos [of n]
    by (simp add: rellenar_def str_nat_length_2)
qed

lemma dias_del_mes_le: "dias_del_mes y m \<le> 31"
proof (cases "1 \<le> m \<and> m \<le> 12")
  case False
  then show ?thesis by (auto simp: dias_del_mes_def)
next
  case True
  then have "m = 1 \<or> m = 2 \<or> m = 3 \<or> m = 4 \<or> m = 5 \<or> m = 6 \<or> m = 7 \<or> m = 8
      \<or> m = 9 \<or> m = 10 \<or> m = 11 \<or> m = 12"
    by arith
  then show ?thesis
    by (elim disjE) (simp_all add: dias_del_mes_def)
qed

lemma strftime_marca_forma:
  assumes "datetime_valido ahora" "1000 \<le> anio ahora"
  shows "\<exists>fecha tiempo. strftime_marca ahora = fecha @ ''_'' @ tiempo
           \<and> length fecha = 8 \<and> length tiempo = 6
           \<and> list_all es_digito fecha \<and> list_all es_digito tiempo"
proof -
  from assms have r: "anio ahora < 10000" "mes ahora < 100" "dia ahora < 100"
    "hora ahora < 100" "minuto ahora < 100" "segundo ahora < 100"
    using dias_del_mes_le [of "anio ahora" "mes ahora"]
    by (simp_all add: datetime_valido_def)
  let ?f = "str_nat (anio ahora) @ rellenar 2 (str_nat (mes ahora))
              @ rellenar 2 (str_nat (dia ahora))"
  let ?t = "rellenar 2 (str_nat (hora ahora)) @ rellenar 2 (str_nat (minuto ahora))
              @ rellenar 2 (str_nat (segundo ahora))"
  have "strftime_marca ahora = ?f @ ''_'' @ ?t"
    by (simp add: strftime_marca_def)
  moreover have "length ?f = 8" "list_all es_digito ?f"
    using assms(2) r str_nat_length_4 [of "anio ahora"] str_nat_digitos [of "anio ahora"]
      rellenar_2 [of "mes ahora"] rellenar_2 [of "dia ahora"]
    by simp_all
  moreover have "length ?t = 6" "list_all es_digito ?t"
    using r rellenar_2 [of "hora ahora"] rellenar_2 [of "minuto ahora"]
      rellenar_2 [of "segundo ahora"]
    by simp_all
  ultimately show ?thesis by blast
qed

lemma strftime_marca_general:
  assumes "datetime_valido ahora"
  shows "\<exists>md tiempo. strftime_marca ahora = str_nat (anio ahora) @ md @ ''_'' @ tiempo
           \<and> length md = 4 \<and> length tiempo = 6
           \<and> list_all es_digito (str_nat (anio ahora))
           \<and> list_all es_digito md \<and> list_all es_digito tiempo"
proof -
  from assms have r: "mes ahora < 100" "dia ahora < 100"
    "hora ahora < 100" "minuto ahora < 100" "segundo ahora < 100"
    using dias_del_mes_le [of "anio ahora" "mes ahora"]
    by (simp_all add: datetime_valido_def)
  let ?md = "rellenar 2 (str_nat (mes ahora)) @ rellenar 2 (str_nat (dia ahora))"
  let ?t = "rellenar 2 (str_nat (hora ahora)) @ rellenar 2 (str_nat (minuto ahora))
              @ rellenar 2 (str_nat (segundo ahora))"
  have "strftime_marca ahora = str_nat (anio ahora) @ ?md @ ''_'' @ ?t"
    by (simp add: strftime_marca_def)
  moreover have "length ?md = 4" "list_all es_digito ?md"
    using r rellenar_2 [of "mes ahora"] rellenar_2 [of "dia ahora"]
    by simp_all
  moreover have "length ?t = 6" "list_all es_digito ?t"
    using r rellenar_2 [of "hora ahora"] rellenar_2 [of "minuto ahora"]
      rellenar_2 [of "segundo ahora"]
    by simp_all
  ultimately show ?thesis using str_nat_digitos [of "anio ahora"] by blast
qed

lemma rellenar_sin_barra: "CHR ''/'' \<notin> set (rellenar k (str_nat n))"
  using str_nat_digitos [of n]
  by (auto simp: rellenar_def list_all_iff es_digito_def)

lemma strftime_marca_sin_barra: "CHR ''/'' \<notin> set (strftime_marca ahora)"
proof -
  have "CHR ''/'' \<notin> set (str_nat (anio ahora))"
    using str_nat_digitos [of "anio ahora"] by (auto simp: list_all_iff es_digito_def)
  then show ?thesis
    by (simp add: strftime_marca_def rellenar_sin_barra)
qed

lemma nombre_en_de_join:
  assumes "d \<noteq> []" "\<not> suffix ''/'' d" "CHR ''/'' \<notin> set n" "n \<noteq> []"
  shows "nombre_en d (os_path_join d n) = Some n"
proof -
  from assms(3,4) have "\<not> prefix ''/'' n" by (cases n) auto
  with assms(1,2) have "os_path_join d n = d @ ''/'' @ n"
    by (rule os_path_join_relativo)
  with assms(3,4) show ?thesis by (simp add: nombre_en_def)
qed

lemma copy2_con_destino:
  "shutil_copy2 fs src dst =
     (case map_of fs src of
        None \<Rightarrow> Inl FileNotFoundError
      | Some (Directorio t) \<Rightarrow> Inl IOError
      | Some (Archivo c t) \<Rightarrow>
          if destino_de_copia fs src dst = src then Inl IOError
          else case map_of fs (destino_de_copia fs src dst) of
                 Some (Directorio t') \<Rightarrow> Inl IOError
               | Some (Archivo c' t') \<Rightarrow>
                   Inr (AList.update (destino_de_copia fs src dst) (Archivo c t) fs)
               | None \<Rightarrow>
                   if es_un_directorio fs (os_path_dirname (destino_de_copia fs src dst))
                   then Inr (AList.update (destino_de_copia fs src dst) (Archivo c t) fs)
                   else Inl FileNotFoundError)"
  by (simp add: shutil_copy2_def destino_de_copia_def Let_def split: option.splits nodo.splits)

lemma copia_previa:
  "map_of (if os_path_exists fs src
           then (case shutil_copy2 fs src dst of Inl e \<Rightarrow> fs | Inr fs' \<Rightarrow> fs')
           else fs) q
     = (case map_of fs src of
          Some (Archivo c t) \<Rightarrow>
            if destino_de_copia fs src dst \<noteq> src
                 \<and> se_puede_escribir fs (destino_de_copia fs src dst)
                 \<and> q = destino_de_copia fs src dst
            then Some (Archivo c t) else map_of fs q
        | _ \<Rightarrow> map_of fs q)"
  by (auto simp: copy2_con_destino os_path_exists_def se_puede_escribir_def update_conv'
      split: option.splits nodo.splits)

lemma guardar_json_fuera_de_ruta:
  assumes "q \<noteq> obtener_ruta_json g n"
  shows "map_of (snd (PersistenciaJSON_guardar_datos g ahora fs n datos cb)) q
     = map_of (if cb \<and> os_path_exists fs (obtener_ruta_json g n)
               then PersistenciaJSON_crear_backup g ahora fs (obtener_ruta_json g n) n
               else fs) q"
proof -
  define fs1 where "fs1 = (if cb \<and> os_path_exists fs (obtener_ruta_json g n)
               then PersistenciaJSON_crear_backup g ahora fs (obtener_ruta_json g n) n
               else fs)"
  show ?thesis
  proof (cases "abrir_escritura fs1 (instante ahora) (obtener_ruta_json g n)")
    case (Inl e)
    then show ?thesis
      unfolding fs1_def [symmetric]
      by (simp add: PersistenciaJSON_guardar_datos_def Let_def fs1_def [symmetric])
  next
    case (Inr fs2)
    from abrir_escritura_otra_ruta [OF Inr assms] Inr assms show ?thesis
      unfolding fs1_def [symmetric]
      by (simp add: PersistenciaJSON_guardar_datos_def Let_def fs1_def [symmetric]
          split: option.splits)
  qed
qed

lemma guardar_binario_fuera_de_ruta:
  assumes "q \<noteq> obtener_ruta_binario g n"
  shows "map_of (snd (PersistenciaBinaria_guardar_datos g ahora fs n datos cb)) q
     = map_of (if cb \<and> os_path_exists fs (obtener_ruta_binario g n)
               then PersistenciaBinaria_crear_backup g ahora fs (obtener_ruta_binario g n) n
               else fs) q"
proof -
  define fs1 where "fs1 = (if cb \<and> os_path_exists fs (obtener_ruta_binario g n)
               then PersistenciaBinaria_crear_backup g ahora fs (obtener_ruta_binario g n) n
               else fs)"
  show ?thesis
  proof (cases "abrir_escritura fs1 (instante ahora) (obtener_ruta_binario g n)")
    case (Inl e)
    then show ?thesis
      unfolding fs1_def [symmetric]
      by (simp add: PersistenciaBinaria_guardar_datos_def Let_def fs1_def [symmetric])
  next
    case (Inr fs2)
    from abrir_escritura_otra_ruta [OF Inr assms] Inr assms show ?thesis
      unfolding fs1_def [symmetric]
      by (simp add: PersistenciaBinaria_guardar_datos_def Let_def fs1_def [symmetric]
          split: option.splits)
  qed
qed

lemma ruta_backup_json:
  "obtener_ruta_backup g ahora (nombre @ ''.json'')
     = os_path_join (directorio_backups g) (nombre @ ''.json_'' @ strftime_marca ahora)"
  "obtener_ruta_backup g ahora (nombre @ ''.pkl'')
     = os_path_join (directorio_backups g) (nombre @ ''.pkl_'' @ strftime_marca ahora)"
  by (simp_all add: obtener_ruta_backup_def)

lemma guardar_json_con_backup:
  assumes "q \<noteq> obtener_ruta_json g nombre"
  shows "map_of (snd (PersistenciaJSON_guardar_datos g ahora fs nombre datos True)) q
     = (case map_of fs (obtener_ruta_json g nombre) of
          Some (Archivo c t) \<Rightarrow>
            if se_puede_escribir fs (destino_de_copia fs (obtener_ruta_json g nombre)
                   (os_path_join (directorio_backups g)
                      (nombre @ ''.json_'' @ strftime_marca ahora)))
                 \<and> q = destino_de_copia fs (obtener_ruta_json g nombre)
                   (os_path_join (directorio_backups g)
                      (nombre @ ''.json_'' @ strftime_marca ahora))
            then Some (Archivo c t) else map_of fs q
        | _ \<Rightarrow> map_of fs q)"
  unfolding guardar_json_fuera_de_ruta [OF assms] PersistenciaJSON_crear_backup_def Let_def
    ruta_backup_json
  using assms
  by (simp only: simp_thms copia_previa split: option.splits nodo.splits) auto

lemma guardar_binario_con_backup:
  assumes "q \<noteq> obtener_ruta_binario g nombre"
  shows "map_of (snd (PersistenciaBinaria_guardar_datos g ahora fs nombre datos True)) q
     = (case map_of fs (obtener_ruta_binario g nombre) of
          Some (Archivo c t) \<Rightarrow>
            if se_puede_escribir fs (destino_de_copia fs (obtener_ruta_binario g nombre)
                   (os_path_join (directorio_backups g)
                      (nombre @ ''.pkl_'' @ strftime_marca ahora)))
                 \<and> q = destino_de_copia fs (obtener_ruta_binario g nombre)
                   (os_path_join (directorio_backups g)
                      (nombre @ ''.pkl_'' @ strftime_marca ahora))
            then Some (Archivo c t) else map_of fs q
        | _ \<Rightarrow> map_of fs q)"
  unfolding guardar_binario_fuera_de_ruta [OF assms] PersistenciaBinaria_crear_backup_def Let_def
    ruta_backup_json
  using assms
  by (simp only: simp_thms copia_previa split: option.splits nodo.splits) auto

text \<open>
  The claim C4 puts the extension last, \<^verbatim>\<open>{collection}_{YYYYMMDD_HHMMSS}.{ext}\<close>. The
  backup of \<^verbatim>\<open>usuarios.json\<close> taken on 2024-01-02 at 03:04:05 is
  \<^verbatim>\<open>usuarios.json_20240102_030405\<close>.
\<close>

theorem nombre_de_backup_counterexample:
  "obtener_ruta_backup (GestorArchivos_init ''data'')
      \<lparr>anio = 2024, mes = 1, dia = 2, hora = 3, minuto = 4, segundo = 5, microsegundo = 0\<rparr>
      (''usuarios'' @ ''.json'')
     = ''data/backups/usuarios.json_20240102_030405''
   \<and> snd (PersistenciaJSON_guardar_datos (GestorArchivos_init ''data'')
      \<lparr>anio = 2024, mes = 1, dia = 2, hora = 3, minuto = 4, segundo = 5, microsegundo = 0\<rparr>
      [(''data'', Directorio 0), (''data/json'', Directorio 0), (''data/backups'', Directorio 0),
       (''data/json/usuarios.json'', Archivo (Documento (VList [VInt 1])) 7)]
      ''usuarios'' (VList [VInt 2]) True)
     = [(''data'', Directorio 0), (''data/json'', Directorio 0), (''data/backups'', Directorio 0),
        (''data/json/usuarios.json'', Archivo (Documento (VList [VInt 2])) 63839847845000000),
        (''data/backups/usuarios.json_20240102_030405'', Archivo (Documento (VList [VInt 1])) 7)]
   \<and> map_of (snd (PersistenciaJSON_guardar_datos (GestorArchivos_init ''data'')
      \<lparr>anio = 2024, mes = 1, dia = 2, hora = 3, minuto = 4, segundo = 5, microsegundo = 0\<rparr>
      [(''data'', Directorio 0), (''data/json'', Directorio 0), (''data/backups'', Directorio 0),
       (''data/json/usuarios.json'', Archivo (Documento (VList [VInt 1])) 7)]
      ''usuarios'' (VList [VInt 2]) True))
      ''data/backups/usuarios_20240102_030405.json'' = None"
  by code_simp

text \<open>
  C4, as the code has it. The backup made before an overwrite is a copy of the collection
  file as it was, content and modification time, put at
  \<^verbatim>\<open>{backups}/{collection}.{ext}_{timestamp}\<close>, the extension before the timestamp, where
  it replaces a file that is already there; if that path is an existing directory, the
  copy goes into it under the base name of the collection file. The copy is made exactly
  when the collection file is a regular file and the destination can be written; beside
  the destination and the collection file itself the save changes no path. With a
  backups directory as the constructor computes it and a collection name without a
  slash, the backup path is listed in the backups directory under
  \<^verbatim>\<open>{collection}.{ext}_{timestamp}\<close>. For a valid clock reading the timestamp is the
  year, not padded, then two digits each for month and day, an underscore, and two digits
  each for hour, minute and second: eight digits, an underscore and six digits from the
  year 1000 on.
\<close>

theorem nombre_de_backup_automatico:
  "destino_de_copia fs (obtener_ruta_json g nombre)
             (os_path_join (directorio_backups g) (nombre @ ''.json_'' @ strftime_marca ahora))
      = (if \<exists>t. map_of fs (os_path_join (directorio_backups g) (nombre @ ''.json_'' @ strftime_marca ahora)) = Some (Directorio t)
         then os_path_join (os_path_join (directorio_backups g) (nombre @ ''.json_'' @ strftime_marca ahora))
                (os_path_basename (obtener_ruta_json g nombre))
         else os_path_join (directorio_backups g) (nombre @ ''.json_'' @ strftime_marca ahora))
   \<and> (\<forall>q. q \<noteq> obtener_ruta_json g nombre
          \<and> q \<noteq> destino_de_copia fs (obtener_ruta_json g nombre)
             (os_path_join (directorio_backups g) (nombre @ ''.json_'' @ strftime_marca ahora))
        \<longrightarrow> map_of (snd (PersistenciaJSON_guardar_datos g ahora fs nombre datos True)) q = map_of fs q)
   \<and> (\<forall>c t. map_of fs (obtener_ruta_json g nombre) = Some (Archivo c t)
          \<and> destino_de_copia fs (obtener_ruta_json g nombre)
             (os_path_join (directorio_backups g) (nombre @ ''.json_'' @ strftime_marca ahora)) \<noteq> obtener_ruta_json g nombre
          \<and> se_puede_escribir fs
               (destino_de_copia fs (obtener_ruta_json g nombre)
             (os_path_join (directorio_backups g) (nombre @ ''.json_'' @ strftime_marca ahora)))
        \<longrightarrow> map_of (snd (PersistenciaJSON_guardar_datos g ahora fs nombre datos True))
              (destino_de_copia fs (obtener_ruta_json g nombre)
             (os_path_join (directorio_backups g) (nombre @ ''.json_'' @ strftime_marca ahora)))
            = Some (Archivo c t))
   \<and> (destino_de_copia fs (obtener_ruta_json g nombre)
             (os_path_join (directorio_backups g) (nombre @ ''.json_'' @ strftime_marca ahora)) \<noteq> obtener_ruta_json g nombre
        \<and> \<not> (\<exists>c t. map_of fs (obtener_ruta_json g nombre) = Some (Archivo c t)
                \<and> se_puede_escribir fs
                     (destino_de_copia fs (obtener_ruta_json g nombre)
             (os_path_join (directorio_backups g) (nombre @ ''.json_'' @ strftime_marca ahora))))
        \<longrightarrow> map_of (snd (PersistenciaJSON_guardar_datos g ahora fs nombre datos True))
              (destino_de_copia fs (obtener_ruta_json g nombre)
             (os_path_join (directorio_backups g) (nombre @ ''.json_'' @ strftime_marca ahora)))
            = map_of fs
              (destino_de_copia fs (obtener_ruta_json g nombre)
             (os_path_join (directorio_backups g) (nombre @ ''.json_'' @ strftime_marca ahora))))
   \<and> destino_de_copia fs (obtener_ruta_binario g nombre)
             (os_path_join (directorio_backups g) (nombre @ ''.pkl_'' @ strftime_marca ahora))
      = (if \<exists>t. map_of fs (os_path_join (directorio_backups g) (nombre @ ''.pkl_'' @ strftime_marca ahora)) = Some (Directorio t)
         then os_path_join (os_path_join (directorio_backups g) (nombre @ ''.pkl_'' @ strftime_marca ahora))
                (os_path_basename (obtener_ruta_binario g nombre))
         else os_path_join (directorio_backups g) (nombre @ ''.pkl_'' @ strftime_marca ahora))
   \<and> (\<forall>q. q \<noteq> obtener_ruta_binario g nombre
          \<and> q \<noteq> destino_de_copia fs (obtener_ruta_binario g nombre)
             (os_path_join (directorio_backups g) (nombre @ ''.pkl_'' @ strftime_marca ahora))
        \<longrightarrow> map_of (snd (PersistenciaBinaria_guardar_datos g ahora fs nombre datos True)) q = map_of fs q)
   \<and> (\<forall>c t. map_of fs (obtener_ruta_binario g nombre) = Some (Archivo c t)
          \<and> destino_de_copia fs (obtener_ruta_binario g nombre)
             (os_path_join (directorio_backups g) (nombre @ ''.pkl_'' @ strftime_marca ahora)) \<noteq> obtener_ruta_binario g nombre
          \<and> se_puede_escribir fs
               (destino_de_copia fs (obtener_ruta_binario g nombre)
             (os_path_join (directorio_backups g) (nombre @ ''.pkl_'' @ strftime_marca ahora)))
        \<longrightarrow> map_of (snd (PersistenciaBinaria_guardar_datos g ahora fs nombre datos True))
              (destino_de_copia fs (obtener_ruta_binario g nombre)
             (os_path_join (directorio_backups g) (nombre @ ''.pkl_'' @ strftime_marca ahora)))
            = Some (Archivo c t))
   \<and> (destino_de_copia fs (obtener_ruta_binario g nombre)
             (os_path_join (directorio_backups g) (nombre @ ''.pkl_'' @ strftime_marca ahora)) \<noteq> obtener_ruta_binario g nombre
        \<and> \<not> (\<exists>c t. map_of fs (obtener_ruta_binario g nombre) = Some (Archivo c t)
                \<and> se_puede_escribir fs
                     (destino_de_copia fs (obtener_ruta_binario g nombre)
             (os_path_join (directorio_backups g) (nombre @ ''.pkl_'' @ strftime_marca ahora))))
        \<longrightarrow> map_of (snd (PersistenciaBinaria_guardar_datos g ahora fs nombre datos True))
              (destino_de_copia fs (obtener_ruta_binario g nombre)
             (os_path_join (directorio_backups g) (nombre @ ''.pkl_'' @ strftime_marca ahora)))
            = map_of fs
              (destino_de_copia fs (obtener_ruta_binario g nombre)
             (os_path_join (directorio_backups g) (nombre @ ''.pkl_'' @ strftime_marca ahora))))
   \<and> (directorio_backups g \<noteq> [] \<and> \<not> suffix ''/'' (directorio_backups g)
        \<and> CHR ''/'' \<notin> set nombre
        \<longrightarrow> nombre_en (directorio_backups g)
              (os_path_join (directorio_backups g) (nombre @ ''.json_'' @ strftime_marca ahora))
            = Some (nombre @ ''.json_'' @ strftime_marca ahora)
          \<and> nombre_en (directorio_backups g)
              (os_path_join (directorio_backups g) (nombre @ ''.pkl_'' @ strftime_marca ahora))
            = Some (nombre @ ''.pkl_'' @ strftime_marca ahora))
   \<and> (datetime_valido ahora
        \<longrightarrow> (\<exists>md tiempo. strftime_marca ahora = str_nat (anio ahora) @ md @ ''_'' @ tiempo
              \<and> length md = 4 \<and> length tiempo = 6
              \<and> list_all es_digito (str_nat (anio ahora))
              \<and> list_all es_digito md \<and> list_all es_digito tiempo))
   \<and> (datetime_valido ahora \<and> 1000 \<le> anio ahora
        \<longrightarrow> (\<exists>fecha tiempo. strftime_marca ahora = fecha @ ''_'' @ tiempo
              \<and> length fecha = 8 \<and> length tiempo = 6
              \<and> list_all es_digito fecha \<and> list_all es_digito tiempo))"
proof -
  have j1: "destino_de_copia fs (obtener_ruta_json g nombre)
             (os_path_join (directorio_backups g) (nombre @ ''.json_'' @ strftime_marca ahora))
      = (if \<exists>t. map_of fs (os_path_join (directorio_backups g) (nombre @ ''.json_'' @ strftime_marca ahora)) = Some (Directorio t)
         then os_path_join (os_path_join (directorio_backups g) (nombre @ ''.json_'' @ strftime_marca ahora))
                (os_path_basename (obtener_ruta_json g nombre))
         else os_path_join (directorio_backups g) (nombre @ ''.json_'' @ strftime_marca ahora))"
    by (auto simp: destino_de_copia_def split: option.splits nodo.splits)
  have j2: "(\<forall>q. q \<noteq> obtener_ruta_json g nombre
          \<and> q \<noteq> destino_de_copia fs (obtener_ruta_json g nombre)
             (os_path_join (directorio_backups g) (nombre @ ''.json_'' @ strftime_marca ahora))
        \<longrightarrow> map_of (snd (PersistenciaJSON_guardar_datos g ahora fs nombre datos True)) q = map_of fs q)"
  proof (intro allI impI)
    fix q
    assume "q \<noteq> obtener_ruta_json g nombre
          \<and> q \<noteq> destino_de_copia fs (obtener_ruta_json g nombre)
             (os_path_join (directorio_backups g) (nombre @ ''.json_'' @ strftime_marca ahora))"
    then show "map_of (snd (PersistenciaJSON_guardar_datos g ahora fs nombre datos True)) q = map_of fs q"
      using guardar_json_con_backup [of q g nombre ahora fs datos]
      by (auto split: option.splits nodo.splits)
  qed
  have j3: "(\<forall>c t. map_of fs (obtener_ruta_json g nombre) = Some (Archivo c t)
          \<and> destino_de_copia fs (obtener_ruta_json g nombre)
             (os_path_join (directorio_backups g) (nombre @ ''.json_'' @ strftime_marca ahora)) \<noteq> obtener_ruta_json g nombre
          \<and> se_puede_escribir fs
               (destino_de_copia fs (obtener_ruta_json g nombre)
             (os_path_join (directorio_backups g) (nombre @ ''.json_'' @ strftime_marca ahora)))
        \<longrightarrow> map_of (snd (PersistenciaJSON_guardar_datos g ahora fs nombre datos True))
              (destino_de_copia fs (obtener_ruta_json g nombre)
             (os_path_join (directorio_backups g) (nombre @ ''.json_'' @ strftime_marca ahora)))
            = Some (Archivo c t))"
  proof (intro allI impI)
    fix c t
    assume "map_of fs (obtener_ruta_json g nombre) = Some (Archivo c t)
          \<and> destino_de_copia fs (obtener_ruta_json g nombre)
             (os_path_join (directorio_backups g) (nombre @ ''.json_'' @ strftime_marca ahora)) \<noteq> obtener_ruta_json g nombre
          \<and> se_puede_escribir fs
               (destino_de_copia fs (obtener_ruta_json g nombre)
             (os_path_join (directorio_backups g) (nombre @ ''.json_'' @ strftime_marca ahora)))"
    then show "map_of (snd (PersistenciaJSON_guardar_datos g ahora fs nombre datos True))
              (destino_de_copia fs (obtener_ruta_json g nombre)
             (os_path_join (directorio_backups g) (nombre @ ''.json_'' @ strftime_marca ahora)))
            = Some (Archivo c t)"
      using guardar_json_con_backup [of "destino_de_copia fs (obtener_ruta_json g nombre)
             (os_path_join (directorio_backups g) (nombre @ ''.json_'' @ strftime_marca ahora))" g nombre ahora fs datos]
      by simp
  qed
  have j4: "(destino_de_copia fs (obtener_ruta_json g nombre)
             (os_path_join (directorio_backups g) (nombre @ ''.json_'' @ strftime_marca ahora)) \<noteq> obtener_ruta_json g nombre
        \<and> \<not> (\<exists>c t. map_of fs (obtener_ruta_json g nombre) = Some (Archivo c t)
                \<and> se_puede_escribir fs
                     (destino_de_copia fs (obtener_ruta_json g nombre)
             (os_path_join (directorio_backups g) (nombre @ ''.json_'' @ strftime_marca ahora))))
        \<longrightarrow> map_of (snd (PersistenciaJSON_guardar_datos g ahora fs nombre datos True))
              (destino_de_copia fs (obtener_ruta_json g nombre)
             (os_path_join (directorio_backups g) (nombre @ ''.json_'' @ strftime_marca ahora)))
            = map_of fs
              (destino_de_copia fs (obtener_ruta_json g nombre)
             (os_path_join (directorio_backups g) (nombre @ ''.json_'' @ strftime_marca ahora))))"
  proof (intro impI)
    assume "destino_de_copia fs (obtener_ruta_json g nombre)
             (os_path_join (directorio_backups g) (nombre @ ''.json_'' @ strftime_marca ahora)) \<noteq> obtener_ruta_json g nombre
        \<and> \<not> (\<exists>c t. map_of fs (obtener_ruta_json g nombre) = Some (Archivo c t)
                \<and> se_puede_escribir fs
                     (destino_de_copia fs (obtener_ruta_json g nombre)
             (os_path_join (directorio_backups g) (nombre @ ''.json_'' @ strftime_marca ahora))))"
    then show "map_of (snd (PersistenciaJSON_guardar_datos g ahora fs nombre datos True))
              (destino_de_copia fs (obtener_ruta_json g nombre)
             (os_path_join (directorio_backups g) (nombre @ ''.json_'' @ strftime_marca ahora)))
            = map_of fs
              (destino_de_copia fs (obtener_ruta_json g nombre)
             (os_path_join (directorio_backups g) (nombre @ ''.json_'' @ strftime_marca ahora)))"
      using guardar_json_con_backup [of "destino_de_copia fs (obtener_ruta_json g nombre)
             (os_path_join (directorio_backups g) (nombre @ ''.json_'' @ strftime_marca ahora))" g nombre ahora fs datos]
      by (auto split: option.splits nodo.splits)
  qed
  have b1: "destino_de_copia fs (obtener_ruta_binario g nombre)
             (os_path_join (directorio_backups g) (nombre @ ''.pkl_'' @ strftime_marca ahora))
      = (if \<exists>t. map_of fs (os_path_join (directorio_backups g) (nombre @ ''.pkl_'' @ strftime_marca ahora)) = Some (Directorio t)
         then os_path_join (os_path_join (directorio_backups g) (nombre @ ''.pkl_'' @ strftime_marca ahora))
                (os_path_basename (obtener_ruta_binario g nombre))
         else os_path_join (directorio_backups g) (nombre @ ''.pkl_'' @ strftime_marca ahora))"
    by (auto simp: destino_de_copia_def split: option.splits nodo.splits)
  have b2: "(\<forall>q. q \<noteq> obtener_ruta_binario g nombre
          \<and> q \<noteq> destino_de_copia fs (obtener_ruta_binario g nombre)
             (os_path_join (directorio_backups g) (nombre @ ''.pkl_'' @ strftime_marca ahora))
        \<longrightarrow> map_of (snd (PersistenciaBinaria_guardar_datos g ahora fs nombre datos True)) q = map_of fs q)"
  proof (intro allI impI)
    fix q
    assume "q \<noteq> obtener_ruta_binario g nombre
          \<and> q \<noteq> destino_de_copia fs (obtener_ruta_binario g nombre)
             (os_path_join (directorio_backups g) (nombre @ ''.pkl_'' @ strftime_marca ahora))"
    then show "map_of (snd (PersistenciaBinaria_guardar_datos g ahora fs nombre datos True)) q = map_of fs q"
      using guardar_binario_con_backup [of q g nombre ahora fs datos]
      by (auto split: option.splits nodo.splits)
  qed
  have b3: "(\<forall>c t. map_of fs (obtener_ruta_binario g nombre) = Some (Archivo c t)
          \<and> destino_de_copia fs (obtener_ruta_binario g nombre)
             (os_path_join (directorio_backups g) (nombre @ ''.pkl_'' @ strftime_marca ahora)) \<noteq> obtener_ruta_binario g nombre
          \<and> se_puede_escribir fs
               (destino_de_copia fs (obtener_ruta_binario g nombre)
             (os_path_join (directorio_backups g) (nombre @ ''.pkl_'' @ strftime_marca ahora)))
        \<longrightarrow> map_of (snd (PersistenciaBinaria_guardar_datos g ahora fs nombre datos True))
              (destino_de_copia fs (obtener_ruta_binario g nombre)
             (os_path_join (directorio_backups g) (nombre @ ''.pkl_'' @ strftime_marca ahora)))
            = Some (Archivo c t))"
  proof (intro allI impI)
    fix c t
    assume "map_of fs (obtener_ruta_binario g nombre) = Some (Archivo c t)
          \<and> destino_de_copia fs (obtener_ruta_binario g nombre)
             (os_path_join (directorio_backups g) (nombre @ ''.pkl_'' @ strftime_marca ahora)) \<noteq> obtener_ruta_binario g nombre
          \<and> se_puede_escribir fs
               (destino_de_copia fs (obtener_ruta_binario g nombre)
             (os_path_join (directorio_backups g) (nombre @ ''.pkl_'' @ strftime_marca ahora)))"
    then show "map_of (snd (PersistenciaBinaria_guardar_datos g ahora fs nombre datos True))
              (destino_de_copia fs (obtener_ruta_binario g nombre)
             (os_path_join (directorio_backups g) (nombre @ ''.pkl_'' @ strftime_marca ahora)))
            = Some (Archivo c t)"
      using guardar_binario_con_backup [of "destino_de_copia fs (obtener_ruta_binario g nombre)
             (os_path_join (directorio_backups g) (nombre @ ''.pkl_'' @ strftime_marca ahora))" g nombre ahora fs datos]
      by simp
  qed
  have b4: "(destino_de_copia fs (obtener_ruta_binario g nombre)
             (os_path_join (directorio_backups g) (nombre @ ''.pkl_'' @ strftime_marca ahora)) \<noteq> obtener_ruta_binario g nombre
        \<and> \<not> (\<exists>c t. map_of fs (obtener_ruta_binario g nombre) = Some (Archivo c t)
                \<and> se_puede_escribir fs
                     (destino_de_copia fs (obtener_ruta_binario g nombre)
             (os_path_join (directorio_backups g) (nombre @ ''.pkl_'' @ strftime_marca ahora))))
        \<longrightarrow> map_of (snd (PersistenciaBinaria_guardar_datos g ahora fs nombre datos True))
              (destino_de_copia fs (obtener_ruta_binario g nombre)
             (os_path_join (directorio_backups g) (nombre @ ''.pkl_'' @ strftime_marca ahora)))
            = map_of fs
              (destino_de_copia fs (obtener_ruta_binario g nombre)
             (os_path_join (directorio_backups g) (nombre @ ''.pkl_'' @ strftime_marca ahora))))"
  proof (intro impI)
    assume "destino_de_copia fs (obtener_ruta_binario g nombre)
             (os_path_join (directorio_backups g) (nombre @ ''.pkl_'' @ strftime_marca ahora)) \<noteq> obtener_ruta_binario g nombre
        \<and> \<not> (\<exists>c t. map_of fs (obtener_ruta_binario g nombre) = Some (Archivo c t)
                \<and> se_puede_escribir fs
                     (destino_de_copia fs (obtener_ruta_binario g nombre)
             (os_path_join (directorio_backups g) (nombre @ ''.pkl_'' @ strftime_marca ahora))))"
    then show "map_of (snd (PersistenciaBinaria_guardar_datos g ahora fs nombre datos True))
              (destino_de_copia fs (obtener_ruta_binario g nombre)
             (os_path_join (directorio_backups g) (nombre @ ''.pkl_'' @ strftime_marca ahora)))
            = map_of fs
              (destino_de_copia fs (obtener_ruta_binario g nombre)
             (os_path_join (directorio_backups g) (nombre @ ''.pkl_'' @ strftime_marca ahora)))"
      using guardar_binario_con_backup [of "destino_de_copia fs (obtener_ruta_binario g nombre)
             (os_path_join (directorio_backups g) (nombre @ ''.pkl_'' @ strftime_marca ahora))" g nombre ahora fs datos]
      by (auto split: option.splits nodo.splits)
  qed
  have l: "(directorio_backups g \<noteq> [] \<and> \<not> suffix ''/'' (directorio_backups g)
        \<and> CHR ''/'' \<notin> set nombre
        \<longrightarrow> nombre_en (directorio_backups g)
              (os_path_join (directorio_backups g) (nombre @ ''.json_'' @ strftime_marca ahora))
            = Some (nombre @ ''.json_'' @ strftime_marca ahora)
          \<and> nombre_en (directorio_backups g)
              (os_path_join (directorio_backups g) (nombre @ ''.pkl_'' @ strftime_marca ahora))
            = Some (nombre @ ''.pkl_'' @ strftime_marca ahora))"
  proof (intro impI)
    assume h: "directorio_backups g \<noteq> [] \<and> \<not> suffix ''/'' (directorio_backups g)
        \<and> CHR ''/'' \<notin> set nombre"
    then have "CHR ''/'' \<notin> set (nombre @ ''.json_'' @ strftime_marca ahora)"
      and "CHR ''/'' \<notin> set (nombre @ ''.pkl_'' @ strftime_marca ahora)"
      using strftime_marca_sin_barra [of ahora] by simp_all
    with h show "nombre_en (directorio_backups g)
              (os_path_join (directorio_backups g) (nombre @ ''.json_'' @ strftime_marca ahora))
            = Some (nombre @ ''.json_'' @ strftime_marca ahora)
          \<and> nombre_en (directorio_backups g)
              (os_path_join (directorio_backups g) (nombre @ ''.pkl_'' @ strftime_marca ahora))
            = Some (nombre @ ''.pkl_'' @ strftime_marca ahora)"
      by (simp add: nombre_en_de_join)
  qed
  have m: "(datetime_valido ahora
        \<longrightarrow> (\<exists>md tiempo. strftime_marca ahora = str_nat (anio ahora) @ md @ ''_'' @ tiempo
              \<and> length md = 4 \<and> length tiempo = 6
              \<and> list_all es_digito (str_nat (anio ahora))
              \<and> list_all es_digito md \<and> list_all es_digito tiempo))"
    using strftime_marca_general [of ahora] by blast
  have y: "(datetime_valido ahora \<and> 1000 \<le> anio ahora
        \<longrightarrow> (\<exists>fecha tiempo. strftime_marca ahora = fecha @ ''_'' @ tiempo
              \<and> length fecha = 8 \<and> length tiempo = 6
              \<and> list_all es_digito fecha \<and> list_all es_digito tiempo))"
    using strftime_marca_forma [of ahora] by blast
  from j1 j2 j3 j4 b1 b2 b3 b4 l m y show ?thesis by (intro conjI)
qed


theorem nombre_de_backup_automatico_witness:
  "map_of [(''data/backups'', Directorio 0),
        (''data/json/tareas.json'', Archivo (Documento (VList [VInt 1])) 7),
        (''data/backups/tareas.json_20240102_030405'', Archivo Vacio 3)] (obtener_ruta_json (GestorArchivos_init ''data'') ''tareas'') = Some (Archivo (Documento (VList [VInt 1])) 7)
   \<and> se_puede_escribir [(''data/backups'', Directorio 0),
        (''data/json/tareas.json'', Archivo (Documento (VList [VInt 1])) 7),
        (''data/backups/tareas.json_20240102_030405'', Archivo Vacio 3)] ''data/backups/tareas.json_20240102_030405''
   \<and> map_of [(''data/backups'', Directorio 0),
        (''data/json/tareas.json'', Archivo (Documento (VList [VInt 1])) 7),
        (''data/backups/tareas.json_20240102_030405'', Archivo Vacio 3)] ''data/backups/tareas.json_20240102_030405'' = Some (Archivo Vacio 3)
   \<and> map_of (snd (PersistenciaJSON_guardar_datos (GestorArchivos_init ''data'') \<lparr>anio = 2024, mes = 1, dia = 2, hora = 3, minuto = 4, segundo = 5, microsegundo = 0\<rparr>
        [(''data/backups'', Directorio 0),
        (''data/json/tareas.json'', Archivo (Documento (VList [VInt 1])) 7),
        (''data/backups/tareas.json_20240102_030405'', Archivo Vacio 3)] ''tareas'' (VList [VInt 2]) True))
      ''data/backups/tareas.json_20240102_030405''
     = Some (Archivo (Documento (VList [VInt 1])) 7)
   \<and> map_of (snd (PersistenciaJSON_guardar_datos (GestorArchivos_init ''data'') \<lparr>anio = 2024, mes = 1, dia = 2, hora = 3, minuto = 4, segundo = 5, microsegundo = 0\<rparr>
        [(''data/backups'', Directorio 0),
        (''data/json/tareas.json'', Archivo (Documento (VList [VInt 1])) 7),
        (''data/backups/tareas.json_20240102_030405'', Archivo Vacio 3)] ''tareas'' (VList [VInt 2]) True))
      ''data/backups''
     = map_of [(''data/backups'', Directorio 0),
        (''data/json/tareas.json'', Archivo (Documento (VList [VInt 1])) 7),
        (''data/backups/tareas.json_20240102_030405'', Archivo Vacio 3)] ''data/backups''
   \<and> map_of [(''data/backups'', Directorio 0),
        (''data/binarios/tareas.pkl'', Archivo (Documento (VInt 1)) 7),
        (''data/backups/tareas.pkl_20240102_030405'', Directorio 3)] (obtener_ruta_binario (GestorArchivos_init ''data'') ''tareas'') = Some (Archivo (Documento (VInt 1)) 7)
   \<and> map_of [(''data/backups'', Directorio 0),
        (''data/binarios/tareas.pkl'', Archivo (Documento (VInt 1)) 7),
        (''data/backups/tareas.pkl_20240102_030405'', Directorio 3)] ''data/backups/tareas.pkl_20240102_030405'' = Some (Directorio 3)
   \<and> map_of (snd (PersistenciaBinaria_guardar_datos (GestorArchivos_init ''data'') \<lparr>anio = 2024, mes = 1, dia = 2, hora = 3, minuto = 4, segundo = 5, microsegundo = 0\<rparr>
        [(''data/backups'', Directorio 0),
        (''data/binarios/tareas.pkl'', Archivo (Documento (VInt 1)) 7),
        (''data/backups/tareas.pkl_20240102_030405'', Directorio 3)] ''tareas'' (VInt 2) True))
      ''data/backups/tareas.pkl_20240102_030405/tareas.pkl''
     = Some (Archivo (Documento (VInt 1)) 7)
   \<and> map_of [(''data/backups'', Directorio 0), (''data/json'', Directorio 0)] (obtener_ruta_json (GestorArchivos_init ''data'') ''tareas'') = None
   \<and> map_of (snd (PersistenciaJSON_guardar_datos (GestorArchivos_init ''data'') \<lparr>anio = 2024, mes = 1, dia = 2, hora = 3, minuto = 4, segundo = 5, microsegundo = 0\<rparr>
        [(''data/backups'', Directorio 0), (''data/json'', Directorio 0)] ''tareas'' (VList [VInt 2]) True))
      ''data/backups/tareas.json_20240102_030405''
     = map_of [(''data/backups'', Directorio 0), (''data/json'', Directorio 0)] ''data/backups/tareas.json_20240102_030405''
   \<and> nombre_en (directorio_backups (GestorArchivos_init ''data''))
      (os_path_join (directorio_backups (GestorArchivos_init ''data'')) (''tareas'' @ ''.json_'' @ strftime_marca \<lparr>anio = 2024, mes = 1, dia = 2, hora = 3, minuto = 4, segundo = 5, microsegundo = 0\<rparr>))
     = Some (''tareas'' @ ''.json_'' @ strftime_marca \<lparr>anio = 2024, mes = 1, dia = 2, hora = 3, minuto = 4, segundo = 5, microsegundo = 0\<rparr>)
   \<and> nombre_en ''data/backups'' ''data/backups/tareas.pkl_20240102_030405''
     = Some ''tareas.pkl_20240102_030405''
   \<and> datetime_valido \<lparr>anio = 2024, mes = 1, dia = 2, hora = 3, minuto = 4, segundo = 5, microsegundo = 0\<rparr>
   \<and> 1000 \<le> anio \<lparr>anio = 2024, mes = 1, dia = 2, hora = 3, minuto = 4, segundo = 5, microsegundo = 0\<rparr>
   \<and> (\<exists>fecha tiempo. strftime_marca \<lparr>anio = 2024, mes = 1, dia = 2, hora = 3, minuto = 4, segundo = 5, microsegundo = 0\<rparr> = fecha @ ''_'' @ tiempo
        \<and> length fecha = 8 \<and> length tiempo = 6
        \<and> list_all es_digito fecha \<and> list_all es_digito tiempo)
   \<and> strftime_marca \<lparr>anio = 2024, mes = 1, dia = 2, hora = 3, minuto = 4, segundo = 5, microsegundo = 0\<rparr> = ''20240102_030405''"
proof -
  let ?ah = "\<lparr>anio = 2024, mes = 1, dia = 2, hora = 3, minuto = 4, segundo = 5, microsegundo = 0\<rparr>"
  let ?g = "GestorArchivos_init ''data''"
  let ?fs1 = "[(''data/backups'', Directorio 0),
        (''data/json/tareas.json'', Archivo (Documento (VList [VInt 1])) 7),
        (''data/backups/tareas.json_20240102_030405'', Archivo Vacio 3)]"
  let ?fs2 = "[(''data/backups'', Directorio 0),
        (''data/binarios/tareas.pkl'', Archivo (Documento (VInt 1)) 7),
        (''data/backups/tareas.pkl_20240102_030405'', Directorio 3)]"
  let ?fs3 = "[(''data/backups'', Directorio 0), (''data/json'', Directorio 0)]"
  note T1 = nombre_de_backup_automatico [where g = ?g and ahora = ?ah and fs = ?fs1
      and nombre = "''tareas''" and datos = "VList [VInt 2]"]
  note T2 = nombre_de_backup_automatico [where g = ?g and ahora = ?ah and fs = ?fs2
      and nombre = "''tareas''" and datos = "VInt 2"]
  note T3 = nombre_de_backup_automatico [where g = ?g and ahora = ?ah and fs = ?fs3
      and nombre = "''tareas''" and datos = "VList [VInt 2]"]
  have d1: "destino_de_copia ?fs1 (obtener_ruta_json ?g ''tareas'')
        (os_path_join (directorio_backups ?g) (''tareas'' @ ''.json_'' @ strftime_marca ?ah)) = ''data/backups/tareas.json_20240102_030405''"
    by code_simp
  have d2: "destino_de_copia ?fs2 (obtener_ruta_binario ?g ''tareas'')
        (os_path_join (directorio_backups ?g) (''tareas'' @ ''.pkl_'' @ strftime_marca ?ah)) = ''data/backups/tareas.pkl_20240102_030405/tareas.pkl''"
    by code_simp
  have d3: "destino_de_copia ?fs3 (obtener_ruta_json ?g ''tareas'')
        (os_path_join (directorio_backups ?g) (''tareas'' @ ''.json_'' @ strftime_marca ?ah)) = ''data/backups/tareas.json_20240102_030405''"
    by code_simp
  have a1: "map_of ?fs1 (obtener_ruta_json ?g ''tareas'')
              = Some (Archivo (Documento (VList [VInt 1])) 7)"
    by code_simp
  have a2: "''data/backups/tareas.json_20240102_030405'' \<noteq> obtener_ruta_json ?g ''tareas''"
    by code_simp
  have a3: "se_puede_escribir ?fs1 ''data/backups/tareas.json_20240102_030405''"
    by code_simp
  have a4: "map_of ?fs1 ''data/backups/tareas.json_20240102_030405'' = Some (Archivo Vacio 3)"
    by code_simp
  note J3 = T1 [THEN conjunct2, THEN conjunct2, THEN conjunct1, unfolded d1,
      THEN spec, THEN spec, THEN mp, OF conjI [OF a1 conjI [OF a2 a3]]]
  have a5: "''data/backups'' \<noteq> obtener_ruta_json ?g ''tareas''
      \<and> ''data/backups'' \<noteq> ''data/backups/tareas.json_20240102_030405''"
    by code_simp
  note J2 = T1 [THEN conjunct2, THEN conjunct1, unfolded d1, THEN spec, THEN mp, OF a5]
  have b1: "map_of ?fs2 (obtener_ruta_binario ?g ''tareas'')
              = Some (Archivo (Documento (VInt 1)) 7)"
    by code_simp
  have b2: "''data/backups/tareas.pkl_20240102_030405/tareas.pkl''
              \<noteq> obtener_ruta_binario ?g ''tareas''"
    by code_simp
  have b3: "se_puede_escribir ?fs2 ''data/backups/tareas.pkl_20240102_030405/tareas.pkl''"
    by code_simp
  have b4: "map_of ?fs2 ''data/backups/tareas.pkl_20240102_030405'' = Some (Directorio 3)"
    by code_simp
  note B3 = T2 [THEN conjunct2, THEN conjunct2, THEN conjunct2, THEN conjunct2,
      THEN conjunct2, THEN conjunct2, THEN conjunct1, unfolded d2,
      THEN spec, THEN spec, THEN mp, OF conjI [OF b1 conjI [OF b2 b3]]]
  have c1: "map_of ?fs3 (obtener_ruta_json ?g ''tareas'') = None"
    by code_simp
  have c2: "''data/backups/tareas.json_20240102_030405'' \<noteq> obtener_ruta_json ?g ''tareas''
      \<and> \<not> (\<exists>c t. map_of ?fs3 (obtener_ruta_json ?g ''tareas'') = Some (Archivo c t)
              \<and> se_puede_escribir ?fs3 ''data/backups/tareas.json_20240102_030405'')"
    unfolding c1 using a2 by simp
  note J4 = T3 [THEN conjunct2, THEN conjunct2, THEN conjunct2, THEN conjunct1, unfolded d3,
      THEN mp, OF c2]
  have l1: "directorio_backups ?g \<noteq> [] \<and> \<not> suffix ''/'' (directorio_backups ?g)
      \<and> CHR ''/'' \<notin> set ''tareas''"
    using directorio_backups_forma [of "''data''"] by simp
  note L = T1 [THEN conjunct2, THEN conjunct2, THEN conjunct2, THEN conjunct2,
      THEN conjunct2, THEN conjunct2, THEN conjunct2, THEN conjunct2, THEN conjunct1,
      THEN mp, OF l1]
  have l2: "nombre_en ''data/backups'' ''data/backups/tareas.pkl_20240102_030405''
     = Some ''tareas.pkl_20240102_030405''"
  proof -
    have "directorio_backups ?g = ''data/backups''" by code_simp
    moreover have "os_path_join (directorio_backups ?g)
        (''tareas'' @ ''.pkl_'' @ strftime_marca ?ah) = ''data/backups/tareas.pkl_20240102_030405''"
      by code_simp
    moreover have "''tareas'' @ ''.pkl_'' @ strftime_marca ?ah = ''tareas.pkl_20240102_030405''"
      by code_simp
    ultimately show ?thesis using L [THEN conjunct2] by simp
  qed
  have h1: "datetime_valido ?ah"
    by (simp add: datetime_valido_def dias_del_mes_def es_bisiesto_def)
  have h2: "1000 \<le> anio ?ah" by simp
  note Y = T1 [THEN conjunct2, THEN conjunct2, THEN conjunct2, THEN conjunct2,
      THEN conjunct2, THEN conjunct2, THEN conjunct2, THEN conjunct2, THEN conjunct2,
      THEN conjunct2, THEN mp, OF conjI [OF h1 h2]]
  have m: "strftime_marca ?ah = ''20240102_030405''"
    by code_simp
  from a1 a3 a4 J3 J2 b1 b4 B3 c1 J4 L [THEN conjunct1] l2 h1 h2 Y m
  show ?thesis by (intro conjI)
qed

subsection \<open>The full backup\<close>

lemma abrir_escritura_forma:
  "abrir_escritura fs t p = Inr fs' \<Longrightarrow> fs' = AList.update p (Archivo Vacio t) fs"
  by (auto simp: abrir_escritura_def split: option.splits nodo.splits if_splits)

lemma guardar_json_sin_backup_forma:
  assumes "PersistenciaJSON_guardar_datos g ahora fs n datos False = (r, fs')"
  shows "fs' = fs
     \<or> (\<exists>c. fs' = AList.update (obtener_ruta_json g n) (Archivo c (instante ahora)) fs)"
proof (cases "abrir_escritura fs (instante ahora) (obtener_ruta_json g n)")
  case (Inl e)
  with assms show ?thesis
    by (simp add: PersistenciaJSON_guardar_datos_def Let_def)
next
  case (Inr fs2)
  from abrir_escritura_forma [OF Inr] Inr assms show ?thesis
    by (auto simp: PersistenciaJSON_guardar_datos_def Let_def escribir_def split: option.splits)
qed

lemma guardar_json_sin_backup_exito:
  assumes "PersistenciaJSON_guardar_datos g ahora fs n datos False = (Inr b, fs')"
  shows "\<exists>doc. json_forma (preparar_datos_para_json datos) = Some doc
     \<and> fs' = AList.update (obtener_ruta_json g n) (Archivo (Documento doc) (instante ahora)) fs"
proof (cases "abrir_escritura fs (instante ahora) (obtener_ruta_json g n)")
  case (Inl e)
  with assms show ?thesis
    by (simp add: PersistenciaJSON_guardar_datos_def Let_def)
next
  case (Inr fs2)
  from abrir_escritura_forma [OF Inr] Inr assms show ?thesis
    by (auto simp: PersistenciaJSON_guardar_datos_def Let_def escribir_def split: option.splits)
qed

lemma cargar_json_siempre_devuelve:
  "\<exists>v. PersistenciaJSON_cargar_datos g fs n = Inr v"
proof (cases "abrir_lectura fs (obtener_ruta_json g n)")
  case (Inl e)
  then have "e = FileNotFoundError \<or> e = IOError"
    by (auto simp: abrir_lectura_def split: option.splits nodo.splits)
  with Inl show ?thesis
    by (auto simp: PersistenciaJSON_cargar_datos_def)
next
  case (Inr c)
  then show ?thesis
    by (cases c) (auto simp: PersistenciaJSON_cargar_datos_def)
qed

lemma cargar_json_depende_de_ruta:
  "map_of fs' (obtener_ruta_json g n) = map_of fs (obtener_ruta_json g n) \<Longrightarrow>
     PersistenciaJSON_cargar_datos g fs' n = PersistenciaJSON_cargar_datos g fs n"
  by (simp add: PersistenciaJSON_cargar_datos_def abrir_lectura_def)


lemma relativo_con_extension: "\<not> prefix ''/'' n \<Longrightarrow> \<not> prefix ''/'' (n @ ext) \<or> n = []"
  by (cases n) auto

lemma ruta_json_con_raiz:
  assumes "directorio_json g = B @ ''json''" "\<not> prefix ''/'' n"
  shows "obtener_ruta_json g n
           = B @ ''json/'' @ (if suffix ''.json'' n then n else n @ ''.json'')"
proof -
  have "\<not> prefix ''/'' (if suffix ''.json'' n then n else n @ ''.json'')"
    using assms(2) by (cases n) auto
  then show ?thesis
    using assms(1) by (simp add: obtener_ruta_json_def os_path_join_relativo)
qed

lemma fuera_de_backups:
  "nombre_en (B @ ''backups'') (B @ ''json/'' @ x) = None"
  "B @ ''json/'' @ x \<noteq> B @ ''backups''"
  by (simp_all add: nombre_en_def)

lemma escritura_en_json_no_toca_listado:
  "os_listdir (AList.update (B @ ''json/'' @ x) v fs) (B @ ''backups'') = os_listdir fs (B @ ''backups'')"
  by (rule os_listdir_update [OF fuera_de_backups])

lemma escritura_en_json_no_toca_backups:
  "os_path_exists (AList.update (B @ ''json/'' @ x) v fs) (B @ ''backups'')
     = os_path_exists fs (B @ ''backups'')"
  using fuera_de_backups(2) [of B x] by (simp add: os_path_exists_def update_conv')

lemma respaldar_coleccion_forma:
  assumes "respaldar_coleccion gp ahora fs nombre prefijo = (r, fs')"
  shows "fs' = fs
     \<or> (\<exists>c. fs' = AList.update
            (obtener_ruta_json (gestor_archivos gp) (prefijo @ strftime_marca ahora))
            (Archivo c (instante ahora)) fs)"
proof -
  obtain v where v: "PersistenciaJSON_cargar_datos (gestor_archivos gp) fs nombre = Inr v"
    using cargar_json_siempre_devuelve by blast
  show ?thesis
  proof (cases "verdadero v")
    case False
    with v assms show ?thesis by (simp add: respaldar_coleccion_def)
  next
    case True
    with v assms have "PersistenciaJSON_guardar_datos (gestor_archivos gp) ahora fs
        (prefijo @ strftime_marca ahora) v False = (r, fs')"
      by (simp add: respaldar_coleccion_def)
    from guardar_json_sin_backup_forma [OF this] show ?thesis .
  qed
qed

lemma respaldar_coleccion_exito:
  assumes "respaldar_coleccion gp ahora fs nombre prefijo = (Inr b, fs')"
    and "PersistenciaJSON_cargar_datos (gestor_archivos gp) fs nombre = Inr v"
    and "verdadero v"
  shows "\<exists>doc. json_forma (preparar_datos_para_json v) = Some doc
     \<and> fs' = AList.update
            (obtener_ruta_json (gestor_archivos gp) (prefijo @ strftime_marca ahora))
            (Archivo (Documento doc) (instante ahora)) fs"
proof -
  from assms have "PersistenciaJSON_guardar_datos (gestor_archivos gp) ahora fs
        (prefijo @ strftime_marca ahora) v False = (Inr b, fs')"
    by (simp add: respaldar_coleccion_def)
  from guardar_json_sin_backup_exito [OF this] show ?thesis .
qed

lemma backups_totales_de:
  assumes "obtener_estadisticas_almacenamiento gp fs = Inr e"
  shows "backups_totales e =
     (if os_path_exists fs (directorio_backups (gestor_archivos gp))
      then (case os_listdir fs (directorio_backups (gestor_archivos gp)) of
              Inl ex \<Rightarrow> 0
            | Inr backups \<Rightarrow> length backups)
      else 0)"
  using assms
  by (auto simp: obtener_estadisticas_almacenamiento_def Let_def split: sum.splits if_splits)


lemma respaldar_no_toca_backups:
  assumes "respaldar_coleccion (GestorPersistencia_init base) ahora fs nombre prefijo = (r, fs')"
    and "\<not> prefix ''/'' (prefijo @ strftime_marca ahora)"
  shows "os_listdir fs' (directorio_backups (GestorArchivos_init base))
           = os_listdir fs (directorio_backups (GestorArchivos_init base))
     \<and> os_path_exists fs' (directorio_backups (GestorArchivos_init base))
           = os_path_exists fs (directorio_backups (GestorArchivos_init base))"
proof -
  let ?g = "GestorArchivos_init base"
  obtain B where B: "directorio_json ?g = B @ ''json''" "directorio_backups ?g = B @ ''backups''"
    using directorios_de_init [of base] by blast
  have g: "gestor_archivos (GestorPersistencia_init base) = ?g"
    by (simp add: GestorPersistencia_init_def)
  from respaldar_coleccion_forma [OF assms(1)] g
  have "fs' = fs \<or> (\<exists>c. fs' = AList.update
            (obtener_ruta_json ?g (prefijo @ strftime_marca ahora))
            (Archivo c (instante ahora)) fs)"
    by simp
  then show ?thesis
  proof
    assume "fs' = fs"
    then show ?thesis by simp
  next
    assume "\<exists>c. fs' = AList.update
            (obtener_ruta_json ?g (prefijo @ strftime_marca ahora))
            (Archivo c (instante ahora)) fs"
    then obtain c where "fs' = AList.update
            (obtener_ruta_json ?g (prefijo @ strftime_marca ahora))
            (Archivo c (instante ahora)) fs" ..
    with ruta_json_con_raiz [OF B(1) assms(2)] obtain x where
      "fs' = AList.update (B @ ''json/'' @ x) (Archivo c (instante ahora)) fs"
      by simp
    with B(2) show ?thesis
      by (simp only: escritura_en_json_no_toca_listado escritura_en_json_no_toca_backups)
  qed
qed

lemma crear_backup_pasos:
  obtains r1 fs1 r2 fs2 where
    "respaldar_coleccion gp ahora fs (archivo_usuarios gp) ''usuarios_backup_'' = (r1, fs1)"
    "respaldar_coleccion gp ahora fs1 (archivo_tareas gp) ''tareas_backup_'' = (r2, fs2)"
    "GestorPersistencia_crear_backup gp ahora fs =
       (case r1 of
          Inl e \<Rightarrow> (False, fs1)
        | Inr b1 \<Rightarrow> (case r2 of Inl e \<Rightarrow> (False, fs2) | Inr b2 \<Rightarrow> (b1 \<and> b2, fs2)))"
proof -
  obtain r1 fs1 where 1:
    "respaldar_coleccion gp ahora fs (archivo_usuarios gp) ''usuarios_backup_'' = (r1, fs1)"
    by (cases "respaldar_coleccion gp ahora fs (archivo_usuarios gp) ''usuarios_backup_''")
  obtain r2 fs2 where 2:
    "respaldar_coleccion gp ahora fs1 (archivo_tareas gp) ''tareas_backup_'' = (r2, fs2)"
    by (cases "respaldar_coleccion gp ahora fs1 (archivo_tareas gp) ''tareas_backup_''")
  from 1 2 have "GestorPersistencia_crear_backup gp ahora fs =
       (case r1 of
          Inl e \<Rightarrow> (False, fs1)
        | Inr b1 \<Rightarrow> (case r2 of Inl e \<Rightarrow> (False, fs2) | Inr b2 \<Rightarrow> (b1 \<and> b2, fs2)))"
    by (simp add: GestorPersistencia_crear_backup_def split: sum.splits)
  with 1 2 show ?thesis by (rule that)
qed

lemma crear_backup_no_toca_backups:
  "os_listdir (snd (GestorPersistencia_crear_backup (GestorPersistencia_init base) ahora fs))
       (directorio_backups (GestorArchivos_init base))
     = os_listdir fs (directorio_backups (GestorArchivos_init base))
   \<and> os_path_exists (snd (GestorPersistencia_crear_backup (GestorPersistencia_init base) ahora fs))
       (directorio_backups (GestorArchivos_init base))
     = os_path_exists fs (directorio_backups (GestorArchivos_init base))"
proof -
  let ?gp = "GestorPersistencia_init base"
  obtain r1 fs1 r2 fs2 where p:
    "respaldar_coleccion ?gp ahora fs (archivo_usuarios ?gp) ''usuarios_backup_'' = (r1, fs1)"
    "respaldar_coleccion ?gp ahora fs1 (archivo_tareas ?gp) ''tareas_backup_'' = (r2, fs2)"
    "GestorPersistencia_crear_backup ?gp ahora fs =
       (case r1 of
          Inl e \<Rightarrow> (False, fs1)
        | Inr b1 \<Rightarrow> (case r2 of Inl e \<Rightarrow> (False, fs2) | Inr b2 \<Rightarrow> (b1 \<and> b2, fs2)))"
    by (rule crear_backup_pasos)
  have a: "\<not> prefix ''/'' (''usuarios_backup_'' @ strftime_marca ahora)"
    and b: "\<not> prefix ''/'' (''tareas_backup_'' @ strftime_marca ahora)"
    by simp_all
  note i1 = respaldar_no_toca_backups [OF p(1) a]
  note i2 = respaldar_no_toca_backups [OF p(2) b]
  have "snd (GestorPersistencia_crear_backup ?gp ahora fs) = fs1
      \<or> snd (GestorPersistencia_crear_backup ?gp ahora fs) = fs2"
    using p(3) by (auto split: sum.splits)
  with i1 i2 show ?thesis by auto
qed


lemma rutas_de_respaldo_distintas:
  assumes "directorio_json g = B @ ''json''"
  shows "obtener_ruta_json g (''tareas_backup_'' @ m) \<noteq> obtener_ruta_json g (''usuarios_backup_'' @ m)"
    and "obtener_ruta_json g ''tareas'' \<noteq> obtener_ruta_json g (''usuarios_backup_'' @ m)"
proof -
  have a: "\<not> prefix ''/'' (''tareas_backup_'' @ m)" "\<not> prefix ''/'' (''usuarios_backup_'' @ m)"
    "\<not> prefix ''/'' ''tareas''"
    by simp_all
  show "obtener_ruta_json g (''tareas_backup_'' @ m) \<noteq> obtener_ruta_json g (''usuarios_backup_'' @ m)"
    unfolding ruta_json_con_raiz [OF assms a(1)] ruta_json_con_raiz [OF assms a(2)]
    by simp
  show "obtener_ruta_json g ''tareas'' \<noteq> obtener_ruta_json g (''usuarios_backup_'' @ m)"
    unfolding ruta_json_con_raiz [OF assms a(3)] ruta_json_con_raiz [OF assms a(2)]
    by simp
qed

lemma crear_backup_deja_copias:
  assumes "fst (GestorPersistencia_crear_backup (GestorPersistencia_init base) ahora fs)"
  shows "(cargar_usuarios (GestorPersistencia_init base) fs ''json'' = Inr u \<and> verdadero u \<longrightarrow>
           (\<exists>doc. json_forma (preparar_datos_para_json u) = Some doc
              \<and> map_of (snd (GestorPersistencia_crear_backup (GestorPersistencia_init base) ahora fs))
                   (obtener_ruta_json (GestorArchivos_init base)
                      (''usuarios_backup_'' @ strftime_marca ahora))
                 = Some (Archivo (Documento doc) (instante ahora))))
     \<and> (cargar_tareas (GestorPersistencia_init base) fs ''json'' = Inr w \<and> verdadero w \<longrightarrow>
           (\<exists>doc. json_forma (preparar_datos_para_json w) = Some doc
              \<and> map_of (snd (GestorPersistencia_crear_backup (GestorPersistencia_init base) ahora fs))
                   (obtener_ruta_json (GestorArchivos_init base)
                      (''tareas_backup_'' @ strftime_marca ahora))
                 = Some (Archivo (Documento doc) (instante ahora))))"
proof -
  let ?gp = "GestorPersistencia_init base"
  let ?g = "GestorArchivos_init base"
  let ?ru = "obtener_ruta_json ?g (''usuarios_backup_'' @ strftime_marca ahora)"
  let ?rt = "obtener_ruta_json ?g (''tareas_backup_'' @ strftime_marca ahora)"
  have g: "gestor_archivos ?gp = ?g" "archivo_usuarios ?gp = ''usuarios''"
    "archivo_tareas ?gp = ''tareas''"
    by (simp_all add: GestorPersistencia_init_def)
  obtain B where B: "directorio_json ?g = B @ ''json''"
    using directorios_de_init [of base] by blast
  note dif = rutas_de_respaldo_distintas [OF B, of "strftime_marca ahora"]
  obtain r1 fs1 r2 fs2 where p:
    "respaldar_coleccion ?gp ahora fs (archivo_usuarios ?gp) ''usuarios_backup_'' = (r1, fs1)"
    "respaldar_coleccion ?gp ahora fs1 (archivo_tareas ?gp) ''tareas_backup_'' = (r2, fs2)"
    "GestorPersistencia_crear_backup ?gp ahora fs =
       (case r1 of
          Inl e \<Rightarrow> (False, fs1)
        | Inr b1 \<Rightarrow> (case r2 of Inl e \<Rightarrow> (False, fs2) | Inr b2 \<Rightarrow> (b1 \<and> b2, fs2)))"
    by (rule crear_backup_pasos)
  from assms p(3) obtain b1 b2 where r: "r1 = Inr b1" "r2 = Inr b2"
    and fin: "snd (GestorPersistencia_crear_backup ?gp ahora fs) = fs2"
    by (auto split: sum.splits)
  from respaldar_coleccion_forma [OF p(1)] g
  have f1: "fs1 = fs \<or> (\<exists>c. fs1 = AList.update ?ru (Archivo c (instante ahora)) fs)"
    by simp
  from respaldar_coleccion_forma [OF p(2)] g
  have f2: "fs2 = fs1 \<or> (\<exists>c. fs2 = AList.update ?rt (Archivo c (instante ahora)) fs1)"
    by simp
  have usuarios: "\<exists>doc. json_forma (preparar_datos_para_json u) = Some doc
              \<and> map_of fs2 ?ru = Some (Archivo (Documento doc) (instante ahora))"
    if "cargar_usuarios ?gp fs ''json'' = Inr u \<and> verdadero u"
  proof -
    from that g have c: "PersistenciaJSON_cargar_datos (gestor_archivos ?gp) fs (archivo_usuarios ?gp) = Inr u"
      and v: "verdadero u"
      by (simp_all add: cargar_usuarios_def)
    from respaldar_coleccion_exito [OF p(1) [unfolded r] c v] g obtain doc where
      doc: "json_forma (preparar_datos_para_json u) = Some doc"
        "fs1 = AList.update ?ru (Archivo (Documento doc) (instante ahora)) fs"
      by auto
    from doc(2) have "map_of fs1 ?ru = Some (Archivo (Documento doc) (instante ahora))"
      by (simp add: update_conv')
    with f2 dif(1) have "map_of fs2 ?ru = Some (Archivo (Documento doc) (instante ahora))"
      by (auto simp: update_conv')
    with doc(1) show ?thesis by blast
  qed
  have tareas: "\<exists>doc. json_forma (preparar_datos_para_json w) = Some doc
              \<and> map_of fs2 ?rt = Some (Archivo (Documento doc) (instante ahora))"
    if "cargar_tareas ?gp fs ''json'' = Inr w \<and> verdadero w"
  proof -
    from that g have c: "PersistenciaJSON_cargar_datos ?g fs ''tareas'' = Inr w"
      and v: "verdadero w"
      by (simp_all add: cargar_tareas_def)
    from f1 dif(2) have "map_of fs1 (obtener_ruta_json ?g ''tareas'')
        = map_of fs (obtener_ruta_json ?g ''tareas'')"
      by (auto simp: update_conv')
    from cargar_json_depende_de_ruta [OF this] c g
    have c1: "PersistenciaJSON_cargar_datos (gestor_archivos ?gp) fs1 (archivo_tareas ?gp) = Inr w"
      by simp
    from respaldar_coleccion_exito [OF p(2) [unfolded r] c1 v] g obtain doc where
      doc: "json_forma (preparar_datos_para_json w) = Some doc"
        "fs2 = AList.update ?rt (Archivo (Documento doc) (instante ahora)) fs1"
      by auto
    from doc(2) have "map_of fs2 ?rt = Some (Archivo (Documento doc) (instante ahora))"
      by (simp add: update_conv')
    with doc(1) show ?thesis by blast
  qed
  from usuarios tareas fin show ?thesis by simp
qed

lemma abrir_escritura_no_se_puede:
  "\<not> se_puede_escribir fs p \<Longrightarrow> \<exists>e. abrir_escritura fs t p = Inl e"
  by (auto simp: se_puede_escribir_def abrir_escritura_def split: option.splits nodo.splits)

lemma guardar_json_sin_backup_resultado:
  "PersistenciaJSON_guardar_datos g ahora fs n datos False =
     (if se_puede_escribir fs (obtener_ruta_json g n) then
        (case json_forma (preparar_datos_para_json datos) of
           None \<Rightarrow> (Inl ValueError,
                     AList.update (obtener_ruta_json g n) (Archivo Corrupto (instante ahora)) fs)
         | Some doc \<Rightarrow> (Inr True,
                     AList.update (obtener_ruta_json g n)
                       (Archivo (Documento doc) (instante ahora)) fs))
      else (Inl IOError, fs))"
proof (cases "se_puede_escribir fs (obtener_ruta_json g n)")
  case True
  from abrir_escritura_si_se_puede [OF True, of "instante ahora"] True show ?thesis
    by (simp add: PersistenciaJSON_guardar_datos_def Let_def escribir_def split: option.splits)
next
  case False
  from abrir_escritura_no_se_puede [OF False, of "instante ahora"] False show ?thesis
    by (auto simp: PersistenciaJSON_guardar_datos_def Let_def)
qed

lemma respaldar_coleccion_resultado:
  assumes "PersistenciaJSON_cargar_datos (gestor_archivos gp) fs nombre = Inr v"
  shows "respaldar_coleccion gp ahora fs nombre prefijo =
     (if verdadero v then
        (if se_puede_escribir fs
              (obtener_ruta_json (gestor_archivos gp) (prefijo @ strftime_marca ahora)) then
           (case json_forma (preparar_datos_para_json v) of
              None \<Rightarrow> (Inl ValueError,
                        AList.update
                          (obtener_ruta_json (gestor_archivos gp) (prefijo @ strftime_marca ahora))
                          (Archivo Corrupto (instante ahora)) fs)
            | Some doc \<Rightarrow> (Inr True,
                        AList.update
                          (obtener_ruta_json (gestor_archivos gp) (prefijo @ strftime_marca ahora))
                          (Archivo (Documento doc) (instante ahora)) fs))
         else (Inl IOError, fs))
      else (Inr True, fs))"
  using assms
  by (simp add: respaldar_coleccion_def guardar_json_sin_backup_resultado)

lemma respaldar_coleccion_solo_escribe:
  assumes "respaldar_coleccion gp ahora fs nombre prefijo = (r, fs')"
  shows "solo_escribe
     (\<lambda>q. q = obtener_ruta_json (gestor_archivos gp) (prefijo @ strftime_marca ahora)) fs fs'"
proof -
  let ?p = "obtener_ruta_json (gestor_archivos gp) (prefijo @ strftime_marca ahora)"
  obtain v where v: "PersistenciaJSON_cargar_datos (gestor_archivos gp) fs nombre = Inr v"
    using cargar_json_siempre_devuelve by blast
  show ?thesis
  proof (cases "verdadero v \<and> se_puede_escribir fs ?p")
    case False
    with assms have "fs' = fs"
      by (auto simp: respaldar_coleccion_resultado [OF v] split: if_splits)
    then show ?thesis by (simp add: solo_escribe_refl)
  next
    case True
    then have nd: "\<And>t'. map_of fs ?p \<noteq> Some (Directorio t')"
      by (auto simp: se_puede_escribir_def)
    from True assms obtain c where "fs' = AList.update ?p (Archivo c (instante ahora)) fs"
      by (auto simp: respaldar_coleccion_resultado [OF v] split: option.splits if_splits)
    with solo_escribe_update [OF nd, of c "instante ahora"] show ?thesis by simp
  qed
qed

lemma crear_backup_resultado:
  assumes u: "cargar_usuarios (GestorPersistencia_init base) fs ''json'' = Inr u"
    and w: "cargar_tareas (GestorPersistencia_init base) fs ''json'' = Inr w"
  shows "fst (GestorPersistencia_crear_backup (GestorPersistencia_init base) ahora fs)
       = ((verdadero u \<longrightarrow>
             json_forma (preparar_datos_para_json u) \<noteq> None
           \<and> se_puede_escribir fs
               (obtener_ruta_json (GestorArchivos_init base)
                  (''usuarios_backup_'' @ strftime_marca ahora)))
        \<and> (verdadero w \<longrightarrow>
             json_forma (preparar_datos_para_json w) \<noteq> None
           \<and> se_puede_escribir fs
               (obtener_ruta_json (GestorArchivos_init base)
                  (''tareas_backup_'' @ strftime_marca ahora))))"
    and "\<not> verdadero u \<Longrightarrow>
       map_of (snd (GestorPersistencia_crear_backup (GestorPersistencia_init base) ahora fs))
          (obtener_ruta_json (GestorArchivos_init base)
             (''usuarios_backup_'' @ strftime_marca ahora))
        = map_of fs (obtener_ruta_json (GestorArchivos_init base)
             (''usuarios_backup_'' @ strftime_marca ahora))"
    and "\<not> verdadero w \<Longrightarrow>
       map_of (snd (GestorPersistencia_crear_backup (GestorPersistencia_init base) ahora fs))
          (obtener_ruta_json (GestorArchivos_init base)
             (''tareas_backup_'' @ strftime_marca ahora))
        = map_of fs (obtener_ruta_json (GestorArchivos_init base)
             (''tareas_backup_'' @ strftime_marca ahora))"
    and "q \<noteq> obtener_ruta_json (GestorArchivos_init base)
                (''usuarios_backup_'' @ strftime_marca ahora) \<Longrightarrow>
         q \<noteq> obtener_ruta_json (GestorArchivos_init base)
                (''tareas_backup_'' @ strftime_marca ahora) \<Longrightarrow>
       map_of (snd (GestorPersistencia_crear_backup (GestorPersistencia_init base) ahora fs)) q
         = map_of fs q"
proof -
  let ?gp = "GestorPersistencia_init base"
  let ?g = "GestorArchivos_init base"
  let ?ru = "obtener_ruta_json ?g (''usuarios_backup_'' @ strftime_marca ahora)"
  let ?rt = "obtener_ruta_json ?g (''tareas_backup_'' @ strftime_marca ahora)"
  let ?R = "GestorPersistencia_crear_backup ?gp ahora fs"
  have g: "gestor_archivos ?gp = ?g" "archivo_usuarios ?gp = ''usuarios''"
    "archivo_tareas ?gp = ''tareas''"
    by (simp_all add: GestorPersistencia_init_def)
  obtain B where B: "directorio_json ?g = B @ ''json''"
    using directorios_de_init [of base] by blast
  note dif = rutas_de_respaldo_distintas [OF B, of "strftime_marca ahora"]
  obtain r1 fs1 r2 fs2 where p:
    "respaldar_coleccion ?gp ahora fs (archivo_usuarios ?gp) ''usuarios_backup_'' = (r1, fs1)"
    "respaldar_coleccion ?gp ahora fs1 (archivo_tareas ?gp) ''tareas_backup_'' = (r2, fs2)"
    "?R = (case r1 of
          Inl e \<Rightarrow> (False, fs1)
        | Inr b1 \<Rightarrow> (case r2 of Inl e \<Rightarrow> (False, fs2) | Inr b2 \<Rightarrow> (b1 \<and> b2, fs2)))"
    by (rule crear_backup_pasos)
  from u g have cu: "PersistenciaJSON_cargar_datos (gestor_archivos ?gp) fs (archivo_usuarios ?gp) = Inr u"
    by (simp add: cargar_usuarios_def)
  from w g have cw: "PersistenciaJSON_cargar_datos ?g fs ''tareas'' = Inr w"
    by (simp add: cargar_tareas_def)
  note s1 = respaldar_coleccion_solo_escribe [OF p(1), unfolded g]
  note s2 = respaldar_coleccion_solo_escribe [OF p(2), unfolded g]
  from solo_escribe_fuera [OF s1, of "obtener_ruta_json ?g ''tareas''"] dif(2)
  have "map_of fs1 (obtener_ruta_json ?g ''tareas'') = map_of fs (obtener_ruta_json ?g ''tareas'')"
    by simp
  from cargar_json_depende_de_ruta [OF this] cw g
  have cw1: "PersistenciaJSON_cargar_datos (gestor_archivos ?gp) fs1 (archivo_tareas ?gp) = Inr w"
    by simp
  from se_puede_escribir_fuera [OF s1, of ?rt] dif(1)
  have sp: "se_puede_escribir fs1 ?rt = se_puede_escribir fs ?rt" by simp
  from p(1) respaldar_coleccion_resultado [OF cu, of ahora "''usuarios_backup_''"]
  have e1: "(r1, fs1) =
     (if verdadero u then
        (if se_puede_escribir fs ?ru then
           (case json_forma (preparar_datos_para_json u) of
              None \<Rightarrow> (Inl ValueError, AList.update ?ru (Archivo Corrupto (instante ahora)) fs)
            | Some doc \<Rightarrow> (Inr True,
                 AList.update ?ru (Archivo (Documento doc) (instante ahora)) fs))
         else (Inl IOError, fs))
      else (Inr True, fs))"
    by (simp only: g)
  from p(2) respaldar_coleccion_resultado [OF cw1, of ahora "''tareas_backup_''"] sp
  have e2: "(r2, fs2) =
     (if verdadero w then
        (if se_puede_escribir fs ?rt then
           (case json_forma (preparar_datos_para_json w) of
              None \<Rightarrow> (Inl ValueError, AList.update ?rt (Archivo Corrupto (instante ahora)) fs1)
            | Some doc \<Rightarrow> (Inr True,
                 AList.update ?rt (Archivo (Documento doc) (instante ahora)) fs1))
         else (Inl IOError, fs1))
      else (Inr True, fs1))"
    by (simp only: g)
  have fin: "snd ?R = (if \<exists>e. r1 = Inl e then fs1 else fs2)"
    using p(3) by (auto split: sum.splits)
  show "fst ?R
       = ((verdadero u \<longrightarrow>
             json_forma (preparar_datos_para_json u) \<noteq> None \<and> se_puede_escribir fs ?ru)
        \<and> (verdadero w \<longrightarrow>
             json_forma (preparar_datos_para_json w) \<noteq> None \<and> se_puede_escribir fs ?rt))"
  proof (cases r1)
    case (Inl e)
    with e1 p(3) show ?thesis
      by (auto split: if_splits option.splits)
  next
    case r1: (Inr b1)
    with e1 have b1: "b1 = True"
      and u_ok: "verdadero u \<longrightarrow>
             json_forma (preparar_datos_para_json u) \<noteq> None \<and> se_puede_escribir fs ?ru"
      by (auto split: if_splits option.splits)
    show ?thesis
    proof (cases r2)
      case (Inl e)
      with e2 r1 p(3) show ?thesis
        by (auto split: if_splits option.splits)
    next
      case r2: (Inr b2)
      with e2 have "b2 = True"
        and "verdadero w \<longrightarrow>
             json_forma (preparar_datos_para_json w) \<noteq> None \<and> se_puede_escribir fs ?rt"
        by (auto split: if_splits option.splits)
      with b1 u_ok r1 r2 p(3) show ?thesis by simp
    qed
  qed
  show "map_of (snd ?R) ?ru = map_of fs ?ru" if "\<not> verdadero u"
  proof -
    from that e1 have "fs1 = fs" and "\<not> (\<exists>e. r1 = Inl e)" by auto
    moreover from solo_escribe_fuera [OF s2, of ?ru] dif(1)
    have "map_of fs2 ?ru = map_of fs1 ?ru" by simp
    ultimately show ?thesis using fin by simp
  qed
  show "map_of (snd ?R) ?rt = map_of fs ?rt" if "\<not> verdadero w"
  proof -
    from that e2 have "fs2 = fs1" by simp
    moreover from solo_escribe_fuera [OF s1, of ?rt] dif(1)
    have "map_of fs1 ?rt = map_of fs ?rt" by simp
    ultimately show ?thesis using fin by simp
  qed
  show "map_of (snd ?R) q = map_of fs q" if "q \<noteq> ?ru" "q \<noteq> ?rt"
  proof -
    from solo_escribe_fuera [OF s1, of q] that(1) have "map_of fs1 q = map_of fs q" by simp
    moreover from solo_escribe_fuera [OF s2, of q] that(2) have "map_of fs2 q = map_of fs1 q"
      by simp
    ultimately show ?thesis using fin by simp
  qed
qed


text \<open>
  The claim C5 asks that a successful \<^verbatim>\<open>crear_backup\<close> has snapshotted both collections
  and that the statistics count these snapshots: a backup count of 2. With both JSON
  collections present and an empty backups directory, \<^verbatim>\<open>crear_backup\<close> returns
  \<^verbatim>\<open>True\<close> and writes two files into the JSON directory; the statistics then report 4
  JSON files and 0 backups. With no collection file at all it returns \<^verbatim>\<open>True\<close> and
  writes nothing.
\<close>

theorem crear_backup_no_cuenta_counterexample:
  "GestorPersistencia_crear_backup (GestorPersistencia_init ''data'')
      \<lparr>anio = 2024, mes = 1, dia = 2, hora = 3, minuto = 4, segundo = 5, microsegundo = 0\<rparr>
      [(''data'', Directorio 7), (''data/json'', Directorio 7), (''data/binarios'', Directorio 7),
       (''data/backups'', Directorio 7),
       (''data/json/usuarios.json'', Archivo (Documento (VList [VStr ''Ana''])) 7),
       (''data/json/tareas.json'', Archivo (Documento (VList [VStr ''Informe''])) 7)]
     = (True,
        [(''data'', Directorio 7), (''data/json'', Directorio 7), (''data/binarios'', Directorio 7),
         (''data/backups'', Directorio 7),
         (''data/json/usuarios.json'', Archivo (Documento (VList [VStr ''Ana''])) 7),
         (''data/json/tareas.json'', Archivo (Documento (VList [VStr ''Informe''])) 7),
         (''data/json/usuarios_backup_20240102_030405.json'',
            Archivo (Documento (VList [VStr ''Ana''])) 63839847845000000),
         (''data/json/tareas_backup_20240102_030405.json'',
            Archivo (Documento (VList [VStr ''Informe''])) 63839847845000000)])
   \<and> obtener_estadisticas_almacenamiento (GestorPersistencia_init ''data'')
        [(''data'', Directorio 7), (''data/json'', Directorio 7), (''data/binarios'', Directorio 7),
         (''data/backups'', Directorio 7),
         (''data/json/usuarios.json'', Archivo (Documento (VList [VStr ''Ana''])) 7),
         (''data/json/tareas.json'', Archivo (Documento (VList [VStr ''Informe''])) 7),
         (''data/json/usuarios_backup_20240102_030405.json'',
            Archivo (Documento (VList [VStr ''Ana''])) 63839847845000000),
         (''data/json/tareas_backup_20240102_030405.json'',
            Archivo (Documento (VList [VStr ''Informe''])) 63839847845000000)]
     = Inr \<lparr>archivos_json = 4, archivos_binarios = 0, backups_totales = 0,
            fecha_ultimo_backup = None\<rparr>
   \<and> GestorPersistencia_crear_backup (GestorPersistencia_init ''data'')
      \<lparr>anio = 2024, mes = 1, dia = 2, hora = 3, minuto = 4, segundo = 5, microsegundo = 0\<rparr>
      [(''data'', Directorio 7), (''data/json'', Directorio 7), (''data/binarios'', Directorio 7),
       (''data/backups'', Directorio 7)]
     = (True,
        [(''data'', Directorio 7), (''data/json'', Directorio 7), (''data/binarios'', Directorio 7),
         (''data/backups'', Directorio 7)])"
  by code_simp

text \<open>
  C5, as the code has it. \<^verbatim>\<open>crear_backup\<close> leaves the listing of the backups
  directory as it is, so the backup counter of the statistics is the same before and
  after. When it reports success, each collection whose JSON load is a true value has
  been saved through the JSON store as \<^verbatim>\<open>{collection}_backup_{timestamp}\<close> in the JSON
  directory. A collection whose load is not a true value, absent or empty, is skipped:
  nothing is written at its snapshot path, and it does not stand in the way of success,
  which is reported exactly when every collection with a true load could be represented
  and written. No path other than the two snapshot paths is changed.
\<close>

theorem crear_backup_efecto:
  "os_listdir (snd (GestorPersistencia_crear_backup (GestorPersistencia_init base) ahora fs))
       (directorio_backups (GestorArchivos_init base))
     = os_listdir fs (directorio_backups (GestorArchivos_init base))
   \<and> (\<forall>e e'. obtener_estadisticas_almacenamiento (GestorPersistencia_init base) fs = Inr e
          \<and> obtener_estadisticas_almacenamiento (GestorPersistencia_init base)
               (snd (GestorPersistencia_crear_backup (GestorPersistencia_init base) ahora fs))
              = Inr e'
         \<longrightarrow> backups_totales e' = backups_totales e)
   \<and> (fst (GestorPersistencia_crear_backup (GestorPersistencia_init base) ahora fs) \<longrightarrow>
        (cargar_usuarios (GestorPersistencia_init base) fs ''json'' = Inr u \<and> verdadero u \<longrightarrow>
           (\<exists>doc. json_forma (preparar_datos_para_json u) = Some doc
              \<and> map_of (snd (GestorPersistencia_crear_backup (GestorPersistencia_init base) ahora fs))
                   (obtener_ruta_json (GestorArchivos_init base)
                      (''usuarios_backup_'' @ strftime_marca ahora))
                 = Some (Archivo (Documento doc) (instante ahora))))
      \<and> (cargar_tareas (GestorPersistencia_init base) fs ''json'' = Inr w \<and> verdadero w \<longrightarrow>
           (\<exists>doc. json_forma (preparar_datos_para_json w) = Some doc
              \<and> map_of (snd (GestorPersistencia_crear_backup (GestorPersistencia_init base) ahora fs))
                   (obtener_ruta_json (GestorArchivos_init base)
                      (''tareas_backup_'' @ strftime_marca ahora))
                 = Some (Archivo (Documento doc) (instante ahora)))))
   \<and> (cargar_usuarios (GestorPersistencia_init base) fs ''json'' = Inr u \<and> \<not> verdadero u \<longrightarrow>
        map_of (snd (GestorPersistencia_crear_backup (GestorPersistencia_init base) ahora fs))
          (obtener_ruta_json (GestorArchivos_init base)
             (''usuarios_backup_'' @ strftime_marca ahora))
        = map_of fs (obtener_ruta_json (GestorArchivos_init base)
             (''usuarios_backup_'' @ strftime_marca ahora)))
   \<and> (cargar_tareas (GestorPersistencia_init base) fs ''json'' = Inr w \<and> \<not> verdadero w \<longrightarrow>
        map_of (snd (GestorPersistencia_crear_backup (GestorPersistencia_init base) ahora fs))
          (obtener_ruta_json (GestorArchivos_init base)
             (''tareas_backup_'' @ strftime_marca ahora))
        = map_of fs (obtener_ruta_json (GestorArchivos_init base)
             (''tareas_backup_'' @ strftime_marca ahora)))
   \<and> (cargar_usuarios (GestorPersistencia_init base) fs ''json'' = Inr u
        \<and> cargar_tareas (GestorPersistencia_init base) fs ''json'' = Inr w \<longrightarrow>
        fst (GestorPersistencia_crear_backup (GestorPersistencia_init base) ahora fs)
        = ((verdadero u \<longrightarrow>
              json_forma (preparar_datos_para_json u) \<noteq> None
            \<and> se_puede_escribir fs (obtener_ruta_json (GestorArchivos_init base)
             (''usuarios_backup_'' @ strftime_marca ahora)))
         \<and> (verdadero w \<longrightarrow>
              json_forma (preparar_datos_para_json w) \<noteq> None
            \<and> se_puede_escribir fs (obtener_ruta_json (GestorArchivos_init base)
             (''tareas_backup_'' @ strftime_marca ahora)))))
   \<and> (\<forall>q. q \<noteq> obtener_ruta_json (GestorArchivos_init base)
                  (''usuarios_backup_'' @ strftime_marca ahora)
          \<and> q \<noteq> obtener_ruta_json (GestorArchivos_init base)
                  (''tareas_backup_'' @ strftime_marca ahora) \<longrightarrow>
        map_of (snd (GestorPersistencia_crear_backup (GestorPersistencia_init base) ahora fs)) q
        = map_of fs q)"
proof -
  have a: "os_listdir (snd (GestorPersistencia_crear_backup (GestorPersistencia_init base) ahora fs))
       (directorio_backups (GestorArchivos_init base))
     = os_listdir fs (directorio_backups (GestorArchivos_init base))"
    using crear_backup_no_toca_backups [of base ahora fs] by (rule conjunct1)
  have g: "gestor_archivos (GestorPersistencia_init base) = GestorArchivos_init base"
    by (simp add: GestorPersistencia_init_def)
  have b: "\<forall>e e'. obtener_estadisticas_almacenamiento (GestorPersistencia_init base) fs = Inr e
          \<and> obtener_estadisticas_almacenamiento (GestorPersistencia_init base)
               (snd (GestorPersistencia_crear_backup (GestorPersistencia_init base) ahora fs))
              = Inr e'
         \<longrightarrow> backups_totales e' = backups_totales e"
  proof (intro allI impI)
    fix e e'
    assume h: "obtener_estadisticas_almacenamiento (GestorPersistencia_init base) fs = Inr e
          \<and> obtener_estadisticas_almacenamiento (GestorPersistencia_init base)
               (snd (GestorPersistencia_crear_backup (GestorPersistencia_init base) ahora fs))
              = Inr e'"
    from h backups_totales_de [of "GestorPersistencia_init base" fs e]
      backups_totales_de [of "GestorPersistencia_init base"
        "snd (GestorPersistencia_crear_backup (GestorPersistencia_init base) ahora fs)" e']
      crear_backup_no_toca_backups [of base ahora fs]
    show "backups_totales e' = backups_totales e"
      by (simp add: g)
  qed
  have c: "fst (GestorPersistencia_crear_backup (GestorPersistencia_init base) ahora fs) \<longrightarrow>
        (cargar_usuarios (GestorPersistencia_init base) fs ''json'' = Inr u \<and> verdadero u \<longrightarrow>
           (\<exists>doc. json_forma (preparar_datos_para_json u) = Some doc
              \<and> map_of (snd (GestorPersistencia_crear_backup (GestorPersistencia_init base) ahora fs))
                   (obtener_ruta_json (GestorArchivos_init base)
                      (''usuarios_backup_'' @ strftime_marca ahora))
                 = Some (Archivo (Documento doc) (instante ahora))))
      \<and> (cargar_tareas (GestorPersistencia_init base) fs ''json'' = Inr w \<and> verdadero w \<longrightarrow>
           (\<exists>doc. json_forma (preparar_datos_para_json w) = Some doc
              \<and> map_of (snd (GestorPersistencia_crear_backup (GestorPersistencia_init base) ahora fs))
                   (obtener_ruta_json (GestorArchivos_init base)
                      (''tareas_backup_'' @ strftime_marca ahora))
                 = Some (Archivo (Documento doc) (instante ahora))))"
    by (rule impI) (rule crear_backup_deja_copias)
  obtain u' where u': "cargar_usuarios (GestorPersistencia_init base) fs ''json'' = Inr u'"
    using cargar_json_siempre_devuelve
      [of "gestor_archivos (GestorPersistencia_init base)" fs
          "archivo_usuarios (GestorPersistencia_init base)"]
    by (auto simp: cargar_usuarios_def)
  obtain w' where w': "cargar_tareas (GestorPersistencia_init base) fs ''json'' = Inr w'"
    using cargar_json_siempre_devuelve
      [of "gestor_archivos (GestorPersistencia_init base)" fs
          "archivo_tareas (GestorPersistencia_init base)"]
    by (auto simp: cargar_tareas_def)
  have d: "(cargar_usuarios (GestorPersistencia_init base) fs ''json'' = Inr u \<and> \<not> verdadero u \<longrightarrow>
        map_of (snd (GestorPersistencia_crear_backup (GestorPersistencia_init base) ahora fs))
          (obtener_ruta_json (GestorArchivos_init base)
             (''usuarios_backup_'' @ strftime_marca ahora))
        = map_of fs (obtener_ruta_json (GestorArchivos_init base)
             (''usuarios_backup_'' @ strftime_marca ahora)))"
  proof
    assume "cargar_usuarios (GestorPersistencia_init base) fs ''json'' = Inr u \<and> \<not> verdadero u"
    then show "map_of (snd (GestorPersistencia_crear_backup (GestorPersistencia_init base) ahora fs))
          (obtener_ruta_json (GestorArchivos_init base)
             (''usuarios_backup_'' @ strftime_marca ahora))
        = map_of fs (obtener_ruta_json (GestorArchivos_init base)
             (''usuarios_backup_'' @ strftime_marca ahora))"
      using crear_backup_resultado(2) [OF _ w', of u ahora] by blast
  qed
  have e: "(cargar_tareas (GestorPersistencia_init base) fs ''json'' = Inr w \<and> \<not> verdadero w \<longrightarrow>
        map_of (snd (GestorPersistencia_crear_backup (GestorPersistencia_init base) ahora fs))
          (obtener_ruta_json (GestorArchivos_init base)
             (''tareas_backup_'' @ strftime_marca ahora))
        = map_of fs (obtener_ruta_json (GestorArchivos_init base)
             (''tareas_backup_'' @ strftime_marca ahora)))"
  proof
    assume "cargar_tareas (GestorPersistencia_init base) fs ''json'' = Inr w \<and> \<not> verdadero w"
    then show "map_of (snd (GestorPersistencia_crear_backup (GestorPersistencia_init base) ahora fs))
          (obtener_ruta_json (GestorArchivos_init base)
             (''tareas_backup_'' @ strftime_marca ahora))
        = map_of fs (obtener_ruta_json (GestorArchivos_init base)
             (''tareas_backup_'' @ strftime_marca ahora))"
      using crear_backup_resultado(3) [OF u', of w ahora] by blast
  qed
  have f: "(cargar_usuarios (GestorPersistencia_init base) fs ''json'' = Inr u
        \<and> cargar_tareas (GestorPersistencia_init base) fs ''json'' = Inr w \<longrightarrow>
        fst (GestorPersistencia_crear_backup (GestorPersistencia_init base) ahora fs)
        = ((verdadero u \<longrightarrow>
              json_forma (preparar_datos_para_json u) \<noteq> None
            \<and> se_puede_escribir fs (obtener_ruta_json (GestorArchivos_init base)
             (''usuarios_backup_'' @ strftime_marca ahora)))
         \<and> (verdadero w \<longrightarrow>
              json_forma (preparar_datos_para_json w) \<noteq> None
            \<and> se_puede_escribir fs (obtener_ruta_json (GestorArchivos_init base)
             (''tareas_backup_'' @ strftime_marca ahora)))))"
    using crear_backup_resultado(1) [of base fs u w ahora] by (intro impI) simp
  have h: "(\<forall>q. q \<noteq> obtener_ruta_json (GestorArchivos_init base)
                  (''usuarios_backup_'' @ strftime_marca ahora)
          \<and> q \<noteq> obtener_ruta_json (GestorArchivos_init base)
                  (''tareas_backup_'' @ strftime_marca ahora) \<longrightarrow>
        map_of (snd (GestorPersistencia_crear_backup (GestorPersistencia_init base) ahora fs)) q
        = map_of fs q)"
  proof (intro allI impI)
    fix q
    assume q: "q \<noteq> obtener_ruta_json (GestorArchivos_init base)
                  (''usuarios_backup_'' @ strftime_marca ahora)
          \<and> q \<noteq> obtener_ruta_json (GestorArchivos_init base)
                  (''tareas_backup_'' @ strftime_marca ahora)"
    from crear_backup_resultado(4) [OF u' w' q [THEN conjunct1] q [THEN conjunct2]]
    show "map_of (snd (GestorPersistencia_crear_backup (GestorPersistencia_init base) ahora fs)) q
        = map_of fs q" .
  qed
  from a b c d e f h show ?thesis by (intro conjI)
qed


theorem crear_backup_efecto_witness:
  "fst (GestorPersistencia_crear_backup (GestorPersistencia_init ''data'')
      \<lparr>anio = 2024, mes = 1, dia = 2, hora = 3, minuto = 4, segundo = 5, microsegundo = 0\<rparr>
      [(''data/json'', Directorio 7), (''data/backups'', Directorio 7),
       (''data/backups/tareas.json_20240101_000000'', Archivo Vacio 7),
       (''data/json/usuarios.json'', Archivo (Documento (VList [VStr ''Ana''])) 7),
       (''data/json/tareas.json'', Archivo (Documento (VList [VStr ''Informe''])) 7)])
   \<and> cargar_usuarios (GestorPersistencia_init ''data'')
      [(''data/json'', Directorio 7), (''data/backups'', Directorio 7),
       (''data/backups/tareas.json_20240101_000000'', Archivo Vacio 7),
       (''data/json/usuarios.json'', Archivo (Documento (VList [VStr ''Ana''])) 7),
       (''data/json/tareas.json'', Archivo (Documento (VList [VStr ''Informe''])) 7)] ''json''
     = Inr (VList [VStr ''Ana''])
   \<and> verdadero (VList [VStr ''Ana''])
   \<and> (\<exists>doc. json_forma (preparar_datos_para_json (VList [VStr ''Ana''])) = Some doc
        \<and> map_of (snd (GestorPersistencia_crear_backup (GestorPersistencia_init ''data'')
             \<lparr>anio = 2024, mes = 1, dia = 2, hora = 3, minuto = 4, segundo = 5, microsegundo = 0\<rparr>
             [(''data/json'', Directorio 7), (''data/backups'', Directorio 7),
              (''data/backups/tareas.json_20240101_000000'', Archivo Vacio 7),
              (''data/json/usuarios.json'', Archivo (Documento (VList [VStr ''Ana''])) 7),
              (''data/json/tareas.json'', Archivo (Documento (VList [VStr ''Informe''])) 7)]))
             (obtener_ruta_json (GestorArchivos_init ''data'')
                (''usuarios_backup_'' @ strftime_marca
                   \<lparr>anio = 2024, mes = 1, dia = 2, hora = 3, minuto = 4, segundo = 5,
                      microsegundo = 0\<rparr>))
            = Some (Archivo (Documento doc) (instante
                   \<lparr>anio = 2024, mes = 1, dia = 2, hora = 3, minuto = 4, segundo = 5,
                      microsegundo = 0\<rparr>)))
   \<and> cargar_tareas (GestorPersistencia_init ''data'')
      [(''data/json'', Directorio 7), (''data/backups'', Directorio 7),
       (''data/backups/tareas.json_20240101_000000'', Archivo Vacio 7),
       (''data/json/usuarios.json'', Archivo (Documento (VList [VStr ''Ana''])) 7),
       (''data/json/tareas.json'', Archivo (Documento (VList [VStr ''Informe''])) 7)] ''json''
     = Inr (VList [VStr ''Informe''])
   \<and> verdadero (VList [VStr ''Informe''])
   \<and> (\<exists>doc. json_forma (preparar_datos_para_json (VList [VStr ''Informe''])) = Some doc
        \<and> map_of (snd (GestorPersistencia_crear_backup (GestorPersistencia_init ''data'')
             \<lparr>anio = 2024, mes = 1, dia = 2, hora = 3, minuto = 4, segundo = 5, microsegundo = 0\<rparr>
             [(''data/json'', Directorio 7), (''data/backups'', Directorio 7),
              (''data/backups/tareas.json_20240101_000000'', Archivo Vacio 7),
              (''data/json/usuarios.json'', Archivo (Documento (VList [VStr ''Ana''])) 7),
              (''data/json/tareas.json'', Archivo (Documento (VList [VStr ''Informe''])) 7)]))
             (obtener_ruta_json (GestorArchivos_init ''data'')
                (''tareas_backup_'' @ strftime_marca
                   \<lparr>anio = 2024, mes = 1, dia = 2, hora = 3, minuto = 4, segundo = 5,
                      microsegundo = 0\<rparr>))
            = Some (Archivo (Documento doc) (instante
                   \<lparr>anio = 2024, mes = 1, dia = 2, hora = 3, minuto = 4, segundo = 5,
                      microsegundo = 0\<rparr>)))
   \<and> obtener_estadisticas_almacenamiento (GestorPersistencia_init ''data'')
      [(''data/json'', Directorio 7), (''data/backups'', Directorio 7),
       (''data/backups/tareas.json_20240101_000000'', Archivo Vacio 7),
       (''data/json/usuarios.json'', Archivo (Documento (VList [VStr ''Ana''])) 7),
       (''data/json/tareas.json'', Archivo (Documento (VList [VStr ''Informe''])) 7)]
     = Inr \<lparr>archivos_json = 2, archivos_binarios = 0, backups_totales = 1,
            fecha_ultimo_backup = Some 7\<rparr>
   \<and> obtener_estadisticas_almacenamiento (GestorPersistencia_init ''data'')
      (snd (GestorPersistencia_crear_backup (GestorPersistencia_init ''data'')
         \<lparr>anio = 2024, mes = 1, dia = 2, hora = 3, minuto = 4, segundo = 5, microsegundo = 0\<rparr>
         [(''data/json'', Directorio 7), (''data/backups'', Directorio 7),
          (''data/backups/tareas.json_20240101_000000'', Archivo Vacio 7),
          (''data/json/usuarios.json'', Archivo (Documento (VList [VStr ''Ana''])) 7),
          (''data/json/tareas.json'', Archivo (Documento (VList [VStr ''Informe''])) 7)]))
     = Inr \<lparr>archivos_json = 4, archivos_binarios = 0, backups_totales = 1,
            fecha_ultimo_backup = Some 7\<rparr>
   \<and> backups_totales \<lparr>archivos_json = 4, archivos_binarios = 0, backups_totales = 1,
            fecha_ultimo_backup = Some 7\<rparr>
     = backups_totales \<lparr>archivos_json = 2, archivos_binarios = 0, backups_totales = 1,
            fecha_ultimo_backup = Some 7\<rparr>
   \<and> cargar_usuarios (GestorPersistencia_init ''data'')
      [(''data/json'', Directorio 7), (''data/backups'', Directorio 7),
       (''data/json/usuarios.json'', Archivo (Documento (VList [])) 7),
       (''data/json/tareas.json'', Archivo (Documento (VList [VStr ''Informe''])) 7)] ''json''
     = Inr (VList [])
   \<and> \<not> verdadero (VList [])
   \<and> cargar_tareas (GestorPersistencia_init ''data'')
      [(''data/json'', Directorio 7), (''data/backups'', Directorio 7),
       (''data/json/usuarios.json'', Archivo (Documento (VList [])) 7),
       (''data/json/tareas.json'', Archivo (Documento (VList [VStr ''Informe''])) 7)] ''json''
     = Inr (VList [VStr ''Informe''])
   \<and> map_of (snd (GestorPersistencia_crear_backup (GestorPersistencia_init ''data'')
        \<lparr>anio = 2024, mes = 1, dia = 2, hora = 3, minuto = 4, segundo = 5, microsegundo = 0\<rparr>
        [(''data/json'', Directorio 7), (''data/backups'', Directorio 7),
       (''data/json/usuarios.json'', Archivo (Documento (VList [])) 7),
       (''data/json/tareas.json'', Archivo (Documento (VList [VStr ''Informe''])) 7)]))
        (obtener_ruta_json (GestorArchivos_init ''data'') (''usuarios_backup_'' @ strftime_marca
           \<lparr>anio = 2024, mes = 1, dia = 2, hora = 3, minuto = 4, segundo = 5, microsegundo = 0\<rparr>))
     = map_of
        [(''data/json'', Directorio 7), (''data/backups'', Directorio 7),
       (''data/json/usuarios.json'', Archivo (Documento (VList [])) 7),
       (''data/json/tareas.json'', Archivo (Documento (VList [VStr ''Informe''])) 7)]
        (obtener_ruta_json (GestorArchivos_init ''data'') (''usuarios_backup_'' @ strftime_marca
           \<lparr>anio = 2024, mes = 1, dia = 2, hora = 3, minuto = 4, segundo = 5, microsegundo = 0\<rparr>))
   \<and> map_of
        [(''data/json'', Directorio 7), (''data/backups'', Directorio 7),
       (''data/json/usuarios.json'', Archivo (Documento (VList [])) 7),
       (''data/json/tareas.json'', Archivo (Documento (VList [VStr ''Informe''])) 7)]
        (obtener_ruta_json (GestorArchivos_init ''data'') (''usuarios_backup_'' @ strftime_marca
           \<lparr>anio = 2024, mes = 1, dia = 2, hora = 3, minuto = 4, segundo = 5, microsegundo = 0\<rparr>))
     = None
   \<and> fst (GestorPersistencia_crear_backup (GestorPersistencia_init ''data'')
        \<lparr>anio = 2024, mes = 1, dia = 2, hora = 3, minuto = 4, segundo = 5, microsegundo = 0\<rparr>
        [(''data/json'', Directorio 7), (''data/backups'', Directorio 7),
       (''data/json/usuarios.json'', Archivo (Documento (VList [])) 7),
       (''data/json/tareas.json'', Archivo (Documento (VList [VStr ''Informe''])) 7)])
   \<and> map_of (snd (GestorPersistencia_crear_backup (GestorPersistencia_init ''data'')
        \<lparr>anio = 2024, mes = 1, dia = 2, hora = 3, minuto = 4, segundo = 5, microsegundo = 0\<rparr>
        [(''data/json'', Directorio 7), (''data/backups'', Directorio 7),
       (''data/json/usuarios.json'', Archivo (Documento (VList [])) 7),
       (''data/json/tareas.json'', Archivo (Documento (VList [VStr ''Informe''])) 7)]))
        ''data/json/usuarios.json''
     = map_of
        [(''data/json'', Directorio 7), (''data/backups'', Directorio 7),
       (''data/json/usuarios.json'', Archivo (Documento (VList [])) 7),
       (''data/json/tareas.json'', Archivo (Documento (VList [VStr ''Informe''])) 7)]
        ''data/json/usuarios.json''"
proof -
  let ?ah = "\<lparr>anio = 2024, mes = 1, dia = 2, hora = 3, minuto = 4, segundo = 5, microsegundo = 0\<rparr>"
  let ?fs = "[(''data/json'', Directorio 7), (''data/backups'', Directorio 7),
       (''data/backups/tareas.json_20240101_000000'', Archivo Vacio 7),
       (''data/json/usuarios.json'', Archivo (Documento (VList [VStr ''Ana''])) 7),
       (''data/json/tareas.json'', Archivo (Documento (VList [VStr ''Informe''])) 7)]"
  let ?gp = "GestorPersistencia_init ''data''"
  have h1: "fst (GestorPersistencia_crear_backup ?gp ?ah ?fs)"
    by code_simp
  have h2: "cargar_usuarios ?gp ?fs ''json'' = Inr (VList [VStr ''Ana''])"
    by code_simp
  have h3: "verdadero (VList [VStr ''Ana''])" by simp
  have k2: "cargar_tareas ?gp ?fs ''json'' = Inr (VList [VStr ''Informe''])"
    by code_simp
  have k3: "verdadero (VList [VStr ''Informe''])" by simp
  have s0: "obtener_estadisticas_almacenamiento ?gp ?fs
     = Inr \<lparr>archivos_json = 2, archivos_binarios = 0, backups_totales = 1,
            fecha_ultimo_backup = Some 7\<rparr>"
    by code_simp
  have s1: "obtener_estadisticas_almacenamiento ?gp
       (snd (GestorPersistencia_crear_backup ?gp ?ah ?fs))
     = Inr \<lparr>archivos_json = 4, archivos_binarios = 0, backups_totales = 1,
            fecha_ultimo_backup = Some 7\<rparr>"
    by code_simp
  note T = crear_backup_efecto [where base = "''data''" and ahora = ?ah and fs = ?fs
      and u = "VList [VStr ''Ana'']" and w = "VList [VStr ''Informe'']"]
  note C = T [THEN conjunct2, THEN conjunct2, THEN conjunct1, THEN mp, OF h1]
  note U = C [THEN conjunct1, THEN mp, OF conjI [OF h2 h3]]
  note V = C [THEN conjunct2, THEN mp, OF conjI [OF k2 k3]]
  note S = T [THEN conjunct2, THEN conjunct1, THEN spec, THEN spec, THEN mp, OF conjI [OF s0 s1]]
  let ?fs2 = "[(''data/json'', Directorio 7), (''data/backups'', Directorio 7),
       (''data/json/usuarios.json'', Archivo (Documento (VList [])) 7),
       (''data/json/tareas.json'', Archivo (Documento (VList [VStr ''Informe''])) 7)]"
  let ?ru = "obtener_ruta_json (GestorArchivos_init ''data'') (''usuarios_backup_'' @ strftime_marca ?ah)"
  let ?rt = "obtener_ruta_json (GestorArchivos_init ''data'') (''tareas_backup_'' @ strftime_marca ?ah)"
  have v1: "cargar_usuarios ?gp ?fs2 ''json'' = Inr (VList [])"
    by code_simp
  have v2: "\<not> verdadero (VList [])" by simp
  have v3: "cargar_tareas ?gp ?fs2 ''json'' = Inr (VList [VStr ''Informe''])"
    by code_simp
  note T2 = crear_backup_efecto [where base = "''data''" and ahora = ?ah and fs = ?fs2
      and u = "VList []" and w = "VList [VStr ''Informe'']"]
  note T2' = T2 [THEN conjunct2, THEN conjunct2, THEN conjunct2]
  note v4 = T2' [THEN conjunct1, THEN mp, OF conjI [OF v1 v2]]
  have v5: "map_of ?fs2 ?ru = None"
    by code_simp
  note E = T2' [THEN conjunct2, THEN conjunct2, THEN conjunct1, THEN mp, OF conjI [OF v1 v3]]
  have v6: "fst (GestorPersistencia_crear_backup ?gp ?ah ?fs2)"
    unfolding E by code_simp
  have q: "''data/json/usuarios.json'' \<noteq> ?ru \<and> ''data/json/usuarios.json'' \<noteq> ?rt"
    by code_simp
  note v7 = T2' [THEN conjunct2, THEN conjunct2, THEN conjunct2, THEN spec, THEN mp, OF q]
  from h1 h2 h3 U k2 k3 V s0 s1 S v1 v2 v3 v4 v5 v6 v7 show ?thesis by (intro conjI)
qed

subsection \<open>Synchronising the formats\<close>

lemma crear_backup_binario_solo_escribe:
  "solo_escribe (\<lambda>q. prefix (obtener_ruta_backup g ahora (nombre @ ''.pkl'')) q \<and> q \<noteq> ruta)
     fs (PersistenciaBinaria_crear_backup g ahora fs ruta nombre)"
proof (cases "shutil_copy2 fs ruta (obtener_ruta_backup g ahora (nombre @ ''.pkl''))")
  case (Inl e)
  then show ?thesis
    by (simp add: PersistenciaBinaria_crear_backup_def solo_escribe_refl)
next
  case (Inr fs1)
  from copy2_solo_escribe [OF Inr] Inr show ?thesis
    by (simp add: PersistenciaBinaria_crear_backup_def)
qed

lemma respaldo_previo_binario:
  obtains fs1 where
    "fs1 = (if cb \<and> os_path_exists fs (obtener_ruta_binario g n)
            then PersistenciaBinaria_crear_backup g ahora fs (obtener_ruta_binario g n) n
            else fs)"
    "solo_escribe (\<lambda>q. prefix (obtener_ruta_backup g ahora (n @ ''.pkl'')) q
                        \<and> q \<noteq> obtener_ruta_binario g n) fs fs1"
  using crear_backup_binario_solo_escribe [of g ahora n "obtener_ruta_binario g n" fs]
  by (simp add: solo_escribe_refl)

lemma guardar_binario_solo_escribe:
  assumes "PersistenciaBinaria_guardar_datos g ahora fs n datos cb = (r, fs')"
  shows "solo_escribe (\<lambda>q. prefix (obtener_ruta_backup g ahora (n @ ''.pkl'')) q
                          \<or> q = obtener_ruta_binario g n) fs fs'"
proof -
  let ?ruta = "obtener_ruta_binario g n"
  let ?rb = "obtener_ruta_backup g ahora (n @ ''.pkl'')"
  obtain fs1 where fs1:
    "fs1 = (if cb \<and> os_path_exists fs ?ruta
            then PersistenciaBinaria_crear_backup g ahora fs ?ruta n else fs)"
    and w1: "solo_escribe (\<lambda>q. prefix ?rb q \<and> q \<noteq> ?ruta) fs fs1"
    by (rule respaldo_previo_binario)
  have w2: "solo_escribe (\<lambda>q. q = ?ruta) fs1 fs'"
  proof (cases "abrir_escritura fs1 (instante ahora) ?ruta")
    case (Inl e)
    with assms fs1 have "fs' = fs1"
      by (simp add: PersistenciaBinaria_guardar_datos_def Let_def)
    then show ?thesis by (simp add: solo_escribe_refl)
  next
    case (Inr fs2)
    from abrir_escritura_exito [OF Inr]
    have f2: "fs2 = AList.update ?ruta (Archivo Vacio (instante ahora)) fs1"
      and nd: "\<And>t'. map_of fs1 ?ruta \<noteq> Some (Directorio t')"
      by simp_all
    from assms fs1 Inr f2 have "\<exists>c. fs' = AList.update ?ruta (Archivo c (instante ahora)) fs1"
      by (auto simp: PersistenciaBinaria_guardar_datos_def Let_def escribir_def
          split: option.splits if_splits)
    then obtain c where "fs' = AList.update ?ruta (Archivo c (instante ahora)) fs1" ..
    with solo_escribe_update [OF nd, of c "instante ahora"] show ?thesis by simp
  qed
  from solo_escribe_trans [OF w1 w2] show ?thesis
    by (rule solo_escribe_mono) auto
qed

lemma guardar_binario_exito:
  assumes "pickle_falla datos = None"
    and "se_puede_escribir fs (obtener_ruta_binario g n)"
  shows "fst (PersistenciaBinaria_guardar_datos g ahora fs n datos cb) = Inr True
     \<and> map_of (snd (PersistenciaBinaria_guardar_datos g ahora fs n datos cb))
          (obtener_ruta_binario g n)
         = Some (Archivo (Documento datos) (instante ahora))"
proof -
  let ?ruta = "obtener_ruta_binario g n"
  let ?rb = "obtener_ruta_backup g ahora (n @ ''.pkl'')"
  obtain fs1 where fs1:
    "fs1 = (if cb \<and> os_path_exists fs ?ruta
            then PersistenciaBinaria_crear_backup g ahora fs ?ruta n else fs)"
    and w1: "solo_escribe (\<lambda>q. prefix ?rb q \<and> q \<noteq> ?ruta) fs fs1"
    by (rule respaldo_previo_binario)
  from se_puede_escribir_fuera [OF w1, of ?ruta] assms(2)
  have "se_puede_escribir fs1 ?ruta" by simp
  from abrir_escritura_si_se_puede [OF this, of "instante ahora"] fs1 assms(1)
  show ?thesis
    by (simp add: PersistenciaBinaria_guardar_datos_def Let_def escribir_def update_conv')
qed


lemma sincronizar_coleccion_solo_escribe:
  assumes "sincronizar_coleccion gp ahora fs nombre = (r, fs')"
  shows "solo_escribe
     (\<lambda>q. prefix (obtener_ruta_backup (gestor_archivos gp) ahora ((nombre @ ''_sync'') @ ''.pkl'')) q
          \<or> q = obtener_ruta_binario (gestor_archivos gp) (nombre @ ''_sync'')) fs fs'"
proof -
  obtain v where v: "PersistenciaJSON_cargar_datos (gestor_archivos gp) fs nombre = Inr v"
    using cargar_json_siempre_devuelve by blast
  show ?thesis
  proof (cases "verdadero v")
    case False
    with v assms have "fs' = fs" by (simp add: sincronizar_coleccion_def)
    then show ?thesis by (simp add: solo_escribe_refl)
  next
    case True
    obtain r' fs'' where g: "PersistenciaBinaria_guardar_datos (gestor_archivos gp) ahora fs
        (nombre @ ''_sync'') v True = (r', fs'')"
      by (cases "PersistenciaBinaria_guardar_datos (gestor_archivos gp) ahora fs
        (nombre @ ''_sync'') v True")
    with v True assms have "fs' = fs''"
      by (auto simp: sincronizar_coleccion_def split: sum.splits)
    with guardar_binario_solo_escribe [OF g] show ?thesis by simp
  qed
qed

lemma sincronizar_coleccion_exito:
  assumes "PersistenciaJSON_cargar_datos (gestor_archivos gp) fs nombre = Inr v"
    and "verdadero v" and "pickle_falla v = None"
    and "se_puede_escribir fs (obtener_ruta_binario (gestor_archivos gp) (nombre @ ''_sync''))"
  shows "fst (sincronizar_coleccion gp ahora fs nombre) = Inr ()
     \<and> map_of (snd (sincronizar_coleccion gp ahora fs nombre))
          (obtener_ruta_binario (gestor_archivos gp) (nombre @ ''_sync''))
         = Some (Archivo (Documento v) (instante ahora))"
  using guardar_binario_exito [OF assms(3,4), of ahora True] assms(1,2)
  by (auto simp: sincronizar_coleccion_def split: prod.splits sum.splits)

lemma sincronizar_formatos_pasos:
  obtains r1 fs1 r2 fs2 where
    "sincronizar_coleccion gp ahora fs (archivo_usuarios gp) = (r1, fs1)"
    "sincronizar_coleccion gp ahora fs1 (archivo_tareas gp) = (r2, fs2)"
    "sincronizar_formatos gp ahora fs =
       (case r1 of
          Inl e \<Rightarrow> (False, fs1)
        | Inr u \<Rightarrow> (case r2 of Inl e \<Rightarrow> (False, fs2) | Inr u' \<Rightarrow> (True, fs2)))"
proof -
  obtain r1 fs1 where 1: "sincronizar_coleccion gp ahora fs (archivo_usuarios gp) = (r1, fs1)"
    by (cases "sincronizar_coleccion gp ahora fs (archivo_usuarios gp)")
  obtain r2 fs2 where 2: "sincronizar_coleccion gp ahora fs1 (archivo_tareas gp) = (r2, fs2)"
    by (cases "sincronizar_coleccion gp ahora fs1 (archivo_tareas gp)")
  from 1 2 have "sincronizar_formatos gp ahora fs =
       (case r1 of
          Inl e \<Rightarrow> (False, fs1)
        | Inr u \<Rightarrow> (case r2 of Inl e \<Rightarrow> (False, fs2) | Inr u' \<Rightarrow> (True, fs2)))"
    by (simp add: sincronizar_formatos_def split: sum.splits)
  with 1 2 show ?thesis by (rule that)
qed

lemma ruta_binario_con_raiz:
  assumes "directorio_binarios g = B @ ''binarios''" "\<not> prefix ''/'' n"
  shows "obtener_ruta_binario g n
           = B @ ''binarios/'' @ (if suffix ''.pkl'' n then n else n @ ''.pkl'')"
proof -
  have "\<not> prefix ''/'' (if suffix ''.pkl'' n then n else n @ ''.pkl'')"
    using assms(2) by (cases n) auto
  then show ?thesis
    using assms(1) by (simp add: obtener_ruta_binario_def os_path_join_relativo)
qed

lemma ruta_backup_con_raiz:
  assumes "directorio_backups g = B @ ''backups''" "\<not> prefix ''/'' n"
  shows "obtener_ruta_backup g ahora n = B @ ''backups/'' @ n @ ''_'' @ strftime_marca ahora"
proof -
  have "\<not> prefix ''/'' (n @ ''_'' @ strftime_marca ahora)"
    using assms(2) by (cases n) auto
  then show ?thesis
    using assms(1) by (simp add: obtener_ruta_backup_def os_path_join_relativo)
qed

lemma sincronizar_coleccion_init:
  assumes "sincronizar_coleccion (GestorPersistencia_init base) ahora fs nombre = (r, fs')"
    and "\<not> prefix ''/'' nombre"
    and "directorio_binarios (GestorArchivos_init base) = B @ ''binarios''"
    and "directorio_backups (GestorArchivos_init base) = B @ ''backups''"
  shows "solo_escribe (\<lambda>q. prefix (B @ ''backups/'') q
            \<or> q = obtener_ruta_binario (GestorArchivos_init base) (nombre @ ''_sync'')) fs fs'"
proof -
  have g: "gestor_archivos (GestorPersistencia_init base) = GestorArchivos_init base"
    by (simp add: GestorPersistencia_init_def)
  have rel: "\<not> prefix ''/'' ((nombre @ ''_sync'') @ ''.pkl'')"
    using assms(2) by (cases nombre) auto
  from sincronizar_coleccion_solo_escribe [OF assms(1)]
  show ?thesis
  proof (rule solo_escribe_mono)
    fix q
    assume "prefix (obtener_ruta_backup (gestor_archivos (GestorPersistencia_init base)) ahora
                ((nombre @ ''_sync'') @ ''.pkl'')) q
          \<or> q = obtener_ruta_binario (gestor_archivos (GestorPersistencia_init base))
                (nombre @ ''_sync'')"
    then show "prefix (B @ ''backups/'') q
            \<or> q = obtener_ruta_binario (GestorArchivos_init base) (nombre @ ''_sync'')"
      unfolding g ruta_backup_con_raiz [OF assms(4) rel]
      by (auto simp: prefix_def)
  qed
qed


lemma rutas_de_sincronizacion:
  assumes "directorio_json g = B @ ''json''" "directorio_binarios g = B @ ''binarios''"
  shows "\<not> prefix (B @ ''backups/'') (obtener_ruta_binario g (''usuarios'' @ ''_sync''))"
    and "\<not> prefix (B @ ''backups/'') (obtener_ruta_binario g (''tareas'' @ ''_sync''))"
    and "\<not> prefix (B @ ''backups/'') (obtener_ruta_json g ''tareas'')"
    and "obtener_ruta_binario g (''usuarios'' @ ''_sync'') \<noteq> obtener_ruta_binario g (''tareas'' @ ''_sync'')"
    and "obtener_ruta_json g ''tareas'' \<noteq> obtener_ruta_binario g (''usuarios'' @ ''_sync'')"
    and "prefix (B @ ''json/'') p \<Longrightarrow> \<not> prefix (B @ ''backups/'') p
           \<and> p \<noteq> obtener_ruta_binario g (''usuarios'' @ ''_sync'')
           \<and> p \<noteq> obtener_ruta_binario g (''tareas'' @ ''_sync'')"
proof -
  have a: "\<not> prefix ''/'' (''usuarios'' @ ''_sync'')" "\<not> prefix ''/'' (''tareas'' @ ''_sync'')"
    "\<not> prefix ''/'' ''tareas''"
    by simp_all
  note u = ruta_binario_con_raiz [OF assms(2) a(1)]
  note t = ruta_binario_con_raiz [OF assms(2) a(2)]
  note j = ruta_json_con_raiz [OF assms(1) a(3)]
  show "\<not> prefix (B @ ''backups/'') (obtener_ruta_binario g (''usuarios'' @ ''_sync''))"
    unfolding u by simp
  show "\<not> prefix (B @ ''backups/'') (obtener_ruta_binario g (''tareas'' @ ''_sync''))"
    unfolding t by simp
  show "\<not> prefix (B @ ''backups/'') (obtener_ruta_json g ''tareas'')"
    unfolding j by simp
  show "obtener_ruta_binario g (''usuarios'' @ ''_sync'') \<noteq> obtener_ruta_binario g (''tareas'' @ ''_sync'')"
    unfolding u t by simp
  show "obtener_ruta_json g ''tareas'' \<noteq> obtener_ruta_binario g (''usuarios'' @ ''_sync'')"
    unfolding u j by simp
  show "\<not> prefix (B @ ''backups/'') p
           \<and> p \<noteq> obtener_ruta_binario g (''usuarios'' @ ''_sync'')
           \<and> p \<noteq> obtener_ruta_binario g (''tareas'' @ ''_sync'')"
    if "prefix (B @ ''json/'') p"
  proof -
    from that obtain z where "p = B @ ''json/'' @ z" by (auto simp: prefix_def)
    then show ?thesis unfolding u t by simp
  qed
qed

lemma sincronizar_formatos_marco:
  assumes "directorio_binarios (GestorArchivos_init base) = B @ ''binarios''"
    and "directorio_backups (GestorArchivos_init base) = B @ ''backups''"
  shows "solo_escribe (\<lambda>q. prefix (B @ ''backups/'') q
            \<or> q = obtener_ruta_binario (GestorArchivos_init base) (''usuarios'' @ ''_sync'')
            \<or> q = obtener_ruta_binario (GestorArchivos_init base) (''tareas'' @ ''_sync''))
          fs (snd (sincronizar_formatos (GestorPersistencia_init base) ahora fs))"
proof -
  let ?gp = "GestorPersistencia_init base"
  have n: "archivo_usuarios ?gp = ''usuarios''" "archivo_tareas ?gp = ''tareas''"
    by (simp_all add: GestorPersistencia_init_def)
  obtain r1 fs1 r2 fs2 where p:
    "sincronizar_coleccion ?gp ahora fs (archivo_usuarios ?gp) = (r1, fs1)"
    "sincronizar_coleccion ?gp ahora fs1 (archivo_tareas ?gp) = (r2, fs2)"
    "sincronizar_formatos ?gp ahora fs =
       (case r1 of
          Inl e \<Rightarrow> (False, fs1)
        | Inr u \<Rightarrow> (case r2 of Inl e \<Rightarrow> (False, fs2) | Inr u' \<Rightarrow> (True, fs2)))"
    by (rule sincronizar_formatos_pasos)
  have w1: "solo_escribe (\<lambda>q. prefix (B @ ''backups/'') q
            \<or> q = obtener_ruta_binario (GestorArchivos_init base) (''usuarios'' @ ''_sync'')) fs fs1"
    using p(1) unfolding n by (rule sincronizar_coleccion_init) (simp_all add: assms)
  have w2: "solo_escribe (\<lambda>q. prefix (B @ ''backups/'') q
            \<or> q = obtener_ruta_binario (GestorArchivos_init base) (''tareas'' @ ''_sync'')) fs1 fs2"
    using p(2) unfolding n by (rule sincronizar_coleccion_init) (simp_all add: assms)
  have "snd (sincronizar_formatos ?gp ahora fs) = fs1 \<or> snd (sincronizar_formatos ?gp ahora fs) = fs2"
    using p(3) by (auto split: sum.splits)
  then show ?thesis
  proof
    assume "snd (sincronizar_formatos ?gp ahora fs) = fs1"
    with w1 show ?thesis by (auto intro: solo_escribe_mono)
  next
    assume "snd (sincronizar_formatos ?gp ahora fs) = fs2"
    with solo_escribe_trans [OF w1 w2] show ?thesis by (auto intro: solo_escribe_mono)
  qed
qed


lemma sincronizar_formatos_copia_usuarios:
  assumes "cargar_usuarios (GestorPersistencia_init base) fs ''json'' = Inr u"
    and "verdadero u" and "pickle_falla u = None"
    and "se_puede_escribir fs (obtener_ruta_binario (GestorArchivos_init base) (''usuarios'' @ ''_sync''))"
  shows "map_of (snd (sincronizar_formatos (GestorPersistencia_init base) ahora fs))
           (obtener_ruta_binario (GestorArchivos_init base) (''usuarios'' @ ''_sync''))
         = Some (Archivo (Documento u) (instante ahora))"
proof -
  let ?gp = "GestorPersistencia_init base"
  let ?g = "GestorArchivos_init base"
  have n: "archivo_usuarios ?gp = ''usuarios''" "archivo_tareas ?gp = ''tareas''"
    "gestor_archivos ?gp = ?g"
    by (simp_all add: GestorPersistencia_init_def)
  obtain B where B: "directorio_json ?g = B @ ''json''" "directorio_binarios ?g = B @ ''binarios''"
    "directorio_backups ?g = B @ ''backups''"
    using directorios_de_init [of base] by blast
  note R = rutas_de_sincronizacion [OF B(1,2)]
  obtain r1 fs1 r2 fs2 where p:
    "sincronizar_coleccion ?gp ahora fs (archivo_usuarios ?gp) = (r1, fs1)"
    "sincronizar_coleccion ?gp ahora fs1 (archivo_tareas ?gp) = (r2, fs2)"
    "sincronizar_formatos ?gp ahora fs =
       (case r1 of
          Inl e \<Rightarrow> (False, fs1)
        | Inr u \<Rightarrow> (case r2 of Inl e \<Rightarrow> (False, fs2) | Inr u' \<Rightarrow> (True, fs2)))"
    by (rule sincronizar_formatos_pasos)
  from assms(1) n have c: "PersistenciaJSON_cargar_datos (gestor_archivos ?gp) fs ''usuarios'' = Inr u"
    by (simp add: cargar_usuarios_def)
  from sincronizar_coleccion_exito [OF c assms(2,3), of ahora] assms(4) p(1) n
  have r1: "r1 = Inr ()"
    and m1: "map_of fs1 (obtener_ruta_binario ?g (''usuarios'' @ ''_sync''))
               = Some (Archivo (Documento u) (instante ahora))"
    by simp_all
  have w2: "solo_escribe (\<lambda>q. prefix (B @ ''backups/'') q
            \<or> q = obtener_ruta_binario ?g (''tareas'' @ ''_sync'')) fs1 fs2"
    using p(2) unfolding n by (rule sincronizar_coleccion_init) (simp_all add: B)
  from solo_escribe_fuera [OF w2, of "obtener_ruta_binario ?g (''usuarios'' @ ''_sync'')"] R(1,4) m1
  have "map_of fs2 (obtener_ruta_binario ?g (''usuarios'' @ ''_sync''))
               = Some (Archivo (Documento u) (instante ahora))"
    by simp
  moreover from p(3) r1 have "snd (sincronizar_formatos ?gp ahora fs) = fs2"
    by (simp split: sum.splits)
  ultimately show ?thesis by simp
qed

lemma sincronizar_formatos_copia_tareas:
  assumes "fst (sincronizar_formatos (GestorPersistencia_init base) ahora fs)"
    and "cargar_tareas (GestorPersistencia_init base) fs ''json'' = Inr w"
    and "verdadero w" and "pickle_falla w = None"
    and "se_puede_escribir fs (obtener_ruta_binario (GestorArchivos_init base) (''tareas'' @ ''_sync''))"
  shows "map_of (snd (sincronizar_formatos (GestorPersistencia_init base) ahora fs))
           (obtener_ruta_binario (GestorArchivos_init base) (''tareas'' @ ''_sync''))
         = Some (Archivo (Documento w) (instante ahora))"
proof -
  let ?gp = "GestorPersistencia_init base"
  let ?g = "GestorArchivos_init base"
  have n: "archivo_usuarios ?gp = ''usuarios''" "archivo_tareas ?gp = ''tareas''"
    "gestor_archivos ?gp = ?g"
    by (simp_all add: GestorPersistencia_init_def)
  obtain B where B: "directorio_json ?g = B @ ''json''" "directorio_binarios ?g = B @ ''binarios''"
    "directorio_backups ?g = B @ ''backups''"
    using directorios_de_init [of base] by blast
  note R = rutas_de_sincronizacion [OF B(1,2)]
  obtain r1 fs1 r2 fs2 where p:
    "sincronizar_coleccion ?gp ahora fs (archivo_usuarios ?gp) = (r1, fs1)"
    "sincronizar_coleccion ?gp ahora fs1 (archivo_tareas ?gp) = (r2, fs2)"
    "sincronizar_formatos ?gp ahora fs =
       (case r1 of
          Inl e \<Rightarrow> (False, fs1)
        | Inr u \<Rightarrow> (case r2 of Inl e \<Rightarrow> (False, fs2) | Inr u' \<Rightarrow> (True, fs2)))"
    by (rule sincronizar_formatos_pasos)
  from assms(1) p(3) have fin: "snd (sincronizar_formatos ?gp ahora fs) = fs2"
    by (auto split: sum.splits)
  have w1: "solo_escribe (\<lambda>q. prefix (B @ ''backups/'') q
            \<or> q = obtener_ruta_binario ?g (''usuarios'' @ ''_sync'')) fs fs1"
    using p(1) unfolding n by (rule sincronizar_coleccion_init) (simp_all add: B)
  from solo_escribe_fuera [OF w1, of "obtener_ruta_json ?g ''tareas''"] R(3,5)
  have "map_of fs1 (obtener_ruta_json ?g ''tareas'') = map_of fs (obtener_ruta_json ?g ''tareas'')"
    by simp
  from cargar_json_depende_de_ruta [OF this] assms(2) n
  have c: "PersistenciaJSON_cargar_datos (gestor_archivos ?gp) fs1 ''tareas'' = Inr w"
    by (simp add: cargar_tareas_def)
  from se_puede_escribir_fuera [OF w1, of "obtener_ruta_binario ?g (''tareas'' @ ''_sync'')"]
    R(2,4) assms(5) n
  have s: "se_puede_escribir fs1 (obtener_ruta_binario (gestor_archivos ?gp) (''tareas'' @ ''_sync''))"
    by auto
  from sincronizar_coleccion_exito [OF c assms(3,4) s, of ahora] p(2) n fin
  show ?thesis by simp
qed


text \<open>
  The claim C6 has \<^verbatim>\<open>sincronizar_formatos\<close> copy in both directions. With users and
  tasks present in the binary store only, the call returns \<^verbatim>\<open>True\<close>, leaves the file
  system as it is, and the JSON store still has no users.
\<close>

theorem sincronizar_formatos_una_direccion_counterexample:
  "sincronizar_formatos (GestorPersistencia_init ''data'')
      \<lparr>anio = 2024, mes = 1, dia = 2, hora = 3, minuto = 4, segundo = 5, microsegundo = 0\<rparr>
      [(''data'', Directorio 7), (''data/json'', Directorio 7), (''data/binarios'', Directorio 7),
       (''data/backups'', Directorio 7),
       (''data/binarios/usuarios.pkl'', Archivo (Documento (VList [VStr ''Ana''])) 7),
       (''data/binarios/tareas.pkl'', Archivo (Documento (VList [VStr ''Informe''])) 7)]
     = (True,
        [(''data'', Directorio 7), (''data/json'', Directorio 7), (''data/binarios'', Directorio 7),
         (''data/backups'', Directorio 7),
         (''data/binarios/usuarios.pkl'', Archivo (Documento (VList [VStr ''Ana''])) 7),
         (''data/binarios/tareas.pkl'', Archivo (Documento (VList [VStr ''Informe''])) 7)])
   \<and> cargar_usuarios (GestorPersistencia_init ''data'')
        [(''data'', Directorio 7), (''data/json'', Directorio 7), (''data/binarios'', Directorio 7),
         (''data/backups'', Directorio 7),
         (''data/binarios/usuarios.pkl'', Archivo (Documento (VList [VStr ''Ana''])) 7),
         (''data/binarios/tareas.pkl'', Archivo (Documento (VList [VStr ''Informe''])) 7)]
        ''binario''
     = Inr (VList [VStr ''Ana''])
   \<and> cargar_usuarios (GestorPersistencia_init ''data'')
        [(''data'', Directorio 7), (''data/json'', Directorio 7), (''data/binarios'', Directorio 7),
         (''data/backups'', Directorio 7),
         (''data/binarios/usuarios.pkl'', Archivo (Documento (VList [VStr ''Ana''])) 7),
         (''data/binarios/tareas.pkl'', Archivo (Documento (VList [VStr ''Informe''])) 7)]
        ''json''
     = Inr VNone"
  by code_simp

text \<open>
  C6, as the code has it. \<^verbatim>\<open>sincronizar_formatos\<close> never changes a path of the JSON
  directory; all it may change lies in the backups directory or is one of the two binary
  files \<^verbatim>\<open>usuarios_sync.pkl\<close> and \<^verbatim>\<open>tareas_sync.pkl\<close>. A JSON collection that loads as a
  true value which \<^verbatim>\<open>pickle\<close> accepts is copied into the binary store under
  \<^verbatim>\<open>{collection}_sync\<close> whenever that file can be opened for writing (for the tasks:
  provided the call returns \<^verbatim>\<open>True\<close>, that is, the users' half raised nothing).
\<close>

theorem sincronizar_formatos_efecto:
  "(\<forall>p. prefix (directorio_json (GestorArchivos_init base) @ ''/'') p \<longrightarrow>
         map_of (snd (sincronizar_formatos (GestorPersistencia_init base) ahora fs)) p
           = map_of fs p)
   \<and> (\<forall>p. \<not> prefix (directorio_backups (GestorArchivos_init base) @ ''/'') p
          \<and> p \<noteq> obtener_ruta_binario (GestorArchivos_init base) ''usuarios_sync''
          \<and> p \<noteq> obtener_ruta_binario (GestorArchivos_init base) ''tareas_sync''
        \<longrightarrow> map_of (snd (sincronizar_formatos (GestorPersistencia_init base) ahora fs)) p
              = map_of fs p)
   \<and> (cargar_usuarios (GestorPersistencia_init base) fs ''json'' = Inr u
        \<and> verdadero u \<and> pickle_falla u = None
        \<and> se_puede_escribir fs (obtener_ruta_binario (GestorArchivos_init base) ''usuarios_sync'')
       \<longrightarrow> map_of (snd (sincronizar_formatos (GestorPersistencia_init base) ahora fs))
             (obtener_ruta_binario (GestorArchivos_init base) ''usuarios_sync'')
            = Some (Archivo (Documento u) (instante ahora)))
   \<and> (fst (sincronizar_formatos (GestorPersistencia_init base) ahora fs)
        \<and> cargar_tareas (GestorPersistencia_init base) fs ''json'' = Inr w
        \<and> verdadero w \<and> pickle_falla w = None
        \<and> se_puede_escribir fs (obtener_ruta_binario (GestorArchivos_init base) ''tareas_sync'')
       \<longrightarrow> map_of (snd (sincronizar_formatos (GestorPersistencia_init base) ahora fs))
             (obtener_ruta_binario (GestorArchivos_init base) ''tareas_sync'')
            = Some (Archivo (Documento w) (instante ahora)))"
proof -
  let ?g = "GestorArchivos_init base"
  let ?R = "sincronizar_formatos (GestorPersistencia_init base) ahora fs"
  obtain B where B: "directorio_json ?g = B @ ''json''" "directorio_binarios ?g = B @ ''binarios''"
    "directorio_backups ?g = B @ ''backups''"
    using directorios_de_init [of base] by blast
  note M = sincronizar_formatos_marco [OF B(2,3), where fs = fs and ahora = ahora]
  have a: "\<forall>p. prefix (directorio_json ?g @ ''/'') p \<longrightarrow> map_of (snd ?R) p = map_of fs p"
  proof (intro allI impI)
    fix p assume "prefix (directorio_json ?g @ ''/'') p"
    with B(1) have "prefix (B @ ''json/'') p" by simp
    from rutas_de_sincronizacion(6) [OF B(1,2) this] solo_escribe_fuera [OF M, of p]
    show "map_of (snd ?R) p = map_of fs p" by simp
  qed
  have b: "\<forall>p. \<not> prefix (directorio_backups ?g @ ''/'') p
          \<and> p \<noteq> obtener_ruta_binario ?g ''usuarios_sync''
          \<and> p \<noteq> obtener_ruta_binario ?g ''tareas_sync''
        \<longrightarrow> map_of (snd ?R) p = map_of fs p"
  proof (intro allI impI)
    fix p assume "\<not> prefix (directorio_backups ?g @ ''/'') p
          \<and> p \<noteq> obtener_ruta_binario ?g ''usuarios_sync''
          \<and> p \<noteq> obtener_ruta_binario ?g ''tareas_sync''"
    with B(3) solo_escribe_fuera [OF M, of p]
    show "map_of (snd ?R) p = map_of fs p" by simp
  qed
  have c: "cargar_usuarios (GestorPersistencia_init base) fs ''json'' = Inr u
        \<and> verdadero u \<and> pickle_falla u = None
        \<and> se_puede_escribir fs (obtener_ruta_binario ?g ''usuarios_sync'')
       \<longrightarrow> map_of (snd ?R) (obtener_ruta_binario ?g ''usuarios_sync'')
            = Some (Archivo (Documento u) (instante ahora))"
    using sincronizar_formatos_copia_usuarios [where base = base and fs = fs and u = u and ahora = ahora]
    by simp
  have d: "fst ?R
        \<and> cargar_tareas (GestorPersistencia_init base) fs ''json'' = Inr w
        \<and> verdadero w \<and> pickle_falla w = None
        \<and> se_puede_escribir fs (obtener_ruta_binario ?g ''tareas_sync'')
       \<longrightarrow> map_of (snd ?R) (obtener_ruta_binario ?g ''tareas_sync'')
            = Some (Archivo (Documento w) (instante ahora))"
    using sincronizar_formatos_copia_tareas [where base = base and fs = fs and w = w and ahora = ahora]
    by simp
  from a b c d show ?thesis by (intro conjI)
qed


theorem sincronizar_formatos_efecto_witness:
  "cargar_usuarios (GestorPersistencia_init ''data'')
      [(''data/binarios'', Directorio 7),
       (''data/json/usuarios.json'', Archivo (Documento (VList [VStr ''Ana''])) 7),
       (''data/json/tareas.json'', Archivo (Documento (VList [VStr ''Informe''])) 7)] ''json''
     = Inr (VList [VStr ''Ana''])
   \<and> verdadero (VList [VStr ''Ana''])
   \<and> pickle_falla (VList [VStr ''Ana'']) = None
   \<and> se_puede_escribir
        [(''data/binarios'', Directorio 7),
         (''data/json/usuarios.json'', Archivo (Documento (VList [VStr ''Ana''])) 7),
         (''data/json/tareas.json'', Archivo (Documento (VList [VStr ''Informe''])) 7)]
        (obtener_ruta_binario (GestorArchivos_init ''data'') ''usuarios_sync'')
   \<and> map_of (snd (sincronizar_formatos (GestorPersistencia_init ''data'')
        \<lparr>anio = 2024, mes = 1, dia = 2, hora = 3, minuto = 4, segundo = 5, microsegundo = 0\<rparr>
        [(''data/binarios'', Directorio 7),
         (''data/json/usuarios.json'', Archivo (Documento (VList [VStr ''Ana''])) 7),
         (''data/json/tareas.json'', Archivo (Documento (VList [VStr ''Informe''])) 7)]))
        (obtener_ruta_binario (GestorArchivos_init ''data'') ''usuarios_sync'')
      = Some (Archivo (Documento (VList [VStr ''Ana'']))
          (instante
            \<lparr>anio = 2024, mes = 1, dia = 2, hora = 3, minuto = 4, segundo = 5,
               microsegundo = 0\<rparr>))
   \<and> fst (sincronizar_formatos (GestorPersistencia_init ''data'')
        \<lparr>anio = 2024, mes = 1, dia = 2, hora = 3, minuto = 4, segundo = 5, microsegundo = 0\<rparr>
        [(''data/binarios'', Directorio 7),
         (''data/json/usuarios.json'', Archivo (Documento (VList [VStr ''Ana''])) 7),
         (''data/json/tareas.json'', Archivo (Documento (VList [VStr ''Informe''])) 7)])
   \<and> cargar_tareas (GestorPersistencia_init ''data'')
      [(''data/binarios'', Directorio 7),
       (''data/json/usuarios.json'', Archivo (Documento (VList [VStr ''Ana''])) 7),
       (''data/json/tareas.json'', Archivo (Documento (VList [VStr ''Informe''])) 7)] ''json''
     = Inr (VList [VStr ''Informe''])
   \<and> verdadero (VList [VStr ''Informe''])
   \<and> pickle_falla (VList [VStr ''Informe'']) = None
   \<and> se_puede_escribir
        [(''data/binarios'', Directorio 7),
         (''data/json/usuarios.json'', Archivo (Documento (VList [VStr ''Ana''])) 7),
         (''data/json/tareas.json'', Archivo (Documento (VList [VStr ''Informe''])) 7)]
        (obtener_ruta_binario (GestorArchivos_init ''data'') ''tareas_sync'')
   \<and> map_of (snd (sincronizar_formatos (GestorPersistencia_init ''data'')
        \<lparr>anio = 2024, mes = 1, dia = 2, hora = 3, minuto = 4, segundo = 5, microsegundo = 0\<rparr>
        [(''data/binarios'', Directorio 7),
         (''data/json/usuarios.json'', Archivo (Documento (VList [VStr ''Ana''])) 7),
         (''data/json/tareas.json'', Archivo (Documento (VList [VStr ''Informe''])) 7)]))
        (obtener_ruta_binario (GestorArchivos_init ''data'') ''tareas_sync'')
      = Some (Archivo (Documento (VList [VStr ''Informe'']))
          (instante
            \<lparr>anio = 2024, mes = 1, dia = 2, hora = 3, minuto = 4, segundo = 5,
               microsegundo = 0\<rparr>))
   \<and> prefix (directorio_json (GestorArchivos_init ''data'') @ ''/'') ''data/json/usuarios.json''
   \<and> map_of (snd (sincronizar_formatos (GestorPersistencia_init ''data'')
        \<lparr>anio = 2024, mes = 1, dia = 2, hora = 3, minuto = 4, segundo = 5, microsegundo = 0\<rparr>
        [(''data/binarios'', Directorio 7),
         (''data/json/usuarios.json'', Archivo (Documento (VList [VStr ''Ana''])) 7),
         (''data/json/tareas.json'', Archivo (Documento (VList [VStr ''Informe''])) 7)]))
        ''data/json/usuarios.json''
      = map_of
        [(''data/binarios'', Directorio 7),
         (''data/json/usuarios.json'', Archivo (Documento (VList [VStr ''Ana''])) 7),
         (''data/json/tareas.json'', Archivo (Documento (VList [VStr ''Informe''])) 7)]
        ''data/json/usuarios.json''
   \<and> (\<not> prefix (directorio_backups (GestorArchivos_init ''data'') @ ''/'')
          ''data/binarios/usuarios.pkl''
      \<and> ''data/binarios/usuarios.pkl''
          \<noteq> obtener_ruta_binario (GestorArchivos_init ''data'') ''usuarios_sync''
      \<and> ''data/binarios/usuarios.pkl''
          \<noteq> obtener_ruta_binario (GestorArchivos_init ''data'') ''tareas_sync'')
   \<and> map_of (snd (sincronizar_formatos (GestorPersistencia_init ''data'')
        \<lparr>anio = 2024, mes = 1, dia = 2, hora = 3, minuto = 4, segundo = 5, microsegundo = 0\<rparr>
        [(''data/binarios'', Directorio 7),
         (''data/json/usuarios.json'', Archivo (Documento (VList [VStr ''Ana''])) 7),
         (''data/json/tareas.json'', Archivo (Documento (VList [VStr ''Informe''])) 7)]))
        ''data/binarios/usuarios.pkl''
      = map_of
        [(''data/binarios'', Directorio 7),
         (''data/json/usuarios.json'', Archivo (Documento (VList [VStr ''Ana''])) 7),
         (''data/json/tareas.json'', Archivo (Documento (VList [VStr ''Informe''])) 7)]
        ''data/binarios/usuarios.pkl''"
proof -
  let ?ah = "\<lparr>anio = 2024, mes = 1, dia = 2, hora = 3, minuto = 4, segundo = 5, microsegundo = 0\<rparr>"
  let ?fs = "[(''data/binarios'', Directorio 7),
       (''data/json/usuarios.json'', Archivo (Documento (VList [VStr ''Ana''])) 7),
       (''data/json/tareas.json'', Archivo (Documento (VList [VStr ''Informe''])) 7)]"
  let ?u = "VList [VStr ''Ana'']"
  let ?w = "VList [VStr ''Informe'']"
  let ?g = "GestorArchivos_init ''data''"
  let ?gp = "GestorPersistencia_init ''data''"
  have h1: "cargar_usuarios ?gp ?fs ''json'' = Inr ?u" by code_simp
  have h2: "verdadero ?u" by simp
  have h3: "pickle_falla ?u = None" by simp
  have h4: "se_puede_escribir ?fs (obtener_ruta_binario ?g ''usuarios_sync'')" by code_simp
  have h5: "prefix (directorio_json ?g @ ''/'') ''data/json/usuarios.json''" by code_simp
  have k0: "fst (sincronizar_formatos ?gp ?ah ?fs)" by code_simp
  have k1: "cargar_tareas ?gp ?fs ''json'' = Inr ?w" by code_simp
  have k2: "verdadero ?w" by simp
  have k3: "pickle_falla ?w = None" by simp
  have k4: "se_puede_escribir ?fs (obtener_ruta_binario ?g ''tareas_sync'')" by code_simp
  have f: "\<not> prefix (directorio_backups ?g @ ''/'') ''data/binarios/usuarios.pkl''
      \<and> ''data/binarios/usuarios.pkl'' \<noteq> obtener_ruta_binario ?g ''usuarios_sync''
      \<and> ''data/binarios/usuarios.pkl'' \<noteq> obtener_ruta_binario ?g ''tareas_sync''"
    by code_simp
  note T = sincronizar_formatos_efecto [where base = "''data''" and ahora = ?ah and fs = ?fs
      and u = ?u and w = ?w]
  note U = T [THEN conjunct2, THEN conjunct2, THEN conjunct1, THEN mp,
    OF conjI [OF h1 conjI [OF h2 conjI [OF h3 h4]]]]
  note W = T [THEN conjunct2, THEN conjunct2, THEN conjunct2, THEN mp,
    OF conjI [OF k0 conjI [OF k1 conjI [OF k2 conjI [OF k3 k4]]]]]
  note V = T [THEN conjunct1, THEN spec, THEN mp, OF h5]
  note F = T [THEN conjunct2, THEN conjunct1, THEN spec, THEN mp, OF f]
  note f1 = f [THEN conjunct1]
  note f2 = f [THEN conjunct2, THEN conjunct1]
  note f3 = f [THEN conjunct2, THEN conjunct2]
  from h1 h2 h3 h4 U k0 k1 k2 k3 k4 W h5 V f1 f2 f3 F show ?thesis by (intro conjI)
qed

end
